theory Spec2Isabelle
  imports Complex_Main "HOL-Library.Log_Nat" "HOL-Library.Word"
begin

section \<open>Strings\<close>

text \<open>
  A Go \<^verbatim>\<open>string\<close> is a sequence of bytes; it is modelled as \<^typ>\<open>string\<close> (a list of
  \<^typ>\<open>char\<close>, one per byte). Text outside ASCII is written as its UTF-8 bytes.
\<close>

definition newline :: string where
  "newline = [CHR 0x0A]"

section \<open>The postal-code validator\<close>

text \<open>
  Both services hold the same function:
  \<^verbatim>\<open>func validateCEP(cep string) bool { re := regexp.MustCompile(`^\d{8}$`); return re.MatchString(cep) }\<close>
  The pattern is parsed by Go's \<^verbatim>\<open>regexp\<close> package (RE2 syntax, no flags) into the
  concatenation of: the empty-width assertion "beginning of text" (\<^verbatim>\<open>^\<close> without the
  multi-line flag), the class \<^verbatim>\<open>[0-9]\<close> (\<^verbatim>\<open>\d\<close> is ASCII only) repeated exactly 8
  times, and the assertion "end of text" (\<^verbatim>\<open>$\<close> without the multi-line flag, which does
  not accept a trailing newline). \<open>re_ends re s i\<close> lists the positions where a match of
  \<open>re\<close> that starts at position \<open>i\<close> of \<open>s\<close> can end; \<open>MatchString\<close> looks for a match
  starting anywhere, as the unanchored search of the library does. A character class
  is a range of code points; the bytes of a multi-byte rune are all above 127, so
  comparing bytes against an ASCII range agrees with comparing runes.
\<close>

datatype regexp =
    BeginText
  | EndText
  | CharRange nat nat
  | Concat regexp regexp
  | Repeat regexp nat

primrec re_ends :: "regexp \<Rightarrow> string \<Rightarrow> nat \<Rightarrow> nat list" where
  "re_ends BeginText s i = (if i = 0 then [i] else [])"
| "re_ends EndText s i = (if i = length s then [i] else [])"
| "re_ends (CharRange lo hi) s i =
     (if i < length s \<and> lo \<le> of_char (s ! i) \<and> of_char (s ! i) \<le> hi then [Suc i] else [])"
| "re_ends (Concat a b) s i = concat (map (re_ends b s) (re_ends a s i))"
| "re_ends (Repeat a n) s i = ((\<lambda>ps. concat (map (re_ends a s) ps)) ^^ n) [i]"

definition MatchString :: "regexp \<Rightarrow> string \<Rightarrow> bool" where
  "MatchString re s = list_ex (\<lambda>i. re_ends re s i \<noteq> []) [0..<Suc (length s)]"

definition cep_regexp :: regexp where
  "cep_regexp = Concat BeginText (Concat (Repeat (CharRange 48 57) 8) EndText)"

definition validateCEP :: "string \<Rightarrow> bool" where
  "validateCEP cep = MatchString cep_regexp cep"

definition is_digit :: "char \<Rightarrow> bool" where
  "is_digit c = (c \<in> set ''0123456789'')"

section \<open>Binary64 floating point\<close>

text \<open>
  A Go \<^verbatim>\<open>float64\<close> is an IEEE 754 binary64 number. A finite one is modelled by the
  rational it denotes (\<open>Fin\<close>); the two zeros are both \<open>Fin 0\<close>: they are equal in
  Go and differ only in the sign they are printed with, so that an address or a body
  written from a zero stands for either print. \<open>f64_round\<close> is
  rounding to nearest, ties to even: a significand of 53 bits, the least exponent
  \<open>-1074\<close> (subnormal numbers), and overflow to infinity from \<open>2 ^ 1024\<close> on.
  Multiplication and addition round the exact result.
\<close>

datatype f64 = Fin rat | PInf | NInf | NaN

definition pow2 :: "int \<Rightarrow> rat" where
  "pow2 k = (if 0 \<le> k then 2 ^ nat k else 1 / 2 ^ nat (- k))"

text \<open>\<open>ilog2 x\<close> is the integer part of the binary logarithm of a positive \<open>x\<close>.\<close>

definition ilog2 :: "rat \<Rightarrow> int" where
  "ilog2 x = (case quotient_of x of (n, d) \<Rightarrow>
     let k = bitlen n - bitlen d in if pow2 k \<le> x then k else k - 1)"

definition round_half_even :: "rat \<Rightarrow> int" where
  "round_half_even x =
     (let f = \<lfloor>x\<rfloor>; d = x - of_int f
      in if d < 1 / 2 then f else if 1 / 2 < d then f + 1 else if even f then f else f + 1)"

definition f64_round :: "rat \<Rightarrow> f64" where
  "f64_round x =
     (if x = 0 then Fin 0
      else let a = \<bar>x\<bar>;
               q = max (ilog2 a - 52) (- 1074);
               m = round_half_even (a / pow2 q)
           in if 1025 \<le> bitlen m + q then (if 0 < x then PInf else NInf)
              else Fin (sgn x * of_int m * pow2 q))"

fun f64_mul :: "f64 \<Rightarrow> f64 \<Rightarrow> f64" where
  "f64_mul NaN _ = NaN"
| "f64_mul _ NaN = NaN"
| "f64_mul (Fin a) (Fin b) = f64_round (a * b)"
| "f64_mul (Fin a) PInf = (if a = 0 then NaN else if 0 < a then PInf else NInf)"
| "f64_mul (Fin a) NInf = (if a = 0 then NaN else if 0 < a then NInf else PInf)"
| "f64_mul PInf (Fin b) = (if b = 0 then NaN else if 0 < b then PInf else NInf)"
| "f64_mul NInf (Fin b) = (if b = 0 then NaN else if 0 < b then NInf else PInf)"
| "f64_mul PInf PInf = PInf"
| "f64_mul PInf NInf = NInf"
| "f64_mul NInf PInf = NInf"
| "f64_mul NInf NInf = PInf"

fun f64_add :: "f64 \<Rightarrow> f64 \<Rightarrow> f64" where
  "f64_add NaN _ = NaN"
| "f64_add _ NaN = NaN"
| "f64_add (Fin a) (Fin b) = f64_round (a + b)"
| "f64_add (Fin a) PInf = PInf"
| "f64_add (Fin a) NInf = NInf"
| "f64_add PInf (Fin b) = PInf"
| "f64_add NInf (Fin b) = NInf"
| "f64_add PInf PInf = PInf"
| "f64_add PInf NInf = NaN"
| "f64_add NInf PInf = NaN"
| "f64_add NInf NInf = NInf"

fun is_finite :: "f64 \<Rightarrow> bool" where
  "is_finite (Fin a) = True"
| "is_finite PInf = False"
| "is_finite NInf = False"
| "is_finite NaN = False"

text \<open>
  The language lets an implementation fuse \<^verbatim>\<open>x*y + z\<close> into one operation that rounds
  once ("An implementation may combine multiple floating-point operations into a
  single fused operation, possibly across statements, and produce a result that
  differs from the value obtained by executing and rounding the instructions
  individually"), and the compiler does so for some targets. \<open>f64_fma\<close> is the fused
  operation: the exact product and sum of finite arguments, rounded once; a summand
  that is not finite is the result when the factors are finite; and with a factor
  that is not finite the product needs no rounding. \<open>mul_add fused x y z\<close> is the
  value of the expression \<^verbatim>\<open>x*y + z\<close> in a build that fuses it, or does not.
\<close>

fun f64_fma :: "f64 \<Rightarrow> f64 \<Rightarrow> f64 \<Rightarrow> f64" where
  "f64_fma (Fin a) (Fin b) (Fin c) = f64_round (a * b + c)"
| "f64_fma (Fin a) (Fin b) z = z"
| "f64_fma x y z = f64_add (f64_mul x y) z"

definition mul_add :: "bool \<Rightarrow> f64 \<Rightarrow> f64 \<Rightarrow> f64 \<Rightarrow> f64" where
  "mul_add fused x y z = (if fused then f64_fma x y z else f64_add (f64_mul x y) z)"

section \<open>The temperature converter\<close>

text \<open>
  \<^verbatim>\<open>func convertTemps(celsius float64, cidade string) TempResp {
    return TempResp{City: cidade, TempC: celsius, TempF: celsius*1.8 + 32, TempK: celsius + 273} }\<close>
  The untyped constants \<^verbatim>\<open>1.8\<close>, \<^verbatim>\<open>32\<close> and \<^verbatim>\<open>273\<close> become the nearest
  \<^verbatim>\<open>float64\<close>: \<open>f64_round (9 / 5)\<close>, and the integers themselves. The source does
  not say for which target it is built, so whether \<^verbatim>\<open>celsius*1.8 + 32\<close> is fused is a
  parameter of the function: \<open>fused\<close>.
\<close>

record TempResp =
  City :: string
  TempC :: f64
  TempF :: f64
  TempK :: f64

definition convertTemps :: "bool \<Rightarrow> f64 \<Rightarrow> string \<Rightarrow> TempResp" where
  "convertTemps fused celsius cidade =
     \<lparr>City = cidade,
      TempC = celsius,
      TempF = mul_add fused celsius (f64_round (9 / 5)) (Fin 32),
      TempK = f64_add celsius (Fin 273)\<rparr>"

section \<open>JSON documents and their decoding\<close>

text \<open>
  The bodies that the services decode are modelled after lexical analysis, by what
  the scanner of \<^verbatim>\<open>encoding/json\<close> finds in the bytes:
  \<^item> \<open>Doc j\<close>: one JSON value \<open>j\<close>, with nothing but white space around it;
  \<^item> \<open>DocExtra j\<close>: a JSON value \<open>j\<close> at the start, and after it other bytes that are
    not white space (whatever they are);
  \<^item> \<open>Malformed\<close>: no JSON value at the start (this includes the empty body, a body
    that cannot be read, and a value nested deeper than the scanner allows).

  So a body is a well-formed JSON text exactly when it is a \<open>Doc\<close>. A number holds the
  rational its literal denotes; the members of an object are kept in the order of the
  text, duplicates included; keys and strings are the unquoted bytes.
\<close>

datatype json =
    JNull
  | JBool bool
  | JNumber rat
  | JString string
  | JArray "json list"
  | JObject "(string \<times> json) list"

datatype body_scan = Malformed | Doc json | DocExtra json

datatype error =
    TransportError
  | ReadError
  | SyntaxError
  | UnmarshalTypeError
  | Errorf string

text \<open>
  \<^verbatim>\<open>encoding/json\<close> matches an object key to a struct field by name, "preferring an
  exact match but also accepting a case-insensitive match". The case-insensitive
  comparison folds runes: an ASCII letter to its upper case, and the two runes outside
  ASCII that fold to an ASCII letter, U+017F (bytes C5 BF) to \<open>S\<close> and U+212A (bytes
  E2 84 AA) to \<open>K\<close>. \<open>fold_eq_ascii name key\<close> is that comparison for a field name of
  ASCII characters, as all field names of this program are.
\<close>

definition ascii_upper :: "char \<Rightarrow> char" where
  "ascii_upper c =
     (let n = of_char c :: nat in if 97 \<le> n \<and> n \<le> 122 then char_of (n - 32) else c)"

fun fold_eq_ascii :: "string \<Rightarrow> string \<Rightarrow> bool" where
  "fold_eq_ascii [] [] = True"
| "fold_eq_ascii [] (c # cs) = False"
| "fold_eq_ascii (n # ns) [] = False"
| "fold_eq_ascii (n # ns) (c # cs) =
     (if (of_char c :: nat) < 128 then ascii_upper c = ascii_upper n \<and> fold_eq_ascii ns cs
      else if take 2 (c # cs) = [CHR 0xC5, CHR 0xBF]
        then ascii_upper n = CHR ''S'' \<and> fold_eq_ascii ns (drop 1 cs)
      else if take 3 (c # cs) = [CHR 0xE2, CHR 0x84, CHR 0xAA]
        then ascii_upper n = CHR ''K'' \<and> fold_eq_ascii ns (drop 2 cs)
      else False)"

text \<open>
  A struct type is described by its fields: the JSON name of each, and how a value is
  decoded into it. Decoding stores into a struct that already has values (the zero
  values, for a fresh variable): a member that matches no field is skipped,
  \<^verbatim>\<open>null\<close> leaves the target as it is, a later duplicate of a key decodes over the
  earlier one. The library records the first type mismatch and goes on decoding; the
  callers here all give up on any error, so the model stops at the first.
\<close>

type_synonym 'a field = "string \<times> (json \<Rightarrow> 'a \<Rightarrow> error + 'a)"

definition find_field :: "'a field list \<Rightarrow> string \<Rightarrow> 'a field option" where
  "find_field fs k =
     (case find (\<lambda>f. fst f = k) fs of
        Some f \<Rightarrow> Some f
      | None \<Rightarrow> find (\<lambda>f. fold_eq_ascii (fst f) k) fs)"

fun decode_members :: "'a field list \<Rightarrow> (string \<times> json) list \<Rightarrow> 'a \<Rightarrow> error + 'a" where
  "decode_members fs [] x = Inr x"
| "decode_members fs (kv # kvs) x =
     (case find_field fs (fst kv) of
        None \<Rightarrow> decode_members fs kvs x
      | Some f \<Rightarrow>
          (case snd f (snd kv) x of
             Inl e \<Rightarrow> Inl e
           | Inr x' \<Rightarrow> decode_members fs kvs x'))"

definition decode_struct :: "'a field list \<Rightarrow> json \<Rightarrow> 'a \<Rightarrow> error + 'a" where
  "decode_struct fs j x =
     (case j of
        JNull \<Rightarrow> Inr x
      | JObject kvs \<Rightarrow> decode_members fs kvs x
      | _ \<Rightarrow> Inl UnmarshalTypeError)"

definition decode_string :: "json \<Rightarrow> string \<Rightarrow> error + string" where
  "decode_string j cur =
     (case j of
        JNull \<Rightarrow> Inr cur
      | JString s \<Rightarrow> Inr s
      | _ \<Rightarrow> Inl UnmarshalTypeError)"

text \<open>A number that overflows \<^verbatim>\<open>float64\<close> is a type error of the decoder.\<close>

definition decode_float64 :: "json \<Rightarrow> f64 \<Rightarrow> error + f64" where
  "decode_float64 j cur =
     (case j of
        JNull \<Rightarrow> Inr cur
      | JNumber x \<Rightarrow> (if is_finite (f64_round x) then Inr (f64_round x) else Inl UnmarshalTypeError)
      | _ \<Rightarrow> Inl UnmarshalTypeError)"

text \<open>
  A slice is a window on an array: \<open>elems\<close> are the elements up to its length, and
  \<open>spare\<close> is what the array holds after them, as far as it was ever written (the rest
  of the array holds zero values). The nil slice and the empty slice have no
  elements; the program reads the length and the elements only.
\<close>

record 'a slice =
  elems :: "'a list"
  spare :: "'a list"

definition nil_slice :: "'a slice" where
  "nil_slice = \<lparr>elems = [], spare = []\<rparr>"

text \<open>
  Decoding an array into a slice (\<^verbatim>\<open>decodeState.array\<close>) stores the \<open>i\<close>-th element of
  the array into the \<open>i\<close>-th place of the slice's array with the value that place
  holds: "To unmarshal a JSON array into a slice, Unmarshal resets the slice length
  to zero and then appends each element to the slice", and the appended place is not
  cleared first. So the element is decoded into the element that is there, that of a
  former array under the same key if there was one, and into the zero value \<open>z\<close>
  beyond those. The length becomes that of the array; the empty array gives a fresh
  empty slice, and \<^verbatim>\<open>null\<close> the nil slice. \<open>decode_elems d z slots js\<close> decodes the
  elements \<open>js\<close> into the places \<open>slots\<close>.
\<close>

fun decode_elems ::
  "(json \<Rightarrow> 'a \<Rightarrow> error + 'a) \<Rightarrow> 'a \<Rightarrow> 'a list \<Rightarrow> json list \<Rightarrow> error + 'a list" where
  "decode_elems d z slots [] = Inr []"
| "decode_elems d z slots (j # js) =
     (case d j (case slots of [] \<Rightarrow> z | x # rest \<Rightarrow> x) of
        Inl e \<Rightarrow> Inl e
      | Inr x \<Rightarrow>
          (case decode_elems d z (tl slots) js of
             Inl e \<Rightarrow> Inl e
           | Inr xs \<Rightarrow> Inr (x # xs)))"

definition decode_slice ::
  "(json \<Rightarrow> 'a \<Rightarrow> error + 'a) \<Rightarrow> 'a \<Rightarrow> json \<Rightarrow> 'a slice \<Rightarrow> error + 'a slice" where
  "decode_slice d z j cur =
     (case j of
        JNull \<Rightarrow> Inr nil_slice
      | JArray js \<Rightarrow>
          if js = [] then Inr nil_slice
          else (case decode_elems d z (elems cur @ spare cur) js of
                  Inl e \<Rightarrow> Inl e
                | Inr xs \<Rightarrow> Inr \<lparr>elems = xs, spare = drop (length js) (elems cur @ spare cur)\<rparr>)
      | _ \<Rightarrow> Inl UnmarshalTypeError)"

definition store :: "error + 'b \<Rightarrow> ('b \<Rightarrow> 'a) \<Rightarrow> error + 'a" where
  "store res upd = (case res of Inl e \<Rightarrow> Inl e | Inr v \<Rightarrow> Inr (upd v))"

text \<open>
  \<^verbatim>\<open>json.Unmarshal(body, &v)\<close> checks that the whole of \<open>body\<close> is one JSON value before
  it decodes it. \<^verbatim>\<open>json.NewDecoder(r).Decode(&v)\<close> reads the first JSON value of the
  stream and decodes it; it does not look at the bytes after that value.
\<close>

definition json_Unmarshal :: "'a field list \<Rightarrow> 'a \<Rightarrow> body_scan \<Rightarrow> error + 'a" where
  "json_Unmarshal fs zero b =
     (case b of
        Malformed \<Rightarrow> Inl SyntaxError
      | Doc j \<Rightarrow> decode_struct fs j zero
      | DocExtra j \<Rightarrow> Inl SyntaxError)"

definition json_Decode :: "'a field list \<Rightarrow> 'a \<Rightarrow> body_scan \<Rightarrow> error + 'a" where
  "json_Decode fs zero b =
     (case b of
        Malformed \<Rightarrow> Inl SyntaxError
      | Doc j \<Rightarrow> decode_struct fs j zero
      | DocExtra j \<Rightarrow> decode_struct fs j zero)"

subsection \<open>The struct types of the two services\<close>

text \<open>\<^verbatim>\<open>type CepRequest struct { Cep string `json:"cep"` }\<close> (servico-a)\<close>

record CepRequest =
  Cep :: string

definition CepRequest_zero :: CepRequest where
  "CepRequest_zero = \<lparr>Cep = []\<rparr>"

definition CepRequest_fields :: "CepRequest field list" where
  "CepRequest_fields =
     [(''cep'', \<lambda>j r. store (decode_string j (Cep r)) (\<lambda>s. r\<lparr>Cep := s\<rparr>))]"

text \<open>\<^verbatim>\<open>type ViaCEP struct { Localidade string `json:"localidade"`; Uf string `json:"uf"` }\<close> (servico-b)\<close>

record ViaCEP =
  Localidade :: string
  Uf :: string

definition ViaCEP_zero :: ViaCEP where
  "ViaCEP_zero = \<lparr>Localidade = [], Uf = []\<rparr>"

definition ViaCEP_fields :: "ViaCEP field list" where
  "ViaCEP_fields =
     [(''localidade'', \<lambda>j c. store (decode_string j (Localidade c)) (\<lambda>s. c\<lparr>Localidade := s\<rparr>)),
      (''uf'', \<lambda>j c. store (decode_string j (Uf c)) (\<lambda>s. c\<lparr>Uf := s\<rparr>))]"

text \<open>
  The anonymous struct of \<^verbatim>\<open>fetchWeather\<close>:
  \<^verbatim>\<open>var geoResult struct { Results []struct { Latitude float64 `json:"latitude"`; Longitude float64 `json:"longitude"` } `json:"results"` }\<close>
\<close>

record GeoEntry =
  Latitude :: f64
  Longitude :: f64

record GeoResult =
  Results :: "GeoEntry slice"

definition GeoEntry_zero :: GeoEntry where
  "GeoEntry_zero = \<lparr>Latitude = Fin 0, Longitude = Fin 0\<rparr>"

definition GeoEntry_fields :: "GeoEntry field list" where
  "GeoEntry_fields =
     [(''latitude'', \<lambda>j g. store (decode_float64 j (Latitude g)) (\<lambda>x. g\<lparr>Latitude := x\<rparr>)),
      (''longitude'', \<lambda>j g. store (decode_float64 j (Longitude g)) (\<lambda>x. g\<lparr>Longitude := x\<rparr>))]"

definition GeoResult_zero :: GeoResult where
  "GeoResult_zero = \<lparr>Results = nil_slice\<rparr>"

definition GeoResult_fields :: "GeoResult field list" where
  "GeoResult_fields =
     [(''results'', \<lambda>j g. store (decode_slice (decode_struct GeoEntry_fields) GeoEntry_zero j (Results g))
                              (\<lambda>xs. g\<lparr>Results := xs\<rparr>))]"

text \<open>\<^verbatim>\<open>type OpenMeteoResponse struct { CurrentWeather struct { Temperature float64 `json:"temperature"` } `json:"current_weather"` }\<close>\<close>

record CurrentWeatherT =
  Temperature :: f64

record OpenMeteoResponse =
  CurrentWeather :: CurrentWeatherT

definition OpenMeteoResponse_zero :: OpenMeteoResponse where
  "OpenMeteoResponse_zero = \<lparr>CurrentWeather = \<lparr>Temperature = Fin 0\<rparr>\<rparr>"

definition CurrentWeatherT_fields :: "CurrentWeatherT field list" where
  "CurrentWeatherT_fields =
     [(''temperature'', \<lambda>j w. store (decode_float64 j (Temperature w)) (\<lambda>x. w\<lparr>Temperature := x\<rparr>))]"

definition OpenMeteoResponse_fields :: "OpenMeteoResponse field list" where
  "OpenMeteoResponse_fields =
     [(''current_weather'', \<lambda>j m. store (decode_struct CurrentWeatherT_fields j (CurrentWeather m))
                                      (\<lambda>w. m\<lparr>CurrentWeather := w\<rparr>))]"

section \<open>HTTP messages\<close>

text \<open>
  The addresses the services call, by their format strings:
  \<^item> \<open>ServicoB_tempo cep\<close>: \<^verbatim>\<open>fmt.Sprintf("http://servico-b:8080/tempo?cep=%s", req.Cep)\<close>;
  \<^item> \<open>ViaCEP_ws cep\<close>: \<^verbatim>\<open>"https://viacep.com.br/ws/"+cep+"/json/"\<close>;
  \<^item> \<open>GeoSearch name\<close>: \<^verbatim>\<open>fmt.Sprintf("https://geocoding-api.open-meteo.com/v1/search?name=%s&count=1&language=pt&format=json", url.QueryEscape(cidade))\<close>,
    \<open>name\<close> being the escaped city;
  \<^item> \<open>Forecast lat lon\<close>: \<^verbatim>\<open>fmt.Sprintf("https://api.open-meteo.com/v1/forecast?latitude=%.6f&longitude=%.6f&current_weather=true", latitude, longitude)\<close>.
\<close>

datatype url =
    ServicoB_tempo string
  | ViaCEP_ws string
  | GeoSearch string
  | Forecast f64 f64

type_synonym trace_id = "128 word"

type_synonym span_id = "64 word"

text \<open>
  Of the header fields only the two that carry the trace are modelled: a well-formed
  \<^verbatim>\<open>traceparent\<close> (version 00: trace identifier, parent span identifier, sampled flag),
  \<open>None\<close> when the field is absent or unreadable, and the members of \<^verbatim>\<open>baggage\<close>.
\<close>

record traceparent =
  tp_trace :: trace_id
  tp_span :: span_id
  tp_sampled :: bool

record headers =
  h_traceparent :: "traceparent option"
  h_baggage :: "(string \<times> string) list"

definition no_headers :: headers where
  "no_headers = \<lparr>h_traceparent = None, h_baggage = []\<rparr>"

text \<open>
  A request as a handler receives it: the method, the parsed query of the address,
  the header and the body.
\<close>

record in_request =
  rq_method :: string
  rq_query :: "(string \<times> string) list"
  rq_headers :: headers
  rq_body :: body_scan

record out_request =
  out_method :: string
  out_url :: url
  out_headers :: headers

text \<open>
  What \<^verbatim>\<open>client.Do\<close> returns: an error, or a response with its status code and its
  body. \<open>rs_body\<close> is the body that the server sent. The client receives it while it
  reads: \<open>rs_cut\<close> is \<open>None\<close> when the read reaches the end of the body, and \<open>Some b\<close>
  when it ends in an error after the bytes \<open>b\<close> (a connection that breaks). The
  transport hands on no informational response other than 101, and no body with a
  status 204 or 304. \<^verbatim>\<open>io.ReadAll\<close> returns the bytes that were read, and the error.
\<close>

record 'b client_response =
  rs_status :: nat
  rs_body :: 'b
  rs_cut :: "'b option"

datatype 'b http_result = DoError | Response "'b client_response"

definition ReadAll :: "'b client_response \<Rightarrow> 'b \<times> bool" where
  "ReadAll resp = (case rs_cut resp of None \<Rightarrow> (rs_body resp, False) | Some b \<Rightarrow> (b, True))"

text \<open>
  The bytes of a response body: given as such, or \<open>Encoded t\<close>, the bytes that
  \<^verbatim>\<open>json.NewEncoder(w).Encode\<close> writes for \<open>t\<close>.
\<close>

datatype payload = Bytes string | Encoded TempResp

record response =
  rp_status :: nat
  rp_headers :: "(string \<times> string) list"
  rp_body :: payload

text \<open>
  What a handler does to its \<^verbatim>\<open>http.ResponseWriter\<close>: the header fields it sets, the
  status code and the bytes it writes; or a panic.
\<close>

datatype reply = Reply response | Panic string

fun reply_status :: "reply \<Rightarrow> nat option" where
  "reply_status (Reply rp) = Some (rp_status rp)"
| "reply_status (Panic msg) = None"

fun reply_body :: "reply \<Rightarrow> payload option" where
  "reply_body (Reply rp) = Some (rp_body rp)"
| "reply_body (Panic msg) = None"

fun reply_headers :: "reply \<Rightarrow> (string \<times> string) list" where
  "reply_headers (Reply rp) = rp_headers rp"
| "reply_headers (Panic msg) = []"

text \<open>\<^verbatim>\<open>http.Error(w, msg, code)\<close> writes a plain-text message and a newline.\<close>

definition http_Error :: "string \<Rightarrow> nat \<Rightarrow> reply" where
  "http_Error msg code =
     Reply \<lparr>rp_status = code,
            rp_headers = [(''Content-Type'', ''text/plain; charset=utf-8''),
                          (''X-Content-Type-Options'', ''nosniff'')],
            rp_body = Bytes (msg @ newline)\<rparr>"

text \<open>\<^verbatim>\<open>url.Values.Get\<close>: the first value of the key, or the empty string.\<close>

fun query_Get :: "(string \<times> string) list \<Rightarrow> string \<Rightarrow> string" where
  "query_Get [] k = []"
| "query_Get (kv # kvs) k = (if fst kv = k then snd kv else query_Get kvs k)"

text \<open>
  \<^verbatim>\<open>url.QueryEscape\<close>: letters, digits and \<^verbatim>\<open>-_.~\<close> stay, a space becomes \<^verbatim>\<open>+\<close>, any
  other byte becomes \<^verbatim>\<open>%XX\<close> in upper-case hexadecimal.
\<close>

definition unreserved :: "char \<Rightarrow> bool" where
  "unreserved c =
     (let n = of_char c :: nat
      in (48 \<le> n \<and> n \<le> 57) \<or> (65 \<le> n \<and> n \<le> 90) \<or> (97 \<le> n \<and> n \<le> 122) \<or> c \<in> set ''-_.~'')"

definition upperhex :: "nat \<Rightarrow> char" where
  "upperhex n = ''0123456789ABCDEF'' ! (n mod 16)"

definition QueryEscape :: "string \<Rightarrow> string" where
  "QueryEscape s =
     concat (map (\<lambda>c. if unreserved c then [c]
                       else if c = CHR '' '' then ''+''
                       else [CHR ''%'', upperhex (of_char c div 16), upperhex (of_char c)]) s)"

section \<open>Tracing\<close>

text \<open>
  The part of OpenTelemetry the services use. A span context is the trace identifier,
  the span identifier, the sampled flag and whether it came from another process; it
  is valid when both identifiers are non-zero. A \<^verbatim>\<open>context.Context\<close> holds the
  current span's context and the baggage.
\<close>

record span_context =
  sc_trace :: trace_id
  sc_span :: span_id
  sc_sampled :: bool
  sc_remote :: bool

definition sc_valid :: "span_context \<Rightarrow> bool" where
  "sc_valid sc = (sc_trace sc \<noteq> 0 \<and> sc_span sc \<noteq> 0)"

record go_ctx =
  ctx_span :: "span_context option"
  ctx_baggage :: "(string \<times> string) list"

definition background :: go_ctx where
  "background = \<lparr>ctx_span = None, ctx_baggage = []\<rparr>"

text \<open>
  The process-wide settings of the \<^verbatim>\<open>otel\<close> package. Until a program sets them, the
  tracer provider is the one that records nothing and the propagator is the one that
  reads and writes no header field (\<^verbatim>\<open>otel.GetTextMapPropagator\<close>: "If none has been
  set, a No-Op TextMapPropagator is returned"): \<open>otel_default\<close>. The handler and the
  transport of \<^verbatim>\<open>otelhttp\<close> take both from these settings. A composite propagator is
  the list of its parts.
\<close>

datatype tracer_provider = NoopProvider | SdkProvider string

datatype propagator = TraceContext | Baggage

record otel_global =
  g_provider :: tracer_provider
  g_propagators :: "propagator list"

definition otel_default :: otel_global where
  "otel_default = \<lparr>g_provider = NoopProvider, g_propagators = []\<rparr>"

text \<open>
  \<^verbatim>\<open>initTracer\<close> of servico-a (lines 91 to 114): creates the exporter and the provider,
  then \<^verbatim>\<open>otel.SetTracerProvider(tp)\<close>, and returns.
\<close>

definition initTracer_servico_a :: "otel_global \<Rightarrow> otel_global" where
  "initTracer_servico_a g = g\<lparr>g_provider := SdkProvider ''servico-a''\<rparr>"

text \<open>
  \<^verbatim>\<open>initTracer\<close> of servico-b (lines 193 to 222): the same, and then
  \<^verbatim>\<open>otel.SetTextMapPropagator(propagation.NewCompositeTextMapPropagator(propagation.TraceContext{}, propagation.Baggage{}))\<close>.
\<close>

definition initTracer_servico_b :: "otel_global \<Rightarrow> otel_global" where
  "initTracer_servico_b g =
     g\<lparr>g_provider := SdkProvider ''servico-b'', g_propagators := [TraceContext, Baggage]\<rparr>"

fun inject1 :: "propagator \<Rightarrow> go_ctx \<Rightarrow> headers \<Rightarrow> headers" where
  "inject1 TraceContext ctx h =
     (case ctx_span ctx of
        None \<Rightarrow> h
      | Some sc \<Rightarrow>
          if sc_valid sc
          then h\<lparr>h_traceparent :=
                   Some \<lparr>tp_trace = sc_trace sc, tp_span = sc_span sc, tp_sampled = sc_sampled sc\<rparr>\<rparr>
          else h)"
| "inject1 Baggage ctx h = (if ctx_baggage ctx = [] then h else h\<lparr>h_baggage := ctx_baggage ctx\<rparr>)"

definition Inject :: "propagator list \<Rightarrow> go_ctx \<Rightarrow> headers \<Rightarrow> headers" where
  "Inject ps ctx h = fold (\<lambda>p. inject1 p ctx) ps h"

fun extract1 :: "propagator \<Rightarrow> headers \<Rightarrow> go_ctx \<Rightarrow> go_ctx" where
  "extract1 TraceContext h ctx =
     (case h_traceparent h of
        None \<Rightarrow> ctx
      | Some tp \<Rightarrow>
          (let sc = \<lparr>sc_trace = tp_trace tp, sc_span = tp_span tp,
                     sc_sampled = tp_sampled tp, sc_remote = True\<rparr>
           in if sc_valid sc then ctx\<lparr>ctx_span := Some sc\<rparr> else ctx))"
| "extract1 Baggage h ctx = (if h_baggage h = [] then ctx else ctx\<lparr>ctx_baggage := h_baggage h\<rparr>)"

definition Extract :: "propagator list \<Rightarrow> headers \<Rightarrow> go_ctx \<Rightarrow> go_ctx" where
  "Extract ps h ctx = fold (\<lambda>p. extract1 p h) ps ctx"

text \<open>
  A process: its settings, its generator of identifiers (the \<open>n\<close>-th draw of a trace
  and of a span identifier), the network it calls, and whether it was built to fuse
  a multiplication and an addition of floating-point numbers (\<open>e_fused\<close>). Its state
  while it serves a request: the number of draws, the spans started and the requests
  sent, in order.
\<close>

record id_source =
  new_trace :: "nat \<Rightarrow> trace_id"
  new_span :: "nat \<Rightarrow> span_id"

record 'b env =
  e_otel :: otel_global
  e_ids :: id_source
  e_net :: "out_request \<Rightarrow> 'b http_result"
  e_fused :: bool

record span =
  sp_name :: string
  sp_ctx :: span_context
  sp_parent :: "span_context option"

record proc =
  p_drawn :: nat
  p_spans :: "span list"
  p_calls :: "out_request list"

text \<open>
  \<open>answers e u res\<close>: the network of the process gives \<open>res\<close> to every request for
  the address \<open>u\<close>, whatever its method and header.
\<close>

definition answers :: "'b env \<Rightarrow> url \<Rightarrow> 'b http_result \<Rightarrow> bool" where
  "answers e u res = (\<forall>rq. out_url rq = u \<longrightarrow> e_net e rq = res)"

definition proc0 :: proc where
  "proc0 = \<lparr>p_drawn = 0, p_spans = [], p_calls = []\<rparr>"

text \<open>
  \<^verbatim>\<open>tracer.Start(ctx, name)\<close>. The tracer of the provider that records nothing
  returns the context with the span context it had. The SDK's tracer starts a span in
  the trace of the context's span when that is valid, and in a new trace otherwise;
  the default sampler (parent-based, always on at the root) copies the sampled flag of
  a valid parent and samples a root.
\<close>

definition tracer_Start :: "'b env \<Rightarrow> proc \<Rightarrow> go_ctx \<Rightarrow> string \<Rightarrow> go_ctx \<times> proc" where
  "tracer_Start e p ctx name =
     (case g_provider (e_otel e) of
        NoopProvider \<Rightarrow> (ctx, p)
      | SdkProvider service \<Rightarrow>
          (let n = p_drawn p;
               parent = (case ctx_span ctx of
                           None \<Rightarrow> None
                         | Some psc \<Rightarrow> if sc_valid psc then Some psc else None);
               sc = \<lparr>sc_trace = (case parent of
                                    None \<Rightarrow> new_trace (e_ids e) n
                                  | Some psc \<Rightarrow> sc_trace psc),
                     sc_span = new_span (e_ids e) n,
                     sc_sampled = (case parent of None \<Rightarrow> True | Some psc \<Rightarrow> sc_sampled psc),
                     sc_remote = False\<rparr>
           in (ctx\<lparr>ctx_span := Some sc\<rparr>,
               p\<lparr>p_drawn := Suc n,
                 p_spans := p_spans p @ [\<lparr>sp_name = name, sp_ctx = sc, sp_parent = ctx_span ctx\<rparr>]\<rparr>)))"

text \<open>
  \<^verbatim>\<open>client.Do(req)\<close> of an \<^verbatim>\<open>http.Client{Transport: otelhttp.NewTransport(http.DefaultTransport)}\<close>:
  the transport starts a client span under the request's context, writes the context
  into the header with the process-wide propagator, and sends the request.
\<close>

definition client_Do :: "'b env \<Rightarrow> proc \<Rightarrow> go_ctx \<Rightarrow> out_request \<Rightarrow> 'b http_result \<times> proc" where
  "client_Do e p ctx rq =
     (case tracer_Start e p ctx (''HTTP '' @ out_method rq) of
        (ctx', p') \<Rightarrow>
          (let sent = rq\<lparr>out_headers := Inject (g_propagators (e_otel e)) ctx' (out_headers rq)\<rparr>
           in (e_net e sent, p'\<lparr>p_calls := p_calls p' @ [sent]\<rparr>)))"

definition new_GET :: "url \<Rightarrow> out_request" where
  "new_GET u = \<lparr>out_method = ''GET'', out_url = u, out_headers = no_headers\<rparr>"

text \<open>
  \<^verbatim>\<open>otelhttp.NewHandler(http.HandlerFunc(h), operation)\<close>: reads the context from the
  header of the request with the process-wide propagator, starts the server span
  named after the operation and calls the handler with that context.
\<close>

definition otelhttp_Handler ::
  "string \<Rightarrow> ('b env \<Rightarrow> proc \<Rightarrow> go_ctx \<Rightarrow> in_request \<Rightarrow> reply \<times> proc) \<Rightarrow> 'b env \<Rightarrow> in_request \<Rightarrow> reply \<times> proc" where
  "otelhttp_Handler operation h e r =
     (case tracer_Start e proc0 (Extract (g_propagators (e_otel e)) (rq_headers r) background) operation of
        (ctx, p) \<Rightarrow> h e p ctx r)"

section \<open>servico-a: the gateway\<close>

text \<open>
  \<^verbatim>\<open>CepHandler\<close> (servico-a/main.go, lines 45 to 84), in the order of the source: the
  span, the method, the body, the format of the code, the call of servico-b, the
  relay. \<^verbatim>\<open>body, _ := io.ReadAll(resp.Body)\<close> drops the error of the read, so what was
  read is what is written, whether the read reached the end of the body or not.
  \<^verbatim>\<open>w.WriteHeader\<close> panics on a status code below 100 or above 999, with a message that
  ends in the code (\<open>decimal\<close>).
\<close>

fun decimal :: "nat \<Rightarrow> string" where
  "decimal n =
     (if n < 10 then [char_of (48 + n)] else decimal (n div 10) @ [char_of (48 + n mod 10)])"

declare decimal.simps [simp del]

definition msg_metodo :: string where
  "msg_metodo = ''M'' @ [CHR 0xC3, CHR 0xA9] @ ''todo n'' @ [CHR 0xC3, CHR 0xA3] @ ''o permitido''"

definition msg_conectar :: string where
  "msg_conectar = ''erro ao conectar com servi'' @ [CHR 0xC3, CHR 0xA7] @ ''o B''"

definition CepHandler :: "payload env \<Rightarrow> proc \<Rightarrow> go_ctx \<Rightarrow> in_request \<Rightarrow> reply \<times> proc" where
  "CepHandler e p0 ctx0 r =
     (case tracer_Start e p0 ctx0 ''Processar CEP'' of
        (ctx, p) \<Rightarrow>
          if rq_method r \<noteq> ''POST'' then (http_Error msg_metodo 405, p)
          else
            (case json_Decode CepRequest_fields CepRequest_zero (rq_body r) of
               Inl err \<Rightarrow> (http_Error ''invalid request body'' 400, p)
             | Inr req \<Rightarrow>
                 if \<not> validateCEP (Cep req) then (http_Error ''invalid zipcode'' 422, p)
                 else
                   (case client_Do e p ctx (new_GET (ServicoB_tempo (Cep req))) of
                      (res, p') \<Rightarrow>
                        (case res of
                           DoError \<Rightarrow> (http_Error msg_conectar 500, p')
                         | Response resp \<Rightarrow>
                             (case ReadAll resp of
                                (body, err) \<Rightarrow>
                                  if rs_status resp < 100 \<or> 999 < rs_status resp
                                  then (Panic (''invalid WriteHeader code '' @ decimal (rs_status resp)), p')
                                  else (Reply \<lparr>rp_status = rs_status resp,
                                               rp_headers = [(''Content-Type'', ''application/json'')],
                                               rp_body = body\<rparr>, p'))))))"

text \<open>\<^verbatim>\<open>mux.Handle("/cep", otelhttp.NewHandler(http.HandlerFunc(CepHandler), "CepHandler"))\<close>\<close>

definition serve_cep :: "payload env \<Rightarrow> in_request \<Rightarrow> reply \<times> proc" where
  "serve_cep e r = otelhttp_Handler ''CepHandler'' CepHandler e r"

text \<open>
  The process that \<^verbatim>\<open>main\<close> of servico-a sets up. servico-a computes with no
  floating-point number: its handler reads \<open>e_fused\<close> nowhere.
\<close>

definition servico_a :: "id_source \<Rightarrow> (out_request \<Rightarrow> payload http_result) \<Rightarrow> payload env" where
  "servico_a ids network =
     \<lparr>e_otel = initTracer_servico_a otel_default, e_ids = ids, e_net = network, e_fused = False\<rparr>"

section \<open>servico-b: the orchestrator\<close>

text \<open>\<^verbatim>\<open>BuscaCEP\<close> (servico-b/main.go, lines 100 to 124).\<close>

definition BuscaCEP :: "body_scan env \<Rightarrow> proc \<Rightarrow> go_ctx \<Rightarrow> string \<Rightarrow> (error + ViaCEP) \<times> proc" where
  "BuscaCEP e p0 ctx0 cep =
     (case tracer_Start e p0 ctx0 ''ViaCEP API'' of
        (ctx, p) \<Rightarrow>
          (case client_Do e p ctx (new_GET (ViaCEP_ws cep)) of
             (res, p') \<Rightarrow>
               (case res of
                  DoError \<Rightarrow> (Inl TransportError, p')
                | Response resp \<Rightarrow>
                    (case ReadAll resp of
                       (body, err) \<Rightarrow>
                         if err then (Inl ReadError, p')
                         else (json_Unmarshal ViaCEP_fields ViaCEP_zero body, p')))))"

text \<open>
  \<^verbatim>\<open>fetchWeather\<close> (lines 126 to 182): the geocoding call, the check that there is a
  result, the forecast call with the coordinates of the first result.
\<close>

definition msg_coordenadas :: string where
  "msg_coordenadas =
     ''n'' @ [CHR 0xC3, CHR 0xA3] @ ''o foi poss'' @ [CHR 0xC3, CHR 0xAD]
       @ ''vel encontrar coordenadas para a cidade: ''"

definition fetchWeather :: "body_scan env \<Rightarrow> proc \<Rightarrow> go_ctx \<Rightarrow> string \<Rightarrow> (error + f64) \<times> proc" where
  "fetchWeather e p0 ctx0 cidade =
     (case tracer_Start e p0 ctx0 ''Buscar clima Open-Meteo'' of
        (ctx, p1) \<Rightarrow>
          (case client_Do e p1 ctx (new_GET (GeoSearch (QueryEscape cidade))) of
             (resGeo, p2) \<Rightarrow>
               (case resGeo of
                  DoError \<Rightarrow> (Inl TransportError, p2)
                | Response respGeo \<Rightarrow>
                    (case ReadAll respGeo of
                       (bodyGeo, errGeo) \<Rightarrow>
                         if errGeo then (Inl ReadError, p2)
                         else
                           (case json_Unmarshal GeoResult_fields GeoResult_zero bodyGeo of
                              Inl err \<Rightarrow> (Inl err, p2)
                            | Inr geoResult \<Rightarrow>
                                (case elems (Results geoResult) of
                                   [] \<Rightarrow> (Inl (Errorf (msg_coordenadas @ cidade)), p2)
                                 | g0 # gs \<Rightarrow>
                                     (case client_Do e p2 ctx
                                             (new_GET (Forecast (Latitude g0) (Longitude g0))) of
                                        (resWeather, p3) \<Rightarrow>
                                          (case resWeather of
                                             DoError \<Rightarrow> (Inl TransportError, p3)
                                           | Response respWeather \<Rightarrow>
                                               (case ReadAll respWeather of
                                                  (body, errWeather) \<Rightarrow>
                                                    if errWeather then (Inl ReadError, p3)
                                                    else
                                                      (case json_Unmarshal OpenMeteoResponse_fields
                                                              OpenMeteoResponse_zero body of
                                                         Inl err \<Rightarrow> (Inl err, p3)
                                                       | Inr weatherData \<Rightarrow>
                                                           (Inr (Temperature (CurrentWeather weatherData)),
                                                            p3)))))))))))"

text \<open>
  \<^verbatim>\<open>json.NewEncoder(w).Encode(temps)\<close> fails, and writes nothing, on a number that is not
  finite; the handler ignores that error.
\<close>

definition json_encodable :: "TempResp \<Rightarrow> bool" where
  "json_encodable t = (is_finite (TempC t) \<and> is_finite (TempF t) \<and> is_finite (TempK t))"

text \<open>
  \<^verbatim>\<open>WeatherHandler\<close> (lines 61 to 93). The first write sends the status 200. The
  method of the request is read nowhere. \<^verbatim>\<open>convertTemps\<close> is the one of the build.
\<close>

definition WeatherHandler :: "body_scan env \<Rightarrow> proc \<Rightarrow> go_ctx \<Rightarrow> in_request \<Rightarrow> reply \<times> proc" where
  "WeatherHandler e p0 ctx0 r =
     (case tracer_Start e p0 ctx0 ''Processar tempo por CEP'' of
        (ctx, p) \<Rightarrow>
          (let cepParam = query_Get (rq_query r) ''cep''
           in if \<not> validateCEP cepParam then (http_Error ''invalid zipcode'' 422, p)
              else
                (case BuscaCEP e p ctx cepParam of
                   (resCep, p1) \<Rightarrow>
                     (case resCep of
                        Inl err \<Rightarrow> (http_Error ''can not find zipcode'' 404, p1)
                      | Inr cepData \<Rightarrow>
                          if Localidade cepData = [] then (http_Error ''can not find zipcode'' 404, p1)
                          else
                            (case fetchWeather e p1 ctx (Localidade cepData) of
                               (resTemp, p2) \<Rightarrow>
                                 (case resTemp of
                                    Inl err \<Rightarrow> (http_Error ''erro ao buscar temperatura'' 500, p2)
                                  | Inr tempC \<Rightarrow>
                                      (let temps = convertTemps (e_fused e) tempC (Localidade cepData)
                                       in (Reply \<lparr>rp_status = 200,
                                                   rp_headers = [(''Content-Type'', ''application/json'')],
                                                   rp_body = (if json_encodable temps then Encoded temps
                                                              else Bytes [])\<rparr>, p2))))))))"

text \<open>\<^verbatim>\<open>mux.Handle("/tempo", otelhttp.NewHandler(http.HandlerFunc(WeatherHandler), "WeatherHandler"))\<close>\<close>

definition serve_tempo :: "body_scan env \<Rightarrow> in_request \<Rightarrow> reply \<times> proc" where
  "serve_tempo e r = otelhttp_Handler ''WeatherHandler'' WeatherHandler e r"

text \<open>
  The process that \<^verbatim>\<open>main\<close> of servico-b sets up, in a build that fuses
  \<^verbatim>\<open>celsius*1.8 + 32\<close> (\<open>fused\<close>) or does not.
\<close>

definition servico_b ::
  "bool \<Rightarrow> id_source \<Rightarrow> (out_request \<Rightarrow> body_scan http_result) \<Rightarrow> body_scan env" where
  "servico_b fused ids network =
     \<lparr>e_otel = initTracer_servico_b otel_default, e_ids = ids, e_net = network, e_fused = fused\<rparr>"

section \<open>The two services together\<close>

text \<open>
  The request of servico-a as servico-b receives it: the same method and header, the
  code as the only parameter of the query, no body. \<open>servico_b_net\<close> is the network of
  servico-a when servico-b answers at its address and servico-a reads its whole
  reply; \<open>servico_b_spans\<close> are the spans servico-b starts while it answers.
\<close>

definition as_inbound :: "out_request \<Rightarrow> string \<Rightarrow> in_request" where
  "as_inbound rq cep =
     \<lparr>rq_method = out_method rq, rq_query = [(''cep'', cep)],
      rq_headers = out_headers rq, rq_body = Malformed\<rparr>"

definition servico_b_net :: "body_scan env \<Rightarrow> out_request \<Rightarrow> payload http_result" where
  "servico_b_net eb rq =
     (case out_url rq of
        ServicoB_tempo cep \<Rightarrow>
          (case fst (serve_tempo eb (as_inbound rq cep)) of
             Reply rp \<Rightarrow> Response \<lparr>rs_status = rp_status rp, rs_body = rp_body rp, rs_cut = None\<rparr>
           | Panic msg \<Rightarrow> DoError)
      | _ \<Rightarrow> DoError)"

definition servico_b_spans :: "body_scan env \<Rightarrow> out_request \<Rightarrow> span list" where
  "servico_b_spans eb rq =
     (case out_url rq of
        ServicoB_tempo cep \<Rightarrow> p_spans (snd (serve_tempo eb (as_inbound rq cep)))
      | _ \<Rightarrow> [])"

definition servico_b_calls :: "body_scan env \<Rightarrow> out_request \<Rightarrow> out_request list" where
  "servico_b_calls eb rq =
     (case out_url rq of
        ServicoB_tempo cep \<Rightarrow> p_calls (snd (serve_tempo eb (as_inbound rq cep)))
      | _ \<Rightarrow> [])"

text \<open>
  The trace identifiers of a list of spans. \<open>header_trace h\<close> is the trace identifier
  that a receiver reads from the header \<open>h\<close>: the one of a \<^verbatim>\<open>traceparent\<close> whose
  identifiers are not zero, if there is one.
\<close>

definition span_traces :: "span list \<Rightarrow> trace_id list" where
  "span_traces sps = map (\<lambda>sp. sc_trace (sp_ctx sp)) sps"

definition header_trace :: "headers \<Rightarrow> trace_id option" where
  "header_trace h =
     (case h_traceparent h of
        None \<Rightarrow> None
      | Some tp \<Rightarrow> if tp_trace tp \<noteq> 0 \<and> tp_span tp \<noteq> 0 then Some (tp_trace tp) else None)"

definition header_traces :: "out_request list \<Rightarrow> trace_id option list" where
  "header_traces rqs = map (\<lambda>rq. header_trace (out_headers rq)) rqs"

section \<open>Notions used to state the properties\<close>

text \<open>
  The three call sites of servico-b treat the result of \<^verbatim>\<open>client.Do\<close> alike: the
  error of the call, else the error of reading the body, else the result of
  \<^verbatim>\<open>json.Unmarshal\<close>. \<open>decoded\<close> names that outcome.
\<close>

definition decoded :: "'a field list \<Rightarrow> 'a \<Rightarrow> body_scan http_result \<Rightarrow> error + 'a" where
  "decoded fs zero res =
     (case res of
        DoError \<Rightarrow> Inl TransportError
      | Response resp \<Rightarrow>
          (case ReadAll resp of
             (body, err) \<Rightarrow> if err then Inl ReadError else json_Unmarshal fs zero body))"

text \<open>
  What a request body asks of the gateway, read off the body itself. \<open>first_value\<close> is
  the JSON value at the start of the body. \<open>cep_keys\<close> are the keys that are \<^verbatim>\<open>cep\<close> in
  some mix of upper and lower case, and \<open>cep_members\<close> the values of the members of an
  object under such a key, in the order of the text. \<open>request_of b\<close> is the code that
  the body \<open>b\<close> carries: none when the body does not start with a JSON value, when
  that value is neither an object nor \<^verbatim>\<open>null\<close>, or when a member under such a key holds
  something other than a string or \<^verbatim>\<open>null\<close>; otherwise the string of the last such
  member that holds a string, and the empty string when there is none.
\<close>

fun first_value :: "body_scan \<Rightarrow> json option" where
  "first_value Malformed = None"
| "first_value (Doc j) = Some j"
| "first_value (DocExtra j) = Some j"

definition cep_keys :: "string list" where
  "cep_keys = [''cep'', ''ceP'', ''cEp'', ''cEP'', ''Cep'', ''CeP'', ''CEp'', ''CEP'']"

definition cep_members :: "(string \<times> json) list \<Rightarrow> json list" where
  "cep_members kvs = map snd (filter (\<lambda>kv. fst kv \<in> set cep_keys) kvs)"

fun string_or_null :: "json \<Rightarrow> bool" where
  "string_or_null JNull = True"
| "string_or_null (JString s) = True"
| "string_or_null j = False"

fun last_string :: "json list \<Rightarrow> string \<Rightarrow> string" where
  "last_string [] s = s"
| "last_string (JString t # vs) s = last_string vs t"
| "last_string (v # vs) s = last_string vs s"

definition request_of :: "body_scan \<Rightarrow> string option" where
  "request_of b =
     (case first_value b of
        None \<Rightarrow> None
      | Some j \<Rightarrow>
          (case j of
             JNull \<Rightarrow> Some []
           | JObject kvs \<Rightarrow>
               if list_all string_or_null (cep_members kvs)
               then Some (last_string (cep_members kvs) [])
               else None
           | _ \<Rightarrow> None))"

text \<open>
  \<open>cut b res\<close>: the response \<open>res\<close>, received over a connection that breaks after the
  bytes \<open>b\<close> of its body.
\<close>

fun cut :: "'b \<Rightarrow> 'b http_result \<Rightarrow> 'b http_result" where
  "cut b DoError = DoError"
| "cut b (Response resp) = Response (resp\<lparr>rs_cut := Some b\<rparr>)"

text \<open>
  The SDK's generator never yields an identifier that is zero: \<open>valid_ids\<close>.
  \<open>in_trace t ctx\<close>: the context holds a valid span context of the trace \<open>t\<close>.
  \<open>carried e t\<close>: the trace identifier in the \<^verbatim>\<open>traceparent\<close> that the process writes
  into a request sent under a context of the trace \<open>t\<close>; none without the
  trace-context propagator. \<open>grows t h p p'\<close>: from the state \<open>p\<close> to the state \<open>p'\<close> the
  process has only started spans of the trace \<open>t\<close> and only sent requests whose header
  carries \<open>h\<close>. \<open>request_trace e r\<close>: the trace that the server span of the request \<open>r\<close>
  belongs to, the one of a valid \<^verbatim>\<open>traceparent\<close> that the process reads, or else a new one.
\<close>

definition valid_ids :: "id_source \<Rightarrow> bool" where
  "valid_ids ids = (\<forall>n. new_trace ids n \<noteq> 0 \<and> new_span ids n \<noteq> 0)"

definition in_trace :: "trace_id \<Rightarrow> go_ctx \<Rightarrow> bool" where
  "in_trace t ctx = (case ctx_span ctx of None \<Rightarrow> False | Some sc \<Rightarrow> sc_valid sc \<and> sc_trace sc = t)"

definition carried :: "'b env \<Rightarrow> trace_id \<Rightarrow> trace_id option" where
  "carried e t = (if TraceContext \<in> set (g_propagators (e_otel e)) then Some t else None)"

definition grows :: "trace_id \<Rightarrow> trace_id option \<Rightarrow> proc \<Rightarrow> proc \<Rightarrow> bool" where
  "grows t h p p' =
     (\<exists>sps cs. p_spans p' = p_spans p @ sps \<and> list_all (\<lambda>sp. sc_trace (sp_ctx sp) = t) sps
        \<and> p_calls p' = p_calls p @ cs
        \<and> list_all (\<lambda>rq. header_trace (out_headers rq) = h) cs)"

definition request_trace :: "'b env \<Rightarrow> in_request \<Rightarrow> trace_id" where
  "request_trace e r =
     (case header_trace (rq_headers r) of
        None \<Rightarrow> new_trace (e_ids e) 0
      | Some t \<Rightarrow>
          if TraceContext \<in> set (g_propagators (e_otel e)) then t else new_trace (e_ids e) 0)"

text \<open>
  Concrete inputs, for running the model: generators of identifiers for the two
  processes, external services that answer the three calls of servico-b, and
  requests to the two services. \<open>geo_repeated\<close> is the geocoding body
  \<^verbatim>\<open>{"results": [{"latitude": 1, "longitude": 2}], "results": [{}]}\<close>.
\<close>

definition ids_a :: id_source where
  "ids_a = \<lparr>new_trace = (\<lambda>n. 11 + 2 * of_nat n), new_span = (\<lambda>n. 101 + 2 * of_nat n)\<rparr>"

definition ids_b :: id_source where
  "ids_b = \<lparr>new_trace = (\<lambda>n. 21 + 2 * of_nat n), new_span = (\<lambda>n. 201 + 2 * of_nat n)\<rparr>"

definition ok_response :: "'b \<Rightarrow> 'b http_result" where
  "ok_response b = Response \<lparr>rs_status = 200, rs_body = b, rs_cut = None\<rparr>"

definition viacep_sao_paulo :: "body_scan http_result" where
  "viacep_sao_paulo =
     ok_response (Doc (JObject [(''localidade'', JString ''Sao Paulo''), (''uf'', JString ''SP'')]))"

definition viacep_unknown :: "body_scan http_result" where
  "viacep_unknown = ok_response (Doc (JObject [(''erro'', JString ''true'')]))"

definition geo_sao_paulo :: "body_scan http_result" where
  "geo_sao_paulo =
     ok_response (Doc (JObject [(''results'',
       JArray [JObject [(''latitude'', JNumber (- 2355 / 100)),
                        (''longitude'', JNumber (- 4663 / 100))]])]))"

definition geo_repeated :: "body_scan http_result" where
  "geo_repeated =
     ok_response (Doc (JObject [(''results'',
       JArray [JObject [(''latitude'', JNumber 1), (''longitude'', JNumber 2)]]),
       (''results'', JArray [JObject []])]))"

definition geo_no_match :: "body_scan http_result" where
  "geo_no_match = ok_response (Doc (JObject [(''generationtime_ms'', JNumber (1 / 2))]))"

definition forecast_25 :: "body_scan http_result" where
  "forecast_25 =
     ok_response (Doc (JObject [(''current_weather'', JObject [(''temperature'', JNumber 25)])]))"

definition external ::
  "body_scan http_result \<Rightarrow> body_scan http_result \<Rightarrow> body_scan http_result
     \<Rightarrow> out_request \<Rightarrow> body_scan http_result" where
  "external viacep geo forecast rq =
     (case out_url rq of
        ServicoB_tempo cep \<Rightarrow> DoError
      | ViaCEP_ws cep \<Rightarrow> viacep
      | GeoSearch name \<Rightarrow> geo
      | Forecast lat lon \<Rightarrow> forecast)"

text \<open>
  External services whose geocoding answers with \<open>geo_repeated\<close> and whose forecast
  answers at the coordinates (1, 2) only.
\<close>

definition external_repeated :: "out_request \<Rightarrow> body_scan http_result" where
  "external_repeated rq =
     (case out_url rq of
        ServicoB_tempo cep \<Rightarrow> DoError
      | ViaCEP_ws cep \<Rightarrow> viacep_sao_paulo
      | GeoSearch name \<Rightarrow> geo_repeated
      | Forecast lat lon \<Rightarrow> if lat = Fin 1 \<and> lon = Fin 2 then forecast_25 else DoError)"

definition external_ok :: "out_request \<Rightarrow> body_scan http_result" where
  "external_ok = external viacep_sao_paulo geo_sao_paulo forecast_25"

definition unreachable :: "out_request \<Rightarrow> 'b http_result" where
  "unreachable rq = DoError"

definition post_cep :: "json \<Rightarrow> in_request" where
  "post_cep j = \<lparr>rq_method = ''POST'', rq_query = [], rq_headers = no_headers, rq_body = Doc j\<rparr>"

definition post_body :: "body_scan \<Rightarrow> in_request" where
  "post_body b = \<lparr>rq_method = ''POST'', rq_query = [], rq_headers = no_headers, rq_body = b\<rparr>"

definition get_tempo :: "string \<Rightarrow> in_request" where
  "get_tempo cep =
     \<lparr>rq_method = ''GET'', rq_query = [(''cep'', cep)], rq_headers = no_headers, rq_body = Malformed\<rparr>"

section \<open>Properties of the validator\<close>

lemma digits_enum: "''0123456789'' = map char_of [48..<58::nat]"
  by code_simp

lemma of_char_range_digit:
  "(48 \<le> (of_char c :: nat) \<and> (of_char c :: nat) \<le> 57) = is_digit c"
proof
  assume "48 \<le> (of_char c :: nat) \<and> (of_char c :: nat) \<le> 57"
  then have "of_char c \<in> {48..<58::nat}" by auto
  then have "of_char c \<in> set [48..<58::nat]" by (simp only: set_upt)
  then have "char_of (of_char c :: nat) \<in> set (map char_of [48..<58::nat])"
    by (simp only: set_map image_eqI)
  then show "is_digit c" by (simp only: is_digit_def digits_enum char_of_char)
next
  assume "is_digit c"
  then obtain n :: nat where n: "48 \<le> n" "n < 58" "c = char_of n"
    unfolding is_digit_def digits_enum set_map set_upt by auto
  then have "(of_char c :: nat) = n" by simp
  with n show "48 \<le> (of_char c :: nat) \<and> (of_char c :: nat) \<le> 57" by simp
qed

lemma re_ends_repeat_digit:
  "i \<le> length s \<Longrightarrow>
   re_ends (Repeat (CharRange 48 57) n) s i =
     (if i + n \<le> length s \<and> (\<forall>k<n. is_digit (s ! (i + k))) then [i + n] else [])"
proof (induction n)
  case 0
  then show ?case by simp
next
  case (Suc n)
  have "re_ends (Repeat (CharRange 48 57) (Suc n)) s i =
        concat (map (re_ends (CharRange 48 57) s) (re_ends (Repeat (CharRange 48 57) n) s i))"
    by simp
  also have "\<dots> = (if i + Suc n \<le> length s \<and> (\<forall>k<Suc n. is_digit (s ! (i + k)))
                    then [i + Suc n] else [])"
    unfolding Suc.IH[OF Suc.prems] by (auto simp: of_char_range_digit less_Suc_eq)
  finally show ?case .
qed

lemma validateCEP_nth:
  "validateCEP s \<longleftrightarrow> length s = 8 \<and> (\<forall>k<8. is_digit (s ! k))"
proof -
  have "validateCEP s \<longleftrightarrow> re_ends cep_regexp s 0 \<noteq> []"
    unfolding validateCEP_def MatchString_def list_ex_iff cep_regexp_def
    by (auto split: if_splits)
  also have "\<dots> \<longleftrightarrow> length s = 8 \<and> (\<forall>k<8. is_digit (s ! k))"
    unfolding cep_regexp_def by (auto simp: re_ends_repeat_digit simp del: re_ends.simps(5))
  finally show ?thesis .
qed

lemma validateCEP_digits:
  "validateCEP s \<longleftrightarrow> length s = 8 \<and> list_all is_digit s"
proof -
  have "(\<forall>k<8. is_digit (s ! k)) \<longleftrightarrow> (\<forall>c\<in>set s. is_digit c)" if "length s = 8"
    using that by (simp add: all_set_conv_all_nth[of s])
  then show ?thesis unfolding validateCEP_nth list_all_iff by blast
qed

lemma validateCEP_empty [simp]: "\<not> validateCEP []"
  by (simp add: validateCEP_digits)

text \<open>
  Claim C5. For every string \<open>s\<close>, \<open>validateCEP s\<close> (the same function in both
  services) is true if and only if \<open>s\<close> consists of exactly 8 ASCII decimal digits.
  The witness applies it to a valid code and to the rejected shapes: 7 digits, 9
  digits, a letter, a hyphen, a leading space, a trailing space, a trailing newline.
\<close>

theorem validateCEP_iff:
  "validateCEP s \<longleftrightarrow> length s = 8 \<and> (\<forall>c\<in>set s. c \<in> set ''0123456789'')"
  unfolding validateCEP_digits list_all_iff is_digit_def ..

theorem validateCEP_iff_witness:
  "validateCEP ''01001000'' \<and> \<not> validateCEP ''0100100'' \<and> \<not> validateCEP ''010010000''
     \<and> \<not> validateCEP ''0100100a'' \<and> \<not> validateCEP ''01001-000''
     \<and> \<not> validateCEP '' 01001000'' \<and> \<not> validateCEP ''01001000 ''
     \<and> \<not> validateCEP (''01001000'' @ newline)"
  using validateCEP_iff[of "''01001000''"] validateCEP_iff[of "''0100100''"]
    validateCEP_iff[of "''010010000''"] validateCEP_iff[of "''0100100a''"]
    validateCEP_iff[of "''01001-000''"] validateCEP_iff[of "'' 01001000''"]
    validateCEP_iff[of "''01001000 ''"] validateCEP_iff[of "''01001000'' @ newline"]
  by (simp add: newline_def)

section \<open>Properties of the converter\<close>

lemma f64_const_1_8: "f64_round (9 / 5) = Fin (8106479329266893 / 4503599627370496)"
  by code_simp

lemma fahrenheit_0: "f64_add (f64_mul (Fin 0) (f64_round (9 / 5))) (Fin 32) = Fin 32"
  by code_simp

lemma fahrenheit_100: "f64_add (f64_mul (Fin 100) (f64_round (9 / 5))) (Fin 32) = Fin 212"
  by code_simp

lemma fahrenheit_minus_40: "f64_add (f64_mul (Fin (- 40)) (f64_round (9 / 5))) (Fin 32) = Fin (- 40)"
  by code_simp

lemma kelvin_0: "f64_add (Fin 0) (Fin 273) = Fin 273"
  by code_simp

lemma kelvin_not_273_15: "f64_round (27315 / 100) \<noteq> Fin 273"
  by code_simp

lemma fahrenheit_fused:
  "f64_fma (Fin 0) (f64_round (9 / 5)) (Fin 32) = Fin 32"
  "f64_fma (Fin 100) (f64_round (9 / 5)) (Fin 32) = Fin 212"
  "f64_fma (Fin (- 40)) (f64_round (9 / 5)) (Fin 32) = Fin (- 40)"
  by code_simp+

text \<open>The Fahrenheit values of claim C4 are the same in both builds.\<close>

lemma mul_add_examples:
  "mul_add fused (Fin 0) (f64_round (9 / 5)) (Fin 32) = Fin 32"
  "mul_add fused (Fin 100) (f64_round (9 / 5)) (Fin 32) = Fin 212"
  "mul_add fused (Fin (- 40)) (f64_round (9 / 5)) (Fin 32) = Fin (- 40)"
  by (simp_all add: mul_add_def fahrenheit_0 fahrenheit_100 fahrenheit_minus_40 fahrenheit_fused
        del: f64_add.simps f64_mul.simps f64_fma.simps)

text \<open>
  The two builds do not agree on every input. At the \<^verbatim>\<open>float64\<close> that prints as
  \<^verbatim>\<open>-17.77777777777778\<close> the product rounds to \<open>-32\<close>, so the build that rounds twice
  gives 0 Fahrenheit; the build that fuses gives the rounding of the exact sum.
\<close>

lemma builds_differ:
  "f64_round (- 1777777777777778 / 100000000000000) = Fin (- 2501999792983609 / 140737488355328)"
  "mul_add False (Fin (- 2501999792983609 / 140737488355328)) (f64_round (9 / 5)) (Fin 32) = Fin 0"
  "mul_add True (Fin (- 2501999792983609 / 140737488355328)) (f64_round (9 / 5)) (Fin 32)
     = Fin (- 1401119884070821 / 633825300114114700748351602688)"
  by code_simp+

text \<open>
  Claim C4. \<open>convertTemps\<close> is a function of its arguments alone, and for every
  Celsius input \<open>c\<close> and city name, in a build that fuses and in one that does not:
  \<open>TempC = c\<close>, \<open>TempF\<close> is the value of \<^verbatim>\<open>c*1.8 + 32\<close> and \<open>TempK = c + 273\<close>, the
  operations being those of \<^verbatim>\<open>float64\<close>. In particular 0 gives 32 Fahrenheit and
  273 Kelvin, 100 gives 212 Fahrenheit, and -40 gives -40 Fahrenheit; the Kelvin
  offset is 273 and not the \<^verbatim>\<open>float64\<close> nearest to 273.15.
\<close>

theorem convertTemps_formulas:
  "convertTemps fused c cidade =
     \<lparr>City = cidade, TempC = c,
      TempF = (if fused then f64_fma c (f64_round (9 / 5)) (Fin 32)
               else f64_add (f64_mul c (f64_round (9 / 5))) (Fin 32)),
      TempK = f64_add c (Fin 273)\<rparr>
   \<and> TempF (convertTemps fused (Fin 0) cidade) = Fin 32
   \<and> TempK (convertTemps fused (Fin 0) cidade) = Fin 273
   \<and> TempF (convertTemps fused (Fin 100) cidade) = Fin 212
   \<and> TempF (convertTemps fused (Fin (- 40)) cidade) = Fin (- 40)
   \<and> TempK (convertTemps fused (Fin 0) cidade) \<noteq> f64_round (27315 / 100)"
  using kelvin_not_273_15 [symmetric]
  by (simp add: convertTemps_def mul_add_examples kelvin_0 del: f64_add.simps f64_mul.simps f64_fma.simps)
     (simp add: mul_add_def)

section \<open>Properties of the calls\<close>

lemma ReadAll_simps [simp]:
  "ReadAll \<lparr>rs_status = n, rs_body = b, rs_cut = None\<rparr> = (b, False)"
  "ReadAll \<lparr>rs_status = n, rs_body = b, rs_cut = Some b'\<rparr> = (b', True)"
  by (simp_all add: ReadAll_def)

lemma tracer_Start_calls:
  "tracer_Start e p ctx name = (ctx', p') \<Longrightarrow> p_calls p' = p_calls p"
  by (auto simp: tracer_Start_def Let_def split: tracer_provider.splits)

lemma client_Do_result:
  assumes "client_Do e p ctx rq = (res, p')"
  obtains sent where "res = e_net e sent" "out_url sent = out_url rq"
    "out_method sent = out_method rq" "p_calls p' = p_calls p @ [sent]"
proof -
  obtain ctx1 p1 where ts: "tracer_Start e p ctx (''HTTP '' @ out_method rq) = (ctx1, p1)"
    by fastforce
  let ?sent = "rq\<lparr>out_headers := Inject (g_propagators (e_otel e)) ctx1 (out_headers rq)\<rparr>"
  from assms ts have "res = e_net e ?sent" "p' = p1\<lparr>p_calls := p_calls p1 @ [?sent]\<rparr>"
    by (auto simp: client_Do_def Let_def)
  with tracer_Start_calls[OF ts] that[of ?sent] show ?thesis by simp
qed

lemma client_Do_answers:
  assumes "client_Do e p ctx rq = (res, p')" "answers e (out_url rq) ans"
  shows "res = ans"
  using assms by (auto elim!: client_Do_result simp: answers_def)

lemma client_Do_E:
  obtains res p' sent where "client_Do e p ctx rq = (res, p')" "res = e_net e sent"
    "out_url sent = out_url rq" "out_method sent = out_method rq" "p_calls p' = p_calls p @ [sent]"
proof -
  obtain res p' where "client_Do e p ctx rq = (res, p')" by fastforce
  then show ?thesis using that by (auto elim!: client_Do_result)
qed

lemma BuscaCEP_result:
  obtains sent p' where "out_url sent = ViaCEP_ws cep" "p_calls p' = p_calls p @ [sent]"
    "BuscaCEP e p ctx cep = (decoded ViaCEP_fields ViaCEP_zero (e_net e sent), p')"
proof -
  obtain ctx1 p1 where ts: "tracer_Start e p ctx ''ViaCEP API'' = (ctx1, p1)"
    by fastforce
  obtain res p' sent where cd: "client_Do e p1 ctx1 (new_GET (ViaCEP_ws cep)) = (res, p')"
    and s: "res = e_net e sent" "out_url sent = out_url (new_GET (ViaCEP_ws cep))"
      "p_calls p' = p_calls p1 @ [sent]"
    by (rule client_Do_E)
  have "BuscaCEP e p ctx cep = (decoded ViaCEP_fields ViaCEP_zero res, p')"
    using ts cd by (simp add: BuscaCEP_def decoded_def split: http_result.splits prod.splits)
  then show ?thesis
    using that[of sent p'] s tracer_Start_calls[OF ts] by (simp add: new_GET_def)
qed

lemma fetchWeather_result:
  obtains (geo_error) sentG p' err where
      "out_url sentG = GeoSearch (QueryEscape cidade)" "p_calls p' = p_calls p @ [sentG]"
      "decoded GeoResult_fields GeoResult_zero (e_net e sentG) = Inl err"
      "fetchWeather e p ctx cidade = (Inl err, p')"
  | (no_result) sentG p' g where
      "out_url sentG = GeoSearch (QueryEscape cidade)" "p_calls p' = p_calls p @ [sentG]"
      "decoded GeoResult_fields GeoResult_zero (e_net e sentG) = Inr g" "elems (Results g) = []"
      "fetchWeather e p ctx cidade = (Inl (Errorf (msg_coordenadas @ cidade)), p')"
  | (forecast) sentG sentW p' g g0 gs where
      "out_url sentG = GeoSearch (QueryEscape cidade)"
      "decoded GeoResult_fields GeoResult_zero (e_net e sentG) = Inr g" "elems (Results g) = g0 # gs"
      "out_url sentW = Forecast (Latitude g0) (Longitude g0)"
      "p_calls p' = p_calls p @ [sentG, sentW]"
      "fetchWeather e p ctx cidade =
         (case decoded OpenMeteoResponse_fields OpenMeteoResponse_zero (e_net e sentW) of
            Inl err \<Rightarrow> Inl err
          | Inr weatherData \<Rightarrow> Inr (Temperature (CurrentWeather weatherData)), p')"
proof -
  obtain ctx1 p1 where ts: "tracer_Start e p ctx ''Buscar clima Open-Meteo'' = (ctx1, p1)"
    by fastforce
  obtain resG p2 sentG where cdG: "client_Do e p1 ctx1 (new_GET (GeoSearch (QueryEscape cidade))) = (resG, p2)"
    and sG: "resG = e_net e sentG" "out_url sentG = out_url (new_GET (GeoSearch (QueryEscape cidade)))"
      "p_calls p2 = p_calls p1 @ [sentG]"
    by (rule client_Do_E)
  have urlG: "out_url sentG = GeoSearch (QueryEscape cidade)"
    using sG by (simp add: new_GET_def)
  have callsG: "p_calls p2 = p_calls p @ [sentG]"
    using sG tracer_Start_calls[OF ts] by simp
  show ?thesis
  proof (cases "decoded GeoResult_fields GeoResult_zero resG")
    case (Inl err)
    then have "fetchWeather e p ctx cidade = (Inl err, p2)"
      using ts cdG by (auto simp: fetchWeather_def decoded_def split: http_result.splits if_splits prod.splits)
    then show ?thesis using geo_error[of sentG p2 err] urlG callsG Inl sG by simp
  next
    case (Inr g)
    show ?thesis
    proof (cases "elems (Results g)")
      case Nil
      then have "fetchWeather e p ctx cidade = (Inl (Errorf (msg_coordenadas @ cidade)), p2)"
        using ts cdG Inr
        by (auto simp: fetchWeather_def decoded_def split: http_result.splits if_splits prod.splits)
      then show ?thesis using no_result[of sentG p2 g] urlG callsG Inr Nil sG by simp
    next
      case (Cons g0 gs)
      obtain resW p3 sentW where cdW:
        "client_Do e p2 ctx1 (new_GET (Forecast (Latitude g0) (Longitude g0))) = (resW, p3)"
        and sW: "resW = e_net e sentW"
          "out_url sentW = out_url (new_GET (Forecast (Latitude g0) (Longitude g0)))"
          "p_calls p3 = p_calls p2 @ [sentW]"
        by (rule client_Do_E)
      have "fetchWeather e p ctx cidade =
         (case decoded OpenMeteoResponse_fields OpenMeteoResponse_zero resW of
            Inl err \<Rightarrow> Inl err
          | Inr weatherData \<Rightarrow> Inr (Temperature (CurrentWeather weatherData)), p3)"
        using ts cdG cdW Inr Cons
        by (auto simp: fetchWeather_def decoded_def split: http_result.splits if_splits sum.splits prod.splits)
      then show ?thesis
        using forecast[of sentG g g0 gs sentW p3] urlG callsG Inr Cons sG sW
        by (simp add: new_GET_def)
    qed
  qed
qed


section \<open>Properties of servico-b\<close>

lemma decoded_DoError: "decoded fs zero DoError = Inl TransportError"
  by (simp add: decoded_def)

lemma decoded_Malformed: "decoded fs zero (ok_response Malformed) = Inl SyntaxError"
  by (simp add: decoded_def ok_response_def json_Unmarshal_def ReadAll_def)

lemma fetchWeather_geo_error:
  assumes "answers e (GeoSearch (QueryEscape cidade)) resG"
    and "decoded GeoResult_fields GeoResult_zero resG = Inl err"
  obtains sentG p' where "fetchWeather e p ctx cidade = (Inl err, p')"
    "p_calls p' = p_calls p @ [sentG]" "out_url sentG = GeoSearch (QueryEscape cidade)"
  using assms by (cases rule: fetchWeather_result[where cidade=cidade and p=p and e=e and ctx=ctx]) (auto simp: answers_def)

lemma fetchWeather_no_result:
  assumes "answers e (GeoSearch (QueryEscape cidade)) resG"
    and "decoded GeoResult_fields GeoResult_zero resG = Inr g" "elems (Results g) = []"
  obtains sentG p' where
    "fetchWeather e p ctx cidade = (Inl (Errorf (msg_coordenadas @ cidade)), p')"
    "p_calls p' = p_calls p @ [sentG]" "out_url sentG = GeoSearch (QueryEscape cidade)"
  using assms by (cases rule: fetchWeather_result[where cidade=cidade and p=p and e=e and ctx=ctx]) (auto simp: answers_def)

lemma fetchWeather_forecast:
  assumes "answers e (GeoSearch (QueryEscape cidade)) resG"
    and "decoded GeoResult_fields GeoResult_zero resG = Inr g" "elems (Results g) = g0 # gs"
    and "answers e (Forecast (Latitude g0) (Longitude g0)) resW"
  obtains sentG sentW p' where
    "fetchWeather e p ctx cidade =
       (case decoded OpenMeteoResponse_fields OpenMeteoResponse_zero resW of
          Inl err \<Rightarrow> Inl err
        | Inr weatherData \<Rightarrow> Inr (Temperature (CurrentWeather weatherData)), p')"
    "p_calls p' = p_calls p @ [sentG, sentW]" "out_url sentG = GeoSearch (QueryEscape cidade)"
    "out_url sentW = Forecast (Latitude g0) (Longitude g0)"
  using assms by (cases rule: fetchWeather_result[where cidade=cidade and p=p and e=e and ctx=ctx]) (auto simp: answers_def)

lemma WeatherHandler_invalid:
  assumes "\<not> validateCEP (query_Get (rq_query r) ''cep'')"
  obtains p' where "WeatherHandler e p ctx r = (http_Error ''invalid zipcode'' 422, p')"
    "p_calls p' = p_calls p"
proof -
  obtain ctx1 p1 where ts: "tracer_Start e p ctx ''Processar tempo por CEP'' = (ctx1, p1)"
    by fastforce
  with assms have "WeatherHandler e p ctx r = (http_Error ''invalid zipcode'' 422, p1)"
    by (simp add: WeatherHandler_def)
  then show ?thesis using that tracer_Start_calls[OF ts] by simp
qed

lemma WeatherHandler_not_found:
  assumes "validateCEP (query_Get (rq_query r) ''cep'')"
    and "answers e (ViaCEP_ws (query_Get (rq_query r) ''cep'')) res"
    and "(\<exists>err. decoded ViaCEP_fields ViaCEP_zero res = Inl err)
         \<or> (\<exists>c. decoded ViaCEP_fields ViaCEP_zero res = Inr c \<and> Localidade c = [])"
  obtains p' sent where "WeatherHandler e p ctx r = (http_Error ''can not find zipcode'' 404, p')"
    "p_calls p' = p_calls p @ [sent]" "out_url sent = ViaCEP_ws (query_Get (rq_query r) ''cep'')"
proof -
  obtain ctx1 p1 where ts: "tracer_Start e p ctx ''Processar tempo por CEP'' = (ctx1, p1)"
    by fastforce
  obtain sent p2 where b: "out_url sent = ViaCEP_ws (query_Get (rq_query r) ''cep'')"
    "p_calls p2 = p_calls p1 @ [sent]"
    "BuscaCEP e p1 ctx1 (query_Get (rq_query r) ''cep'')
       = (decoded ViaCEP_fields ViaCEP_zero (e_net e sent), p2)"
    by (rule BuscaCEP_result)
  have "e_net e sent = res" using assms(2) b(1) by (simp add: answers_def)
  with assms(1,3) ts b(3)
  have "WeatherHandler e p ctx r = (http_Error ''can not find zipcode'' 404, p2)"
    by (auto simp: WeatherHandler_def Let_def)
  then show ?thesis using that b tracer_Start_calls[OF ts] by simp
qed

lemma WeatherHandler_located:
  assumes "validateCEP (query_Get (rq_query r) ''cep'')"
    and "answers e (ViaCEP_ws (query_Get (rq_query r) ''cep'')) res"
    and "decoded ViaCEP_fields ViaCEP_zero res = Inr c" "Localidade c \<noteq> []"
  obtains ctx1 p1 sent where
    "p_calls p1 = p_calls p @ [sent]" "out_url sent = ViaCEP_ws (query_Get (rq_query r) ''cep'')"
    "\<And>err p2. fetchWeather e p1 ctx1 (Localidade c) = (Inl err, p2) \<Longrightarrow>
       WeatherHandler e p ctx r = (http_Error ''erro ao buscar temperatura'' 500, p2)"
    "\<And>tempC p2. fetchWeather e p1 ctx1 (Localidade c) = (Inr tempC, p2) \<Longrightarrow>
       WeatherHandler e p ctx r =
         (Reply \<lparr>rp_status = 200,
                 rp_headers = [(''Content-Type'', ''application/json'')],
                 rp_body = (if json_encodable (convertTemps (e_fused e) tempC (Localidade c))
                            then Encoded (convertTemps (e_fused e) tempC (Localidade c))
                            else Bytes [])\<rparr>, p2)"
proof -
  obtain ctx1 p1 where ts: "tracer_Start e p ctx ''Processar tempo por CEP'' = (ctx1, p1)"
    by fastforce
  obtain sent p2 where b: "out_url sent = ViaCEP_ws (query_Get (rq_query r) ''cep'')"
    "p_calls p2 = p_calls p1 @ [sent]"
    "BuscaCEP e p1 ctx1 (query_Get (rq_query r) ''cep'')
       = (decoded ViaCEP_fields ViaCEP_zero (e_net e sent), p2)"
    by (rule BuscaCEP_result)
  have "e_net e sent = res" using assms(2) b(1) by (simp add: answers_def)
  with assms(1,3,4) ts b(3) have
    "WeatherHandler e p ctx r =
       (case fetchWeather e p2 ctx1 (Localidade c) of
          (resTemp, p3) \<Rightarrow>
            (case resTemp of
               Inl err \<Rightarrow> (http_Error ''erro ao buscar temperatura'' 500, p3)
             | Inr tempC \<Rightarrow>
                 (let temps = convertTemps (e_fused e) tempC (Localidade c)
                  in (Reply \<lparr>rp_status = 200,
                              rp_headers = [(''Content-Type'', ''application/json'')],
                              rp_body = (if json_encodable temps then Encoded temps
                                         else Bytes [])\<rparr>, p3))))"
    by (simp add: WeatherHandler_def Let_def)
  then show ?thesis
    using that[of p2 sent ctx1] b tracer_Start_calls[OF ts] by (simp add: Let_def)
qed

lemma WeatherHandler_status:
  "reply_status (fst (WeatherHandler e p ctx r)) \<in> {Some 200, Some 404, Some 422, Some 500}"
  by (simp add: WeatherHandler_def Let_def http_Error_def
      split: prod.splits sum.splits)

lemma serve_tempo_unfold:
  obtains ctx p where "serve_tempo e r = WeatherHandler e p ctx r" "p_calls p = []"
proof -
  obtain ctx p where ts:
    "tracer_Start e proc0 (Extract (g_propagators (e_otel e)) (rq_headers r) background)
       ''WeatherHandler'' = (ctx, p)"
    by fastforce
  then have "serve_tempo e r = WeatherHandler e p ctx r"
    by (simp add: serve_tempo_def otelhttp_Handler_def)
  then show ?thesis using that tracer_Start_calls[OF ts] by (simp add: proc0_def)
qed

text \<open>
  Claim C2. In the location stage of servico-b, a transport error of the directory
  call, any other error of \<^verbatim>\<open>BuscaCEP\<close> (reading or decoding the body), and a
  decoded response whose \<^verbatim>\<open>Localidade\<close> is the empty string all have the same outcome:
  the reply is 404 with the message \<^verbatim>\<open>can not find zipcode\<close>, and the directory call is
  the only request the handler has sent.
\<close>

theorem lookup_failure_is_not_found:
  assumes "validateCEP (query_Get (rq_query r) ''cep'')"
    and "answers e (ViaCEP_ws (query_Get (rq_query r) ''cep'')) res"
    and "res = DoError
         \<or> (\<exists>err. decoded ViaCEP_fields ViaCEP_zero res = Inl err)
         \<or> (\<exists>c. decoded ViaCEP_fields ViaCEP_zero res = Inr c \<and> Localidade c = [])"
  shows "reply_status (fst (serve_tempo e r)) = Some 404
       \<and> reply_body (fst (serve_tempo e r)) = Some (Bytes (''can not find zipcode'' @ newline))
       \<and> (\<exists>sent. p_calls (snd (serve_tempo e r)) = [sent]
              \<and> out_url sent = ViaCEP_ws (query_Get (rq_query r) ''cep''))"
proof -
  obtain ctx p where s: "serve_tempo e r = WeatherHandler e p ctx r" "p_calls p = []"
    by (rule serve_tempo_unfold)
  from assms(3) have "(\<exists>err. decoded ViaCEP_fields ViaCEP_zero res = Inl err)
         \<or> (\<exists>c. decoded ViaCEP_fields ViaCEP_zero res = Inr c \<and> Localidade c = [])"
    by (auto simp: decoded_DoError)
  with assms(1,2) obtain p' sent where
    "WeatherHandler e p ctx r = (http_Error ''can not find zipcode'' 404, p')"
    "p_calls p' = p_calls p @ [sent]" "out_url sent = ViaCEP_ws (query_Get (rq_query r) ''cep'')"
    by (rule WeatherHandler_not_found)
  with s show ?thesis by (simp add: http_Error_def)
qed

lemma validateCEP_examples:
  "validateCEP ''01001000''" "validateCEP ''00000000''" "\<not> validateCEP ''1234''"
  by (simp_all add: validateCEP_digits is_digit_def)

lemma answers_external:
  "answers (servico_b fused ids (external a b c)) (ViaCEP_ws cep) a"
  "answers (servico_b fused ids (external a b c)) (GeoSearch name) b"
  "answers (servico_b fused ids (external a b c)) (Forecast lat lon) c"
  by (simp_all add: answers_def servico_b_def external_def)

lemma decoded_examples:
  "decoded ViaCEP_fields ViaCEP_zero viacep_unknown = Inr ViaCEP_zero"
  "decoded ViaCEP_fields ViaCEP_zero viacep_sao_paulo = Inr \<lparr>Localidade = ''Sao Paulo'', Uf = ''SP''\<rparr>"
  "decoded GeoResult_fields GeoResult_zero geo_no_match = Inr GeoResult_zero"
  by code_simp+

theorem lookup_failure_is_not_found_witness:
  "reply_status (fst (serve_tempo (servico_b False ids_b (external DoError geo_sao_paulo forecast_25))
       (get_tempo ''00000000''))) = Some 404
   \<and> length (p_calls (snd (serve_tempo (servico_b False ids_b (external DoError geo_sao_paulo forecast_25))
       (get_tempo ''00000000'')))) = 1
   \<and> reply_status (fst (serve_tempo (servico_b False ids_b (external viacep_unknown geo_sao_paulo forecast_25))
       (get_tempo ''00000000''))) = Some 404
   \<and> length (p_calls (snd (serve_tempo (servico_b False ids_b (external viacep_unknown geo_sao_paulo forecast_25))
       (get_tempo ''00000000'')))) = 1"
proof -
  have v: "validateCEP (query_Get (rq_query (get_tempo ''00000000'')) ''cep'')"
    by (simp add: get_tempo_def validateCEP_examples)
  have u: "decoded ViaCEP_fields ViaCEP_zero viacep_unknown = Inr ViaCEP_zero \<and> Localidade ViaCEP_zero = []"
    using decoded_examples(1) by (simp add: ViaCEP_zero_def)
  show ?thesis
    using lookup_failure_is_not_found[OF v
        answers_external(1)[where fused = False and ids = ids_b and a = DoError and b = geo_sao_paulo and c = forecast_25]]
      lookup_failure_is_not_found[OF v
        answers_external(1)[where fused = False and ids = ids_b and a = viacep_unknown and b = geo_sao_paulo and c = forecast_25]] u
    by auto
qed

text \<open>
  A key that comes twice decodes twice into the same field: the elements of the
  second array of \<open>geo_repeated\<close> are decoded into the elements of the first, and the
  empty object changes nothing, so that the coordinates are (1, 2).
\<close>

lemma decoded_geo_repeated:
  "decoded GeoResult_fields GeoResult_zero geo_repeated
     = Inr \<lparr>Results = \<lparr>elems = [\<lparr>Latitude = Fin 1, Longitude = Fin 2\<rparr>], spare = []\<rparr>\<rparr>"
  by code_simp

text \<open>
  Claim C3. After the location stage has found a city, a failure of the coordinate or
  weather stage is answered with 500 and the message \<^verbatim>\<open>erro ao buscar temperatura\<close>, never
  with 404. The failures are: a transport error of the geocoding call, an error of
  reading or decoding its body, an empty list of results, and a transport, reading or
  decoding error of the forecast call, which goes to the coordinates of the first
  result. On an empty list of results \<^verbatim>\<open>fetchWeather\<close> returns the error whose text is
  \<open>msg_coordenadas\<close> followed by the name of the city.
\<close>

theorem weather_failure_is_internal_error:
  assumes "validateCEP (query_Get (rq_query r) ''cep'')"
    and "answers e (ViaCEP_ws (query_Get (rq_query r) ''cep'')) resC"
    and "decoded ViaCEP_fields ViaCEP_zero resC = Inr c" "Localidade c \<noteq> []"
    and "answers e (GeoSearch (QueryEscape (Localidade c))) resG"
    and "resG = DoError
         \<or> (\<exists>err. decoded GeoResult_fields GeoResult_zero resG = Inl err)
         \<or> (\<exists>g. decoded GeoResult_fields GeoResult_zero resG = Inr g \<and> elems (Results g) = [])
         \<or> (\<exists>g g0 gs resW. decoded GeoResult_fields GeoResult_zero resG = Inr g
                \<and> elems (Results g) = g0 # gs
                \<and> answers e (Forecast (Latitude g0) (Longitude g0)) resW
                \<and> (resW = DoError
                     \<or> (\<exists>err. decoded OpenMeteoResponse_fields OpenMeteoResponse_zero resW = Inl err)))"
  shows "reply_status (fst (serve_tempo e r)) = Some 500
       \<and> reply_status (fst (serve_tempo e r)) \<noteq> Some 404
       \<and> reply_body (fst (serve_tempo e r)) = Some (Bytes (''erro ao buscar temperatura'' @ newline))
       \<and> ((\<exists>g. decoded GeoResult_fields GeoResult_zero resG = Inr g \<and> elems (Results g) = []) \<longrightarrow>
            (\<forall>p ctx. fst (fetchWeather e p ctx (Localidade c))
                       = Inl (Errorf (msg_coordenadas @ Localidade c))))"
proof -
  obtain ctx p where s: "serve_tempo e r = WeatherHandler e p ctx r"
    by (rule serve_tempo_unfold)
  obtain ctx1 p1 where h:
    "\<And>err p2. fetchWeather e p1 ctx1 (Localidade c) = (Inl err, p2) \<Longrightarrow>
       WeatherHandler e p ctx r = (http_Error ''erro ao buscar temperatura'' 500, p2)"
    using assms(1-4) by (rule WeatherHandler_located[where p = p and ctx = ctx]) blast
  have fails: "\<exists>err p2. fetchWeather e p1 ctx1 (Localidade c) = (Inl err, p2)"
    using assms(6)
  proof (elim disjE exE conjE)
    assume "resG = DoError"
    then have "decoded GeoResult_fields GeoResult_zero resG = Inl TransportError"
      by (simp add: decoded_DoError)
    with assms(5) show ?thesis by (rule fetchWeather_geo_error) blast
  next
    fix err assume "decoded GeoResult_fields GeoResult_zero resG = Inl err"
    with assms(5) show ?thesis by (rule fetchWeather_geo_error) blast
  next
    fix g assume "decoded GeoResult_fields GeoResult_zero resG = Inr g" "elems (Results g) = []"
    with assms(5) show ?thesis by (rule fetchWeather_no_result) blast
  next
    fix g g0 gs resW
    assume g: "decoded GeoResult_fields GeoResult_zero resG = Inr g" "elems (Results g) = g0 # gs"
      and w: "answers e (Forecast (Latitude g0) (Longitude g0)) resW" "resW = DoError"
    from assms(5) g w(1) show ?thesis
      by (rule fetchWeather_forecast[where p = p1 and ctx = ctx1])
         (use w(2) in \<open>auto simp: decoded_DoError\<close>)
  next
    fix g g0 gs resW err
    assume g: "decoded GeoResult_fields GeoResult_zero resG = Inr g" "elems (Results g) = g0 # gs"
      and w: "answers e (Forecast (Latitude g0) (Longitude g0)) resW"
        "decoded OpenMeteoResponse_fields OpenMeteoResponse_zero resW = Inl err"
    from assms(5) g w(1) show ?thesis
      by (rule fetchWeather_forecast[where p = p1 and ctx = ctx1]) (use w(2) in auto)
  qed
  then obtain err p2 where "fetchWeather e p1 ctx1 (Localidade c) = (Inl err, p2)" by blast
  then have "WeatherHandler e p ctx r = (http_Error ''erro ao buscar temperatura'' 500, p2)"
    by (rule h)
  with s have main: "reply_status (fst (serve_tempo e r)) = Some 500
       \<and> reply_status (fst (serve_tempo e r)) \<noteq> Some 404
       \<and> reply_body (fst (serve_tempo e r)) = Some (Bytes (''erro ao buscar temperatura'' @ newline))"
    by (simp add: http_Error_def)
  have named: "fst (fetchWeather e p' ctx' (Localidade c)) = Inl (Errorf (msg_coordenadas @ Localidade c))"
    if "decoded GeoResult_fields GeoResult_zero resG = Inr g" "elems (Results g) = []" for g p' ctx'
    using assms(5) that by (rule fetchWeather_no_result[where p = p' and ctx = ctx']) simp
  from main named show ?thesis by blast
qed

theorem weather_failure_is_internal_error_witness:
  "reply_status (fst (serve_tempo (servico_b False ids_b (external viacep_sao_paulo geo_no_match forecast_25))
       (get_tempo ''01001000''))) = Some 500
   \<and> fst (fetchWeather (servico_b False ids_b (external viacep_sao_paulo geo_no_match forecast_25))
            proc0 background ''Sao Paulo'') = Inl (Errorf (msg_coordenadas @ ''Sao Paulo''))
   \<and> reply_status (fst (serve_tempo (servico_b False ids_b (external viacep_sao_paulo geo_sao_paulo DoError))
       (get_tempo ''01001000''))) = Some 500
   \<and> reply_status (fst (serve_tempo (servico_b False ids_b (external viacep_sao_paulo DoError forecast_25))
       (get_tempo ''01001000''))) = Some 500
   \<and> reply_status (fst (serve_tempo (servico_b False ids_b (external viacep_sao_paulo geo_repeated DoError))
       (get_tempo ''01001000''))) = Some 500"
proof -
  let ?c = "\<lparr>Localidade = ''Sao Paulo'', Uf = ''SP''\<rparr>"
  let ?g1 = "\<lparr>Latitude = Fin 1, Longitude = Fin 2\<rparr>"
  let ?g0 = "\<lparr>Latitude = f64_round (- 2355 / 100), Longitude = f64_round (- 4663 / 100)\<rparr>"
  have v: "validateCEP (query_Get (rq_query (get_tempo ''01001000'')) ''cep'')"
    by (simp add: get_tempo_def validateCEP_examples)
  have c: "decoded ViaCEP_fields ViaCEP_zero viacep_sao_paulo = Inr ?c" "Localidade ?c \<noteq> []"
    by (simp_all add: decoded_examples)
  have g: "decoded GeoResult_fields GeoResult_zero geo_sao_paulo = Inr \<lparr>Results = \<lparr>elems = [?g0], spare = []\<rparr>\<rparr>"
    by code_simp
  have d1: "\<exists>g. decoded GeoResult_fields GeoResult_zero geo_no_match = Inr g \<and> elems (Results g) = []"
    by (intro exI[of _ GeoResult_zero] conjI decoded_examples(3)) (simp add: GeoResult_zero_def nil_slice_def)
  have d2: "\<exists>g g0 gs resW. decoded GeoResult_fields GeoResult_zero geo_sao_paulo = Inr g
                \<and> elems (Results g) = g0 # gs
                \<and> answers (servico_b False ids_b (external viacep_sao_paulo geo_sao_paulo DoError))
                     (Forecast (Latitude g0) (Longitude g0)) resW
                \<and> (resW = DoError
                     \<or> (\<exists>err. decoded OpenMeteoResponse_fields OpenMeteoResponse_zero resW = Inl err))"
    by (intro exI[of _ "\<lparr>Results = \<lparr>elems = [?g0], spare = []\<rparr>\<rparr>"] exI[of _ ?g0] exI[of _ "[]"] exI[of _ DoError]
          conjI g answers_external(3) disjI1 refl) simp
  note t1 = weather_failure_is_internal_error[OF v
        answers_external(1)[where fused = False and ids = ids_b and a = viacep_sao_paulo and b = geo_no_match and c = forecast_25] c
        answers_external(2)[where fused = False and ids = ids_b and a = viacep_sao_paulo and b = geo_no_match and c = forecast_25]
        disjI2[OF disjI2[OF disjI1[OF d1]]]]
  note t2 = weather_failure_is_internal_error[OF v
        answers_external(1)[where fused = False and ids = ids_b and a = viacep_sao_paulo and b = geo_sao_paulo and c = DoError] c
        answers_external(2)[where fused = False and ids = ids_b and a = viacep_sao_paulo and b = geo_sao_paulo and c = DoError]
        disjI2[OF disjI2[OF disjI2[OF d2]]]]
  note t3 = weather_failure_is_internal_error[OF v
        answers_external(1)[where fused = False and ids = ids_b and a = viacep_sao_paulo and b = DoError and c = forecast_25] c
        answers_external(2)[where fused = False and ids = ids_b and a = viacep_sao_paulo and b = DoError and c = forecast_25]
        disjI1[OF refl]]
  have d4: "\<exists>g g0 gs resW. decoded GeoResult_fields GeoResult_zero geo_repeated = Inr g
                \<and> elems (Results g) = g0 # gs
                \<and> answers (servico_b False ids_b (external viacep_sao_paulo geo_repeated DoError))
                     (Forecast (Latitude g0) (Longitude g0)) resW
                \<and> (resW = DoError
                     \<or> (\<exists>err. decoded OpenMeteoResponse_fields OpenMeteoResponse_zero resW = Inl err))"
    by (intro exI[of _ "\<lparr>Results = \<lparr>elems = [?g1], spare = []\<rparr>\<rparr>"] exI[of _ ?g1] exI[of _ "[]"]
          exI[of _ DoError] conjI decoded_geo_repeated answers_external(3) disjI1 refl) simp
  note t4 = weather_failure_is_internal_error[OF v
        answers_external(1)[where fused = False and ids = ids_b and a = viacep_sao_paulo and b = geo_repeated and c = DoError] c
        answers_external(2)[where fused = False and ids = ids_b and a = viacep_sao_paulo and b = geo_repeated and c = DoError]
        disjI2[OF disjI2[OF disjI2[OF d4]]]]
  have named: "fst (fetchWeather (servico_b False ids_b (external viacep_sao_paulo geo_no_match forecast_25))
            proc0 background (Localidade ?c)) = Inl (Errorf (msg_coordenadas @ Localidade ?c))"
    using t1 d1 by blast
  have city: "Localidade ?c = ''Sao Paulo''" by simp
  from t1 t2 t3 t4 named[unfolded city] show ?thesis by blast
qed

lemma serve_tempo_success:
  assumes "validateCEP (query_Get (rq_query r) ''cep'')"
    and "answers e (ViaCEP_ws (query_Get (rq_query r) ''cep'')) resC"
    and "decoded ViaCEP_fields ViaCEP_zero resC = Inr c" "Localidade c \<noteq> []"
    and "answers e (GeoSearch (QueryEscape (Localidade c))) resG"
    and "decoded GeoResult_fields GeoResult_zero resG = Inr g" "elems (Results g) = g0 # gs"
    and "answers e (Forecast (Latitude g0) (Longitude g0)) resW"
    and "decoded OpenMeteoResponse_fields OpenMeteoResponse_zero resW = Inr w"
  shows "fst (serve_tempo e r) =
           Reply \<lparr>rp_status = 200,
                   rp_headers = [(''Content-Type'', ''application/json'')],
                   rp_body = (if json_encodable (convertTemps (e_fused e) (Temperature (CurrentWeather w)) (Localidade c))
                              then Encoded (convertTemps (e_fused e) (Temperature (CurrentWeather w)) (Localidade c))
                              else Bytes [])\<rparr>"
proof -
  obtain ctx p where s: "serve_tempo e r = WeatherHandler e p ctx r"
    by (rule serve_tempo_unfold)
  obtain ctx1 p1 where h:
    "\<And>tempC p2. fetchWeather e p1 ctx1 (Localidade c) = (Inr tempC, p2) \<Longrightarrow>
       WeatherHandler e p ctx r =
         (Reply \<lparr>rp_status = 200,
                 rp_headers = [(''Content-Type'', ''application/json'')],
                 rp_body = (if json_encodable (convertTemps (e_fused e) tempC (Localidade c))
                            then Encoded (convertTemps (e_fused e) tempC (Localidade c))
                            else Bytes [])\<rparr>, p2)"
    using assms(1-4) by (rule WeatherHandler_located[where p = p and ctx = ctx]) blast
  obtain p2 where "fetchWeather e p1 ctx1 (Localidade c) = (Inr (Temperature (CurrentWeather w)), p2)"
    using assms(5-8)
    by (rule fetchWeather_forecast[where p = p1 and ctx = ctx1]) (use assms(9) in auto)
  from h[OF this] s show ?thesis by simp
qed

lemma decoded_examples_ok:
  "decoded GeoResult_fields GeoResult_zero geo_sao_paulo
     = Inr \<lparr>Results = \<lparr>elems = [\<lparr>Latitude = f64_round (- 2355 / 100),
                                         Longitude = f64_round (- 4663 / 100)\<rparr>],
                               spare = []\<rparr>\<rparr>"
  "decoded OpenMeteoResponse_fields OpenMeteoResponse_zero forecast_25
     = Inr \<lparr>CurrentWeather = \<lparr>Temperature = Fin 25\<rparr>\<rparr>"
  by code_simp+

lemma convertTemps_25:
  "convertTemps fused (Fin 25) ''Sao Paulo''
     = \<lparr>City = ''Sao Paulo'', TempC = Fin 25, TempF = Fin 77, TempK = Fin 298\<rparr>"
proof -
  have "convertTemps True (Fin 25) ''Sao Paulo''
     = \<lparr>City = ''Sao Paulo'', TempC = Fin 25, TempF = Fin 77, TempK = Fin 298\<rparr>"
    by code_simp
  moreover have "convertTemps False (Fin 25) ''Sao Paulo''
     = \<lparr>City = ''Sao Paulo'', TempC = Fin 25, TempF = Fin 77, TempK = Fin 298\<rparr>"
    by code_simp
  ultimately show ?thesis by (cases fused) simp_all
qed

lemma serve_tempo_example:
  assumes "query_Get (rq_query r) ''cep'' = ''01001000''"
  shows "fst (serve_tempo (servico_b fused ids external_ok) r)
     = Reply \<lparr>rp_status = 200, rp_headers = [(''Content-Type'', ''application/json'')],
              rp_body = Encoded \<lparr>City = ''Sao Paulo'', TempC = Fin 25, TempF = Fin 77, TempK = Fin 298\<rparr>\<rparr>"
proof -
  let ?c = "\<lparr>Localidade = ''Sao Paulo'', Uf = ''SP''\<rparr>"
  have v: "validateCEP (query_Get (rq_query r) ''cep'')"
    by (simp add: assms validateCEP_examples)
  have c: "decoded ViaCEP_fields ViaCEP_zero viacep_sao_paulo = Inr ?c" "Localidade ?c \<noteq> []"
    by (simp_all add: decoded_examples)
  have r: "elems (Results \<lparr>Results = \<lparr>elems = [\<lparr>Latitude = f64_round (- 2355 / 100),
              Longitude = f64_round (- 4663 / 100)\<rparr>], spare = []\<rparr>\<rparr>)
             = \<lparr>Latitude = f64_round (- 2355 / 100), Longitude = f64_round (- 4663 / 100)\<rparr> # []"
    by simp
  note t = serve_tempo_success[OF v
      answers_external(1)[where fused = fused and ids = ids and a = viacep_sao_paulo and b = geo_sao_paulo and c = forecast_25]
      c
      answers_external(2)[where fused = fused and ids = ids and a = viacep_sao_paulo and b = geo_sao_paulo and c = forecast_25]
      decoded_examples_ok(1) r
      answers_external(3)[where fused = fused and ids = ids and a = viacep_sao_paulo and b = geo_sao_paulo and c = forecast_25]
      decoded_examples_ok(2)]
  have city: "Localidade ?c = ''Sao Paulo''" by simp
  have enc: "json_encodable \<lparr>City = ''Sao Paulo'', TempC = Fin 25, TempF = Fin 77, TempK = Fin 298\<rparr>"
    by (simp add: json_encodable_def)
  show ?thesis
    using t enc unfolding external_ok_def city by (simp add: convertTemps_25 del: One_nat_def)
qed

text \<open>
  With the geocoding body \<open>geo_repeated\<close> the forecast is asked at the coordinates
  (1, 2): when the forecast service answers there, and nowhere else, the reply is 200.
\<close>

lemma serve_tempo_repeated_results:
  assumes "query_Get (rq_query r) ''cep'' = ''01001000''"
  shows "fst (serve_tempo (servico_b fused ids external_repeated) r)
     = Reply \<lparr>rp_status = 200, rp_headers = [(''Content-Type'', ''application/json'')],
              rp_body = Encoded \<lparr>City = ''Sao Paulo'', TempC = Fin 25, TempF = Fin 77, TempK = Fin 298\<rparr>\<rparr>"
proof -
  let ?e = "servico_b fused ids external_repeated"
  let ?c = "\<lparr>Localidade = ''Sao Paulo'', Uf = ''SP''\<rparr>"
  let ?g = "\<lparr>Latitude = Fin 1, Longitude = Fin 2\<rparr>"
  have v: "validateCEP (query_Get (rq_query r) ''cep'')"
    by (simp add: assms validateCEP_examples)
  have c: "decoded ViaCEP_fields ViaCEP_zero viacep_sao_paulo = Inr ?c" "Localidade ?c \<noteq> []"
    by (simp_all add: decoded_examples)
  have a: "answers ?e (ViaCEP_ws cep) viacep_sao_paulo" "answers ?e (GeoSearch name) geo_repeated"
    "answers ?e (Forecast (Latitude ?g) (Longitude ?g)) forecast_25"
    "answers ?e (Forecast (Fin 0) (Fin 0)) DoError" for cep name
    by (simp_all add: answers_def servico_b_def external_repeated_def)
  have r: "elems (Results \<lparr>Results = \<lparr>elems = [?g], spare = []\<rparr>\<rparr>) = ?g # []"
    by simp
  note t = serve_tempo_success[OF v a(1) c a(2) decoded_geo_repeated r a(3) decoded_examples_ok(2)]
  have city: "Localidade ?c = ''Sao Paulo''" by simp
  have enc: "json_encodable \<lparr>City = ''Sao Paulo'', TempC = Fin 25, TempF = Fin 77, TempK = Fin 298\<rparr>"
    by (simp add: json_encodable_def)
  show ?thesis
    using t enc unfolding city by (simp add: convertTemps_25 servico_b_def del: One_nat_def)
qed

text \<open>
  Claim C9. The handler of servico-b does not look at the method: a request with any
  other method, and otherwise the same, is processed identically (the same reply, the
  same spans, the same calls), and the status is never 405; it is one of 200, 404,
  422 and 500.
\<close>

theorem method_is_ignored:
  "serve_tempo e (r\<lparr>rq_method := m\<rparr>) = serve_tempo e r
   \<and> reply_status (fst (serve_tempo e r)) \<noteq> Some 405
   \<and> reply_status (fst (serve_tempo e r)) \<in> {Some 200, Some 404, Some 422, Some 500}"
proof -
  have same: "serve_tempo e (r\<lparr>rq_method := m\<rparr>) = serve_tempo e r"
    by (simp add: serve_tempo_def otelhttp_Handler_def WeatherHandler_def)
  obtain ctx p where "serve_tempo e r = WeatherHandler e p ctx r"
    by (rule serve_tempo_unfold)
  then have "reply_status (fst (serve_tempo e r)) \<in> {Some 200, Some 404, Some 422, Some 500}"
    using WeatherHandler_status[of e p ctx r] by simp
  with same show ?thesis by auto
qed

theorem method_is_ignored_witness:
  "reply_status (fst (serve_tempo (servico_b False ids_b external_ok)
      ((get_tempo ''01001000'')\<lparr>rq_method := ''DELETE''\<rparr>))) = Some 200
   \<and> reply_status (fst (serve_tempo (servico_b False ids_b external_ok)
      ((get_tempo ''01001000'')\<lparr>rq_method := ''POST''\<rparr>))) = Some 200"
  using method_is_ignored[where e = "servico_b False ids_b external_ok" and r = "get_tempo ''01001000''"
      and m = "''DELETE''"]
    method_is_ignored[where e = "servico_b False ids_b external_ok" and r = "get_tempo ''01001000''"
      and m = "''POST''"]
    serve_tempo_example[where r = "get_tempo ''01001000''" and ids = ids_b and fused = False]
  by (simp add: get_tempo_def)

section \<open>Properties of servico-a\<close>

lemma answers_servico_a: "answers (servico_a ids (\<lambda>rq. res)) u res"
  by (simp add: answers_def servico_a_def)

text \<open>The gateway does not depend on how floating-point operations are compiled.\<close>

lemma tracer_Start_fused: "tracer_Start (e\<lparr>e_fused := b\<rparr>) p ctx name = tracer_Start e p ctx name"
  by (auto simp: tracer_Start_def Let_def split: tracer_provider.splits option.splits)

lemma client_Do_fused: "client_Do (e\<lparr>e_fused := b\<rparr>) p ctx rq = client_Do e p ctx rq"
  by (simp add: client_Do_def tracer_Start_fused)

lemma serve_cep_fused: "serve_cep (e\<lparr>e_fused := b\<rparr>) r = serve_cep e r"
  by (simp add: serve_cep_def otelhttp_Handler_def CepHandler_def tracer_Start_fused client_Do_fused
        cong: prod.case_cong sum.case_cong if_cong)

lemma serve_cep_unfold:
  obtains ctx p where "serve_cep e r = CepHandler e p ctx r" "p_calls p = []"
proof -
  obtain ctx p where ts:
    "tracer_Start e proc0 (Extract (g_propagators (e_otel e)) (rq_headers r) background)
       ''CepHandler'' = (ctx, p)"
    by fastforce
  then have "serve_cep e r = CepHandler e p ctx r"
    by (simp add: serve_cep_def otelhttp_Handler_def)
  then show ?thesis using that tracer_Start_calls[OF ts] by (simp add: proc0_def)
qed

lemma CepHandler_wrong_method:
  assumes "rq_method r \<noteq> ''POST''"
  obtains p' where "CepHandler e p ctx r = (http_Error msg_metodo 405, p')" "p_calls p' = p_calls p"
proof -
  obtain ctx1 p1 where ts: "tracer_Start e p ctx ''Processar CEP'' = (ctx1, p1)"
    by fastforce
  with assms have "CepHandler e p ctx r = (http_Error msg_metodo 405, p1)"
    by (simp add: CepHandler_def)
  then show ?thesis using that tracer_Start_calls[OF ts] by simp
qed

lemma CepHandler_bad_body:
  assumes "rq_method r = ''POST''"
    and "json_Decode CepRequest_fields CepRequest_zero (rq_body r) = Inl err"
  obtains p' where "CepHandler e p ctx r = (http_Error ''invalid request body'' 400, p')"
    "p_calls p' = p_calls p"
proof -
  obtain ctx1 p1 where ts: "tracer_Start e p ctx ''Processar CEP'' = (ctx1, p1)"
    by fastforce
  with assms have "CepHandler e p ctx r = (http_Error ''invalid request body'' 400, p1)"
    by (simp add: CepHandler_def)
  then show ?thesis using that tracer_Start_calls[OF ts] by simp
qed

lemma CepHandler_invalid:
  assumes "rq_method r = ''POST''"
    and "json_Decode CepRequest_fields CepRequest_zero (rq_body r) = Inr req"
    and "\<not> validateCEP (Cep req)"
  obtains p' where "CepHandler e p ctx r = (http_Error ''invalid zipcode'' 422, p')"
    "p_calls p' = p_calls p"
proof -
  obtain ctx1 p1 where ts: "tracer_Start e p ctx ''Processar CEP'' = (ctx1, p1)"
    by fastforce
  with assms have "CepHandler e p ctx r = (http_Error ''invalid zipcode'' 422, p1)"
    by (simp add: CepHandler_def)
  then show ?thesis using that tracer_Start_calls[OF ts] by simp
qed

lemma CepHandler_forward:
  assumes "rq_method r = ''POST''"
    and "json_Decode CepRequest_fields CepRequest_zero (rq_body r) = Inr req"
    and "validateCEP (Cep req)"
  obtains sent p' where "out_url sent = ServicoB_tempo (Cep req)" "out_method sent = ''GET''"
    "p_calls p' = p_calls p @ [sent]"
    "CepHandler e p ctx r =
       (case e_net e sent of
          DoError \<Rightarrow> http_Error msg_conectar 500
        | Response resp \<Rightarrow>
            if rs_status resp < 100 \<or> 999 < rs_status resp
            then Panic (''invalid WriteHeader code '' @ decimal (rs_status resp))
            else Reply \<lparr>rp_status = rs_status resp,
                        rp_headers = [(''Content-Type'', ''application/json'')],
                        rp_body = fst (ReadAll resp)\<rparr>, p')"
proof -
  obtain ctx1 p1 where ts: "tracer_Start e p ctx ''Processar CEP'' = (ctx1, p1)"
    by fastforce
  obtain res p' sent where cd: "client_Do e p1 ctx1 (new_GET (ServicoB_tempo (Cep req))) = (res, p')"
    and s: "res = e_net e sent" "out_url sent = out_url (new_GET (ServicoB_tempo (Cep req)))"
      "out_method sent = out_method (new_GET (ServicoB_tempo (Cep req)))"
      "p_calls p' = p_calls p1 @ [sent]"
    by (rule client_Do_E)
  have "CepHandler e p ctx r =
       (case res of
          DoError \<Rightarrow> http_Error msg_conectar 500
        | Response resp \<Rightarrow>
            if rs_status resp < 100 \<or> 999 < rs_status resp
            then Panic (''invalid WriteHeader code '' @ decimal (rs_status resp))
            else Reply \<lparr>rp_status = rs_status resp,
                        rp_headers = [(''Content-Type'', ''application/json'')],
                        rp_body = fst (ReadAll resp)\<rparr>, p')"
    using assms ts cd by (simp add: CepHandler_def split: http_result.splits prod.splits)
  then show ?thesis
    using that[of sent p'] s tracer_Start_calls[OF ts] by (simp add: new_GET_def)
qed

lemma serve_cep_relay:
  assumes "rq_method r = ''POST''"
    and "json_Decode CepRequest_fields CepRequest_zero (rq_body r) = Inr req"
    and "validateCEP (Cep req)"
    and "answers e (ServicoB_tempo (Cep req)) (Response resp)"
    and "100 \<le> rs_status resp" "rs_status resp \<le> 999"
  shows "fst (serve_cep e r) =
           Reply \<lparr>rp_status = rs_status resp,
                   rp_headers = [(''Content-Type'', ''application/json'')],
                   rp_body = fst (ReadAll resp)\<rparr>"
proof -
  obtain ctx p where s: "serve_cep e r = CepHandler e p ctx r"
    by (rule serve_cep_unfold)
  obtain sent p' where f: "out_url sent = ServicoB_tempo (Cep req)"
    "CepHandler e p ctx r =
       (case e_net e sent of
          DoError \<Rightarrow> http_Error msg_conectar 500
        | Response resp \<Rightarrow>
            if rs_status resp < 100 \<or> 999 < rs_status resp
            then Panic (''invalid WriteHeader code '' @ decimal (rs_status resp))
            else Reply \<lparr>rp_status = rs_status resp,
                        rp_headers = [(''Content-Type'', ''application/json'')],
                        rp_body = fst (ReadAll resp)\<rparr>, p')"
    using assms(1-3) by (rule CepHandler_forward[where e = e and p = p and ctx = ctx]) blast
  have "e_net e sent = Response resp" using assms(4) f(1) by (simp add: answers_def)
  with s f(2) assms(5,6) show ?thesis by simp
qed


lemma serve_cep_calls:
  "p_calls (snd (serve_cep e r)) = []
   \<or> (\<exists>req sent. rq_method r = ''POST''
         \<and> json_Decode CepRequest_fields CepRequest_zero (rq_body r) = Inr req
         \<and> validateCEP (Cep req) \<and> p_calls (snd (serve_cep e r)) = [sent]
         \<and> out_url sent = ServicoB_tempo (Cep req) \<and> out_method sent = ''GET'')"
proof -
  obtain ctx p where s: "serve_cep e r = CepHandler e p ctx r" "p_calls p = []"
    by (rule serve_cep_unfold)
  show ?thesis
  proof (cases "rq_method r = ''POST''")
    case False
    then obtain p' where "CepHandler e p ctx r = (http_Error msg_metodo 405, p')" "p_calls p' = p_calls p"
      by (rule CepHandler_wrong_method)
    with s show ?thesis by simp
  next
    case post: True
    show ?thesis
    proof (cases "json_Decode CepRequest_fields CepRequest_zero (rq_body r)")
      case (Inl err)
      with post obtain p' where "CepHandler e p ctx r = (http_Error ''invalid request body'' 400, p')"
        "p_calls p' = p_calls p"
        by (rule CepHandler_bad_body)
      with s show ?thesis by simp
    next
      case (Inr req)
      show ?thesis
      proof (cases "validateCEP (Cep req)")
        case False
        with post Inr obtain p' where "CepHandler e p ctx r = (http_Error ''invalid zipcode'' 422, p')"
          "p_calls p' = p_calls p"
          by (rule CepHandler_invalid)
        with s show ?thesis by simp
      next
        case True
        with post Inr obtain sent p' where "out_url sent = ServicoB_tempo (Cep req)"
          "out_method sent = ''GET''" "p_calls p' = p_calls p @ [sent]"
          "snd (CepHandler e p ctx r) = p'"
          by (rule CepHandler_forward[where e = e and p = p and ctx = ctx]) simp
        with s post Inr True show ?thesis by auto
      qed
    qed
  qed
qed

lemma serve_cep_errors:
  "rq_method r \<noteq> ''POST'' \<Longrightarrow> fst (serve_cep e r) = http_Error msg_metodo 405"
  "rq_method r = ''POST'' \<Longrightarrow>
     json_Decode CepRequest_fields CepRequest_zero (rq_body r) = Inl err \<Longrightarrow>
     fst (serve_cep e r) = http_Error ''invalid request body'' 400"
  "rq_method r = ''POST'' \<Longrightarrow>
     json_Decode CepRequest_fields CepRequest_zero (rq_body r) = Inr req \<Longrightarrow>
     \<not> validateCEP (Cep req) \<Longrightarrow>
     fst (serve_cep e r) = http_Error ''invalid zipcode'' 422"
  "rq_method r = ''POST'' \<Longrightarrow>
     json_Decode CepRequest_fields CepRequest_zero (rq_body r) = Inr req \<Longrightarrow>
     validateCEP (Cep req) \<Longrightarrow> answers e (ServicoB_tempo (Cep req)) DoError \<Longrightarrow>
     fst (serve_cep e r) = http_Error msg_conectar 500"
proof -
  obtain ctx p where s: "serve_cep e r = CepHandler e p ctx r"
    by (rule serve_cep_unfold)
  show "fst (serve_cep e r) = http_Error msg_metodo 405" if "rq_method r \<noteq> ''POST''"
  proof -
    from that obtain p' where "CepHandler e p ctx r = (http_Error msg_metodo 405, p')"
      by (rule CepHandler_wrong_method)
    with s show ?thesis by simp
  qed
  show "fst (serve_cep e r) = http_Error ''invalid request body'' 400"
    if "rq_method r = ''POST''" "json_Decode CepRequest_fields CepRequest_zero (rq_body r) = Inl err"
  proof -
    from that obtain p' where "CepHandler e p ctx r = (http_Error ''invalid request body'' 400, p')"
      by (rule CepHandler_bad_body)
    with s show ?thesis by simp
  qed
  show "fst (serve_cep e r) = http_Error ''invalid zipcode'' 422"
    if "rq_method r = ''POST''" "json_Decode CepRequest_fields CepRequest_zero (rq_body r) = Inr req"
      "\<not> validateCEP (Cep req)"
  proof -
    from that obtain p' where "CepHandler e p ctx r = (http_Error ''invalid zipcode'' 422, p')"
      by (rule CepHandler_invalid)
    with s show ?thesis by simp
  qed
  show "fst (serve_cep e r) = http_Error msg_conectar 500"
    if a: "rq_method r = ''POST''" "json_Decode CepRequest_fields CepRequest_zero (rq_body r) = Inr req"
      "validateCEP (Cep req)" "answers e (ServicoB_tempo (Cep req)) DoError"
  proof -
    obtain sent p' where f: "out_url sent = ServicoB_tempo (Cep req)"
      "CepHandler e p ctx r =
         (case e_net e sent of
            DoError \<Rightarrow> http_Error msg_conectar 500
          | Response resp \<Rightarrow>
              if rs_status resp < 100 \<or> 999 < rs_status resp
              then Panic (''invalid WriteHeader code '' @ decimal (rs_status resp))
              else Reply \<lparr>rp_status = rs_status resp,
                          rp_headers = [(''Content-Type'', ''application/json'')],
                          rp_body = fst (ReadAll resp)\<rparr>, p')"
      using a(1-3) by (rule CepHandler_forward[where e = e and p = p and ctx = ctx]) blast
    have "e_net e sent = DoError" using a(4) f(1) by (simp add: answers_def)
    with s f(2) show ?thesis by simp
  qed
qed

lemma CepRequest_examples:
  "json_Decode CepRequest_fields CepRequest_zero (Doc (JObject [(''cep'', JString ''01001000'')]))
     = Inr \<lparr>Cep = ''01001000''\<rparr>"
  "json_Decode CepRequest_fields CepRequest_zero (Doc (JObject [(''CEP'', JString ''01001000'')]))
     = Inr \<lparr>Cep = ''01001000''\<rparr>"
  "json_Decode CepRequest_fields CepRequest_zero (Doc (JObject [(''cep'', JString ''1234'')]))
     = Inr \<lparr>Cep = ''1234''\<rparr>"
  "json_Decode CepRequest_fields CepRequest_zero (Doc (JObject [(''cep'', JNumber 1001000)]))
     = Inl UnmarshalTypeError"
  "json_Decode CepRequest_fields CepRequest_zero Malformed = Inl SyntaxError"
  by code_simp+

lemma servico_b_net_example:
  assumes "out_url rq = ServicoB_tempo ''01001000''"
  shows "servico_b_net (servico_b fused ids external_ok) rq =
           Response \<lparr>rs_status = 200,
                      rs_body = Encoded \<lparr>City = ''Sao Paulo'', TempC = Fin 25, TempF = Fin 77, TempK = Fin 298\<rparr>,
                      rs_cut = None\<rparr>"
  using assms serve_tempo_example[where r = "as_inbound rq ''01001000''" and ids = ids and fused = fused]
  by (simp add: servico_b_net_def as_inbound_def)

lemma answers_servico_b_net_example:
  "answers (servico_a ids (servico_b_net (servico_b fused ids' external_ok))) (ServicoB_tempo ''01001000'')
     (Response \<lparr>rs_status = 200,
                 rs_body = Encoded \<lparr>City = ''Sao Paulo'', TempC = Fin 25, TempF = Fin 77, TempK = Fin 298\<rparr>,
                 rs_cut = None\<rparr>)"
  by (simp add: answers_def servico_a_def servico_b_net_example)

lemma serve_tempo_calls:
  "\<not> validateCEP (query_Get (rq_query r) ''cep'') \<Longrightarrow> p_calls (snd (serve_tempo e r)) = []"
  "\<not> validateCEP (query_Get (rq_query r) ''cep'') \<Longrightarrow>
     fst (serve_tempo e r) = http_Error ''invalid zipcode'' 422"
proof -
  assume inv: "\<not> validateCEP (query_Get (rq_query r) ''cep'')"
  obtain ctx p where s: "serve_tempo e r = WeatherHandler e p ctx r" "p_calls p = []"
    by (rule serve_tempo_unfold)
  from inv obtain p' where "WeatherHandler e p ctx r = (http_Error ''invalid zipcode'' 422, p')"
    "p_calls p' = p_calls p"
    by (rule WeatherHandler_invalid)
  with s show "p_calls (snd (serve_tempo e r)) = []"
    "fst (serve_tempo e r) = http_Error ''invalid zipcode'' 422"
    by simp_all
qed

lemma serve_tempo_not_found:
  assumes "validateCEP (query_Get (rq_query r) ''cep'')"
    and "answers e (ViaCEP_ws (query_Get (rq_query r) ''cep'')) res"
    and "(\<exists>err. decoded ViaCEP_fields ViaCEP_zero res = Inl err)
         \<or> (\<exists>c. decoded ViaCEP_fields ViaCEP_zero res = Inr c \<and> Localidade c = [])"
  shows "fst (serve_tempo e r) = http_Error ''can not find zipcode'' 404"
proof -
  obtain ctx p where s: "serve_tempo e r = WeatherHandler e p ctx r"
    by (rule serve_tempo_unfold)
  from assms obtain p' where
    "WeatherHandler e p ctx r = (http_Error ''can not find zipcode'' 404, p')"
    by (rule WeatherHandler_not_found)
  with s show ?thesis by simp
qed

lemma servico_b_net_unknown:
  assumes "out_url rq = ServicoB_tempo ''01001000''"
  shows "servico_b_net (servico_b fused ids (external viacep_unknown geo_sao_paulo forecast_25)) rq =
           Response \<lparr>rs_status = 404, rs_body = Bytes (''can not find zipcode'' @ newline),
                      rs_cut = None\<rparr>"
proof -
  let ?r = "as_inbound rq ''01001000''"
  have v: "validateCEP (query_Get (rq_query ?r) ''cep'')"
    by (simp add: as_inbound_def validateCEP_examples)
  have u: "(\<exists>err. decoded ViaCEP_fields ViaCEP_zero viacep_unknown = Inl err)
         \<or> (\<exists>c. decoded ViaCEP_fields ViaCEP_zero viacep_unknown = Inr c \<and> Localidade c = [])"
    using decoded_examples(1) by (simp add: ViaCEP_zero_def)
  have "fst (serve_tempo (servico_b fused ids (external viacep_unknown geo_sao_paulo forecast_25)) ?r)
          = http_Error ''can not find zipcode'' 404"
    using v answers_external(1) u by (rule serve_tempo_not_found)
  with assms show ?thesis by (simp add: servico_b_net_def http_Error_def)
qed

text \<open>
  What the gateway relays, for every response: the status code, and the bytes that
  \<^verbatim>\<open>io.ReadAll\<close> returned. When the read reaches the end of the body these are the body
  that servico-b sent.
\<close>

lemma serve_cep_relay_whole:
  assumes "rq_method r = ''POST''"
    and "json_Decode CepRequest_fields CepRequest_zero (rq_body r) = Inr req"
    and "validateCEP (Cep req)"
    and "answers e (ServicoB_tempo (Cep req)) (Response resp)"
    and "100 \<le> rs_status resp" "rs_status resp \<le> 999"
    and "rs_cut resp = None"
  shows "fst (serve_cep e r) =
           Reply \<lparr>rp_status = rs_status resp,
                   rp_headers = [(''Content-Type'', ''application/json'')],
                   rp_body = rs_body resp\<rparr>"
  using serve_cep_relay[OF assms(1-6)] assms(7) by (simp add: ReadAll_def)

lemma serve_cep_relay_cut:
  assumes "rq_method r = ''POST''"
    and "json_Decode CepRequest_fields CepRequest_zero (rq_body r) = Inr req"
    and "validateCEP (Cep req)"
    and "answers e (ServicoB_tempo (Cep req)) (Response resp)"
    and "100 \<le> rs_status resp" "rs_status resp \<le> 999"
    and "rs_cut resp = Some b"
  shows "fst (serve_cep e r) =
           Reply \<lparr>rp_status = rs_status resp,
                   rp_headers = [(''Content-Type'', ''application/json'')],
                   rp_body = b\<rparr>"
  using serve_cep_relay[OF assms(1-6)] assms(7) by (simp add: ReadAll_def)

text \<open>
  Claim C6 says that the gateway relays the status code and the body of servico-b's
  response byte for byte. The code, run on the request \<^verbatim>\<open>POST /cep {"cep": "01001000"}\<close>
  when the connection to servico-b breaks while the gateway reads the body of the
  response. First, servico-b answers 200 with the encoded temperatures and the
  connection breaks after the first byte: the gateway replies 200 with the body
  \<^verbatim>\<open>{\<close>. Second, servico-b answers 404 with the line \<^verbatim>\<open>can not find zipcode\<close> and
  the connection breaks after seven bytes: the gateway replies 404 with the body
  \<^verbatim>\<open>can not\<close>. \<^verbatim>\<open>body, _ := io.ReadAll(resp.Body)\<close> drops the error that the three reads
  of servico-b check. When the read reaches the end of the body the relay is as the
  claim says (\<open>serve_cep_relay_whole\<close>).
\<close>

theorem gateway_relays_truncated_body:
  "servico_b_net (servico_b False ids_b external_ok) (new_GET (ServicoB_tempo ''01001000''))
     = Response \<lparr>rs_status = 200,
                  rs_body = Encoded \<lparr>City = ''Sao Paulo'', TempC = Fin 25, TempF = Fin 77, TempK = Fin 298\<rparr>,
                  rs_cut = None\<rparr>
   \<and> fst (serve_cep (servico_a ids_a
              (\<lambda>rq. cut (Bytes ''{'') (servico_b_net (servico_b False ids_b external_ok) rq)))
            (post_cep (JObject [(''cep'', JString ''01001000'')])))
       = Reply \<lparr>rp_status = 200, rp_headers = [(''Content-Type'', ''application/json'')],
                rp_body = Bytes ''{''\<rparr>
   \<and> servico_b_net (servico_b False ids_b (external viacep_unknown geo_sao_paulo forecast_25))
          (new_GET (ServicoB_tempo ''01001000''))
       = Response \<lparr>rs_status = 404, rs_body = Bytes (''can not find zipcode'' @ newline),
                    rs_cut = None\<rparr>
   \<and> fst (serve_cep (servico_a ids_a
              (\<lambda>rq. cut (Bytes ''can not'')
                 (servico_b_net (servico_b False ids_b (external viacep_unknown geo_sao_paulo forecast_25)) rq)))
            (post_cep (JObject [(''cep'', JString ''01001000'')])))
       = Reply \<lparr>rp_status = 404, rp_headers = [(''Content-Type'', ''application/json'')],
                rp_body = Bytes ''can not''\<rparr>"
proof -
  let ?r = "post_cep (JObject [(''cep'', JString ''01001000'')])"
  let ?ok = "servico_b_net (servico_b False ids_b external_ok)"
  let ?nf = "servico_b_net (servico_b False ids_b (external viacep_unknown geo_sao_paulo forecast_25))"
  have m: "rq_method ?r = ''POST''" by (simp add: post_cep_def)
  have d: "json_Decode CepRequest_fields CepRequest_zero (rq_body ?r) = Inr \<lparr>Cep = ''01001000''\<rparr>"
    by (simp add: post_cep_def CepRequest_examples)
  have v: "validateCEP (Cep \<lparr>Cep = ''01001000''\<rparr>)" by (simp add: validateCEP_examples)
  have u: "out_url (new_GET (ServicoB_tempo ''01001000'')) = ServicoB_tempo ''01001000''"
    by (simp add: new_GET_def)
  have a1: "answers (servico_a ids_a (\<lambda>rq. cut (Bytes ''{'') (?ok rq)))
              (ServicoB_tempo (Cep \<lparr>Cep = ''01001000''\<rparr>))
              (Response \<lparr>rs_status = 200,
                  rs_body = Encoded \<lparr>City = ''Sao Paulo'', TempC = Fin 25, TempF = Fin 77, TempK = Fin 298\<rparr>,
                  rs_cut = Some (Bytes ''{'')\<rparr>)"
    by (simp add: answers_def servico_a_def servico_b_net_example)
  have a2: "answers (servico_a ids_a (\<lambda>rq. cut (Bytes ''can not'') (?nf rq)))
              (ServicoB_tempo (Cep \<lparr>Cep = ''01001000''\<rparr>))
              (Response \<lparr>rs_status = 404, rs_body = Bytes (''can not find zipcode'' @ newline),
                    rs_cut = Some (Bytes ''can not'')\<rparr>)"
    by (simp add: answers_def servico_a_def servico_b_net_unknown)
  from servico_b_net_example[OF u, of False ids_b] servico_b_net_unknown[OF u, of False ids_b]
    serve_cep_relay_cut[OF m d v a1] serve_cep_relay_cut[OF m d v a2]
  show ?thesis by simp
qed

lemma serve_cep_forward_calls:
  assumes "rq_method r = ''POST''"
    and "json_Decode CepRequest_fields CepRequest_zero (rq_body r) = Inr req"
    and "validateCEP (Cep req)"
  shows "\<exists>sent. p_calls (snd (serve_cep e r)) = [sent] \<and> out_url sent = ServicoB_tempo (Cep req)"
proof -
  obtain ctx p where s: "serve_cep e r = CepHandler e p ctx r" "p_calls p = []"
    by (rule serve_cep_unfold)
  from assms obtain sent p' where "out_url sent = ServicoB_tempo (Cep req)"
    "p_calls p' = p_calls p @ [sent]" "snd (CepHandler e p ctx r) = p'"
    by (rule CepHandler_forward[where e = e and p = p and ctx = ctx]) simp
  with s show ?thesis by simp
qed

lemma serve_tempo_success_calls:
  assumes "validateCEP (query_Get (rq_query r) ''cep'')"
    and "answers e (ViaCEP_ws (query_Get (rq_query r) ''cep'')) resC"
    and "decoded ViaCEP_fields ViaCEP_zero resC = Inr c" "Localidade c \<noteq> []"
    and "answers e (GeoSearch (QueryEscape (Localidade c))) resG"
    and "decoded GeoResult_fields GeoResult_zero resG = Inr g" "elems (Results g) = g0 # gs"
    and "answers e (Forecast (Latitude g0) (Longitude g0)) resW"
    and "decoded OpenMeteoResponse_fields OpenMeteoResponse_zero resW = Inr w"
  shows "length (p_calls (snd (serve_tempo e r))) = 3"
proof -
  obtain ctx p where s: "serve_tempo e r = WeatherHandler e p ctx r" "p_calls p = []"
    by (rule serve_tempo_unfold)
  obtain ctx1 p1 sent where h: "p_calls p1 = p_calls p @ [sent]"
    "\<And>tempC p2. fetchWeather e p1 ctx1 (Localidade c) = (Inr tempC, p2) \<Longrightarrow>
       WeatherHandler e p ctx r =
         (Reply \<lparr>rp_status = 200,
                 rp_headers = [(''Content-Type'', ''application/json'')],
                 rp_body = (if json_encodable (convertTemps (e_fused e) tempC (Localidade c))
                            then Encoded (convertTemps (e_fused e) tempC (Localidade c))
                            else Bytes [])\<rparr>, p2)"
    using assms(1-4) by (rule WeatherHandler_located[where p = p and ctx = ctx]) blast
  obtain sentG sentW p2 where
    "fetchWeather e p1 ctx1 (Localidade c) = (Inr (Temperature (CurrentWeather w)), p2)"
    "p_calls p2 = p_calls p1 @ [sentG, sentW]"
    using assms(5-8)
    by (rule fetchWeather_forecast[where p = p1 and ctx = ctx1]) (use assms(9) in auto)
  with h(1) h(2)[OF this(1)] s show ?thesis by simp
qed

lemma serve_tempo_example_calls:
  assumes "query_Get (rq_query r) ''cep'' = ''01001000''"
  shows "length (p_calls (snd (serve_tempo (servico_b fused ids external_ok) r))) = 3"
proof -
  let ?c = "\<lparr>Localidade = ''Sao Paulo'', Uf = ''SP''\<rparr>"
  have v: "validateCEP (query_Get (rq_query r) ''cep'')"
    by (simp add: assms validateCEP_examples)
  have c: "decoded ViaCEP_fields ViaCEP_zero viacep_sao_paulo = Inr ?c" "Localidade ?c \<noteq> []"
    by (simp_all add: decoded_examples)
  have r: "elems (Results \<lparr>Results = \<lparr>elems = [\<lparr>Latitude = f64_round (- 2355 / 100),
              Longitude = f64_round (- 4663 / 100)\<rparr>], spare = []\<rparr>\<rparr>)
             = \<lparr>Latitude = f64_round (- 2355 / 100), Longitude = f64_round (- 4663 / 100)\<rparr> # []"
    by simp
  show ?thesis
    unfolding external_ok_def
    by (rule serve_tempo_success_calls[OF v
      answers_external(1)[where fused = fused and ids = ids and a = viacep_sao_paulo and b = geo_sao_paulo and c = forecast_25]
      c
      answers_external(2)[where fused = fused and ids = ids and a = viacep_sao_paulo and b = geo_sao_paulo and c = forecast_25]
      decoded_examples_ok(1) r
      answers_external(3)[where fused = fused and ids = ids and a = viacep_sao_paulo and b = geo_sao_paulo and c = forecast_25]
      decoded_examples_ok(2)])
qed

text \<open>
  Claim C8. In both services a code that fails the format check is answered with 422
  and no request is sent; and whenever a service has sent a request, the code had
  passed the format check.
\<close>

theorem validation_precedes_calls:
  "(rq_method r = ''POST''
      \<and> json_Decode CepRequest_fields CepRequest_zero (rq_body r) = Inr req
      \<and> \<not> validateCEP (Cep req) \<longrightarrow>
      reply_status (fst (serve_cep ea r)) = Some 422 \<and> p_calls (snd (serve_cep ea r)) = [])
   \<and> (\<not> validateCEP (query_Get (rq_query r') ''cep'') \<longrightarrow>
      reply_status (fst (serve_tempo eb r')) = Some 422 \<and> p_calls (snd (serve_tempo eb r')) = [])
   \<and> (p_calls (snd (serve_cep ea r)) \<noteq> [] \<longrightarrow>
      (\<exists>req'. json_Decode CepRequest_fields CepRequest_zero (rq_body r) = Inr req'
          \<and> validateCEP (Cep req')))
   \<and> (p_calls (snd (serve_tempo eb r')) \<noteq> [] \<longrightarrow> validateCEP (query_Get (rq_query r') ''cep''))"
proof (intro conjI impI; (elim conjE)?)
  assume a: "rq_method r = ''POST''"
    "json_Decode CepRequest_fields CepRequest_zero (rq_body r) = Inr req"
    "\<not> validateCEP (Cep req)"
  then show "reply_status (fst (serve_cep ea r)) = Some 422"
    by (simp add: serve_cep_errors(3) http_Error_def)
  from a serve_cep_calls[of ea r] show "p_calls (snd (serve_cep ea r)) = []"
    by auto
next
  assume "\<not> validateCEP (query_Get (rq_query r') ''cep'')"
  then show "reply_status (fst (serve_tempo eb r')) = Some 422" "p_calls (snd (serve_tempo eb r')) = []"
    by (simp_all add: serve_tempo_calls http_Error_def)
next
  assume "p_calls (snd (serve_cep ea r)) \<noteq> []"
  with serve_cep_calls[of ea r]
  show "\<exists>req'. json_Decode CepRequest_fields CepRequest_zero (rq_body r) = Inr req'
          \<and> validateCEP (Cep req')"
    by auto
next
  assume "p_calls (snd (serve_tempo eb r')) \<noteq> []"
  then show "validateCEP (query_Get (rq_query r') ''cep'')"
    using serve_tempo_calls(1)[of r' eb] by blast
qed

theorem validation_precedes_calls_witness:
  "reply_status (fst (serve_cep (servico_a ids_a (servico_b_net (servico_b False ids_b external_ok)))
      (post_cep (JObject [(''cep'', JString ''1234'')])))) = Some 422
   \<and> p_calls (snd (serve_cep (servico_a ids_a (servico_b_net (servico_b False ids_b external_ok)))
      (post_cep (JObject [(''cep'', JString ''1234'')])))) = []
   \<and> reply_status (fst (serve_tempo (servico_b False ids_b external_ok) (get_tempo ''1234''))) = Some 422
   \<and> p_calls (snd (serve_tempo (servico_b False ids_b external_ok) (get_tempo ''1234''))) = []
   \<and> p_calls (snd (serve_cep (servico_a ids_a (servico_b_net (servico_b False ids_b external_ok)))
      (post_cep (JObject [(''cep'', JString ''01001000'')])))) \<noteq> []
   \<and> (\<exists>req'. json_Decode CepRequest_fields CepRequest_zero
                 (rq_body (post_cep (JObject [(''cep'', JString ''01001000'')]))) = Inr req'
          \<and> validateCEP (Cep req'))
   \<and> p_calls (snd (serve_tempo (servico_b False ids_b external_ok) (get_tempo ''01001000''))) \<noteq> []
   \<and> validateCEP (query_Get (rq_query (get_tempo ''01001000'')) ''cep'')"
proof -
  let ?ea = "servico_a ids_a (servico_b_net (servico_b False ids_b external_ok))"
  let ?eb = "servico_b False ids_b external_ok"
  let ?ok = "post_cep (JObject [(''cep'', JString ''01001000'')])"
  have m: "rq_method ?ok = ''POST''" by (simp add: post_cep_def)
  have d: "json_Decode CepRequest_fields CepRequest_zero (rq_body ?ok) = Inr \<lparr>Cep = ''01001000''\<rparr>"
    by (simp add: post_cep_def CepRequest_examples)
  have v: "validateCEP (Cep \<lparr>Cep = ''01001000''\<rparr>)" by (simp add: validateCEP_examples)
  have ca: "p_calls (snd (serve_cep ?ea ?ok)) \<noteq> []"
    using serve_cep_forward_calls[OF m d v, of ?ea] by auto
  have q: "query_Get (rq_query (get_tempo ''01001000'')) ''cep'' = ''01001000''"
    by (simp add: get_tempo_def)
  have cb: "p_calls (snd (serve_tempo ?eb (get_tempo ''01001000''))) \<noteq> []"
    using serve_tempo_example_calls[OF q, of False ids_b] by auto
  have bad: "reply_status (fst (serve_cep ?ea (post_cep (JObject [(''cep'', JString ''1234'')])))) = Some 422
     \<and> p_calls (snd (serve_cep ?ea (post_cep (JObject [(''cep'', JString ''1234'')])))) = []
     \<and> reply_status (fst (serve_tempo ?eb (get_tempo ''1234''))) = Some 422
     \<and> p_calls (snd (serve_tempo ?eb (get_tempo ''1234''))) = []"
    using validation_precedes_calls[where r = "post_cep (JObject [(''cep'', JString ''1234'')])"
        and req = "\<lparr>Cep = ''1234''\<rparr>" and r' = "get_tempo ''1234''" and ea = ?ea and eb = ?eb]
      CepRequest_examples(3) validateCEP_examples(3)
    by (simp add: post_cep_def get_tempo_def)
  have good: "(\<exists>req'. json_Decode CepRequest_fields CepRequest_zero (rq_body ?ok) = Inr req'
          \<and> validateCEP (Cep req'))
     \<and> validateCEP (query_Get (rq_query (get_tempo ''01001000'')) ''cep'')"
    using validation_precedes_calls[where r = ?ok and r' = "get_tempo ''01001000''"
        and ea = ?ea and eb = ?eb] ca cb
    by blast
  from bad good ca cb show ?thesis by blast
qed

section \<open>Keys that match the field of the request\<close>

lemma of_char_minus_32: "(of_char c :: nat) - 32 < 256"
  using nat_of_char_less_256[of c] by arith

lemma of_char_ascii_upper:
  "(of_char (ascii_upper c) :: nat) =
     (if 97 \<le> (of_char c :: nat) \<and> (of_char c :: nat) \<le> 122 then of_char c - 32 else of_char c)"
  by (simp add: ascii_upper_def Let_def of_char_minus_32)

lemma of_char_eq_nat: "(of_char c :: nat) = n \<longleftrightarrow> n < 256 \<and> c = char_of n"
  by auto

lemma upper_code_eq:
  fixes a b :: nat
  assumes "97 \<le> b" "b \<le> 122"
  shows "(if 97 \<le> a \<and> a \<le> 122 then a - 32 else a) = b - 32 \<longleftrightarrow> a = b \<or> a = b - 32"
  using assms by (auto split: if_splits)

lemma ascii_upper_eq_letter:
  assumes "97 \<le> (of_char d :: nat)" "(of_char d :: nat) \<le> 122"
  shows "ascii_upper c = ascii_upper d \<longleftrightarrow> c = d \<or> (of_char c :: nat) = of_char d - 32"
proof -
  have "ascii_upper c = ascii_upper d \<longleftrightarrow> (of_char (ascii_upper c) :: nat) = of_char (ascii_upper d)"
    by simp
  also have "(of_char (ascii_upper d) :: nat) = of_char d - 32"
    using assms by (simp add: of_char_ascii_upper)
  also have "(of_char (ascii_upper c) :: nat) = of_char d - 32
      \<longleftrightarrow> (of_char c :: nat) = of_char d \<or> (of_char c :: nat) = of_char d - 32"
    unfolding of_char_ascii_upper by (rule upper_code_eq[OF assms])
  finally show ?thesis by simp
qed

lemma char_of_upper_codes:
  "char_of (67 :: nat) = CHR ''C''" "char_of (69 :: nat) = CHR ''E''" "char_of (80 :: nat) = CHR ''P''"
  by code_simp+

lemma fold_eq_ascii_Nil: "fold_eq_ascii [] k \<longleftrightarrow> k = []"
  by (cases k) simp_all

lemma fold_eq_ascii_letter:
  assumes "97 \<le> (of_char n :: nat)" "(of_char n :: nat) \<le> 122"
    and "ascii_upper n \<noteq> CHR ''S''" "ascii_upper n \<noteq> CHR ''K''"
  shows "fold_eq_ascii (n # ns) k \<longleftrightarrow>
           (\<exists>x ks. k = x # ks \<and> (x = n \<or> x = char_of ((of_char n :: nat) - 32)) \<and> fold_eq_ascii ns ks)"
proof (cases k)
  case Nil
  then show ?thesis by simp
next
  case (Cons x ks)
  have m: "ascii_upper x = ascii_upper n \<longleftrightarrow> x = n \<or> x = char_of ((of_char n :: nat) - 32)"
    using ascii_upper_eq_letter[OF assms(1,2), of x] by (simp add: of_char_eq_nat of_char_minus_32)
  have small: "(of_char x :: nat) < 128" if "x = n \<or> x = char_of ((of_char n :: nat) - 32)"
  proof -
    have "(of_char x :: nat) = of_char n \<or> (of_char x :: nat) = of_char n - 32"
      using that by (auto simp: of_char_minus_32)
    with assms(2) show ?thesis by arith
  qed
  have "fold_eq_ascii (n # ns) (x # ks) \<longleftrightarrow>
          (of_char x :: nat) < 128 \<and> ascii_upper x = ascii_upper n \<and> fold_eq_ascii ns ks"
    using assms(3,4) by (simp del: take_Suc_Cons)
  also have "\<dots> \<longleftrightarrow> (x = n \<or> x = char_of ((of_char n :: nat) - 32)) \<and> fold_eq_ascii ns ks"
    unfolding m using small by blast
  finally show ?thesis using Cons by simp
qed

lemma lower_letter_facts:
  "97 \<le> (of_char CHR ''c'' :: nat)" "(of_char CHR ''c'' :: nat) \<le> 122"
  "97 \<le> (of_char CHR ''e'' :: nat)" "(of_char CHR ''e'' :: nat) \<le> 122"
  "97 \<le> (of_char CHR ''p'' :: nat)" "(of_char CHR ''p'' :: nat) \<le> 122"
  "ascii_upper CHR ''c'' \<noteq> CHR ''S''" "ascii_upper CHR ''c'' \<noteq> CHR ''K''"
  "ascii_upper CHR ''e'' \<noteq> CHR ''S''" "ascii_upper CHR ''e'' \<noteq> CHR ''K''"
  "ascii_upper CHR ''p'' \<noteq> CHR ''S''" "ascii_upper CHR ''p'' \<noteq> CHR ''K''"
  "char_of ((of_char CHR ''c'' :: nat) - 32) = CHR ''C''"
  "char_of ((of_char CHR ''e'' :: nat) - 32) = CHR ''E''"
  "char_of ((of_char CHR ''p'' :: nat) - 32) = CHR ''P''"
  by code_simp+

lemma fold_eq_cep_chars:
  "fold_eq_ascii ''cep'' k \<longleftrightarrow>
     (\<exists>x1 x2 x3. k = [x1, x2, x3] \<and> (x1 = CHR ''c'' \<or> x1 = CHR ''C'')
        \<and> (x2 = CHR ''e'' \<or> x2 = CHR ''E'') \<and> (x3 = CHR ''p'' \<or> x3 = CHR ''P''))"
proof -
  note c = fold_eq_ascii_letter[OF lower_letter_facts(1,2,7,8), unfolded lower_letter_facts(13)]
  note e = fold_eq_ascii_letter[OF lower_letter_facts(3,4,9,10), unfolded lower_letter_facts(14)]
  note p = fold_eq_ascii_letter[OF lower_letter_facts(5,6,11,12), unfolded lower_letter_facts(15)]
  have "fold_eq_ascii ''cep'' k \<longleftrightarrow>
     (\<exists>x1 k1. k = x1 # k1 \<and> (x1 = CHR ''c'' \<or> x1 = CHR ''C'')
        \<and> (\<exists>x2 k2. k1 = x2 # k2 \<and> (x2 = CHR ''e'' \<or> x2 = CHR ''E'')
        \<and> (\<exists>x3 k3. k2 = x3 # k3 \<and> (x3 = CHR ''p'' \<or> x3 = CHR ''P'') \<and> k3 = [])))"
    by (simp only: c e p fold_eq_ascii_Nil)
  also have "\<dots> \<longleftrightarrow> (\<exists>x1 x2 x3. k = [x1, x2, x3] \<and> (x1 = CHR ''c'' \<or> x1 = CHR ''C'')
        \<and> (x2 = CHR ''e'' \<or> x2 = CHR ''E'') \<and> (x3 = CHR ''p'' \<or> x3 = CHR ''P''))"
    by (rule iffI; (elim exE conjE)?; hypsubst; (intro exI conjI)?; (assumption | rule refl)?)
  finally show ?thesis .
qed

lemma fold_eq_cep:
  "fold_eq_ascii ''cep'' k \<longleftrightarrow>
     k \<in> set [''cep'', ''ceP'', ''cEp'', ''cEP'', ''Cep'', ''CeP'', ''CEp'', ''CEP'']"
proof -
  have "k \<in> set [''cep'', ''ceP'', ''cEp'', ''cEP'', ''Cep'', ''CeP'', ''CEp'', ''CEP'']" 
    if "k = [x1, x2, x3]" "x1 = CHR ''c'' \<or> x1 = CHR ''C''" "x2 = CHR ''e'' \<or> x2 = CHR ''E''"
      "x3 = CHR ''p'' \<or> x3 = CHR ''P''" for x1 x2 x3
    using that(2,3,4) unfolding that(1) by (elim disjE) simp_all
  moreover have "\<exists>x1 x2 x3. k = [x1, x2, x3] \<and> (x1 = CHR ''c'' \<or> x1 = CHR ''C'')
        \<and> (x2 = CHR ''e'' \<or> x2 = CHR ''E'') \<and> (x3 = CHR ''p'' \<or> x3 = CHR ''P'')"
    if "k \<in> set [''cep'', ''ceP'', ''cEp'', ''cEP'', ''Cep'', ''CeP'', ''CEp'', ''CEP'']"
    using that by (simp only: set_simps insert_iff empty_iff) (elim disjE; simp)
  ultimately show ?thesis unfolding fold_eq_cep_chars by blast
qed

lemma find_field_cep:
  "find_field CepRequest_fields k =
     (if fold_eq_ascii ''cep'' k then Some (hd CepRequest_fields) else None)"
proof -
  have "fold_eq_ascii ''cep'' ''cep''" by (simp add: fold_eq_cep)
  then show ?thesis by (auto simp: find_field_def CepRequest_fields_def)
qed

lemma decode_members_cep_empty:
  assumes "\<forall>kv\<in>set kvs. fold_eq_ascii ''cep'' (fst kv) \<longrightarrow> snd kv = JString []"
  shows "decode_members CepRequest_fields kvs \<lparr>Cep = []\<rparr> = Inr \<lparr>Cep = []\<rparr>"
  using assms
proof (induction kvs)
  case Nil
  show ?case by simp
next
  case (Cons kv kvs)
  have step: "snd (hd CepRequest_fields) (JString []) \<lparr>Cep = []\<rparr> = Inr \<lparr>Cep = []\<rparr>"
    by (simp add: CepRequest_fields_def store_def decode_string_def)
  from Cons show ?case
    by (simp add: find_field_cep step)
qed

text \<open>
  What the decoder of the gateway makes of a body is what \<open>request_of\<close> reads off it.
\<close>

lemma cep_field_step:
  "snd (hd CepRequest_fields) v \<lparr>Cep = s\<rparr> =
     (case v of JNull \<Rightarrow> Inr \<lparr>Cep = s\<rparr> | JString t \<Rightarrow> Inr \<lparr>Cep = t\<rparr> | _ \<Rightarrow> Inl UnmarshalTypeError)"
  by (simp add: CepRequest_fields_def store_def decode_string_def split: json.splits)

lemma decode_members_cep:
  "decode_members CepRequest_fields kvs \<lparr>Cep = s\<rparr> =
     (if list_all string_or_null (cep_members kvs)
      then Inr \<lparr>Cep = last_string (cep_members kvs) s\<rparr>
      else Inl UnmarshalTypeError)"
proof (induction kvs arbitrary: s)
  case Nil
  show ?case by (simp add: cep_members_def)
next
  case (Cons kv kvs)
  show ?case
  proof (cases "fst kv \<in> set cep_keys")
    case False
    then have "\<not> fold_eq_ascii ''cep'' (fst kv)"
      unfolding fold_eq_cep cep_keys_def .
    moreover have "cep_members (kv # kvs) = cep_members kvs"
      using False by (simp add: cep_members_def)
    ultimately show ?thesis
      using Cons.IH[of s] by (simp add: find_field_cep)
  next
    case True
    then have f: "fold_eq_ascii ''cep'' (fst kv)"
      unfolding fold_eq_cep cep_keys_def .
    have cm: "cep_members (kv # kvs) = snd kv # cep_members kvs"
      using True by (simp add: cep_members_def)
    have step: "decode_members CepRequest_fields (kv # kvs) \<lparr>Cep = s\<rparr> =
        (case snd (hd CepRequest_fields) (snd kv) \<lparr>Cep = s\<rparr> of
           Inl e \<Rightarrow> Inl e
         | Inr x \<Rightarrow> decode_members CepRequest_fields kvs x)"
      using f by (simp add: find_field_cep)
    show ?thesis
      unfolding step cm cep_field_step
      by (cases "snd kv") (simp_all add: Cons.IH)
  qed
qed

lemma request_of_simps:
  "request_of Malformed = None"
  "request_of (DocExtra j) = request_of (Doc j)"
  by (simp_all add: request_of_def)

lemma decode_struct_request:
  "decode_struct CepRequest_fields j CepRequest_zero =
     (case request_of (Doc j) of None \<Rightarrow> Inl UnmarshalTypeError | Some c \<Rightarrow> Inr \<lparr>Cep = c\<rparr>)"
  by (cases j) (simp_all add: decode_struct_def request_of_def CepRequest_zero_def decode_members_cep)

lemma json_Decode_request:
  "request_of b = None \<Longrightarrow> \<exists>err. json_Decode CepRequest_fields CepRequest_zero b = Inl err"
  "request_of b = Some c \<Longrightarrow> json_Decode CepRequest_fields CepRequest_zero b = Inr \<lparr>Cep = c\<rparr>"
  by (cases b; simp add: json_Decode_def request_of_simps decode_struct_request)+

lemma request_of_examples:
  "request_of Malformed = None"
  "request_of (Doc (JArray [])) = None"
  "request_of (Doc (JObject [(''cep'', JNumber 1001000)])) = None"
  "request_of (Doc (JObject [(''cep'', JString ''1234'')])) = Some ''1234''"
  "request_of (DocExtra (JObject [(''cep'', JString ''01001000'')])) = Some ''01001000''"
  "request_of (Doc (JObject [(''cep'', JString ''01001000''), (''CEP'', JNull)])) = Some ''01001000''"
  by code_simp+

text \<open>
  Claim C7, as amended. The gateway maps errors in this order. A method other than
  \<^verbatim>\<open>POST\<close> gives 405, whatever the body. A \<^verbatim>\<open>POST\<close> whose body carries no code gives
  400: the body does not start with a JSON value, or that value is neither an
  object nor \<^verbatim>\<open>null\<close>, or a member named \<^verbatim>\<open>cep\<close> (in any letter case) holds something
  other than a string or \<^verbatim>\<open>null\<close>. Otherwise the body carries a code, the string of the
  last member named \<^verbatim>\<open>cep\<close> that holds a string, or the empty string, whatever
  follows the first JSON value of the body; a code that fails the format check
  gives 422 with the message \<^verbatim>\<open>invalid zipcode\<close>, and a well-formed code whose call of
  servico-b fails gives 500.

  The claim as it was stated fails both ways. The body \<^verbatim>\<open>{"cep": "01001000"} x\<close> is
  not well-formed JSON (\<^verbatim>\<open>json.Unmarshal\<close> rejects it), and the gateway forwards it and
  replies 200; the body \<^verbatim>\<open>{"cep": 1001000}\<close> is well-formed JSON, and the gateway
  replies 400 and not 422.
\<close>

theorem gateway_error_mapping:
  "(rq_method r \<noteq> ''POST'' \<longrightarrow> reply_status (fst (serve_cep e r)) = Some 405)
   \<and> (rq_method r = ''POST'' \<and> request_of (rq_body r) = None \<longrightarrow>
         reply_status (fst (serve_cep e r)) = Some 400)
   \<and> (rq_method r = ''POST'' \<and> request_of (rq_body r) = Some c \<and> \<not> validateCEP c \<longrightarrow>
         reply_status (fst (serve_cep e r)) = Some 422
         \<and> reply_body (fst (serve_cep e r)) = Some (Bytes (''invalid zipcode'' @ newline)))
   \<and> (rq_method r = ''POST'' \<and> request_of (rq_body r) = Some c \<and> validateCEP c
         \<and> answers e (ServicoB_tempo c) DoError \<longrightarrow>
         reply_status (fst (serve_cep e r)) = Some 500)"
proof (intro conjI impI; (elim conjE)?)
  assume "rq_method r \<noteq> ''POST''"
  then show "reply_status (fst (serve_cep e r)) = Some 405"
    by (simp add: serve_cep_errors(1) http_Error_def)
next
  assume m: "rq_method r = ''POST''" and "request_of (rq_body r) = None"
  then obtain err where "json_Decode CepRequest_fields CepRequest_zero (rq_body r) = Inl err"
    using json_Decode_request(1) by blast
  with m show "reply_status (fst (serve_cep e r)) = Some 400"
    by (simp add: serve_cep_errors(2) http_Error_def)
next
  assume m: "rq_method r = ''POST''" and q: "request_of (rq_body r) = Some c"
    and v: "\<not> validateCEP c"
  have d: "json_Decode CepRequest_fields CepRequest_zero (rq_body r) = Inr \<lparr>Cep = c\<rparr>"
    using q by (rule json_Decode_request(2))
  have "fst (serve_cep e r) = http_Error ''invalid zipcode'' 422"
    using m d by (rule serve_cep_errors(3)) (simp add: v)
  then show "reply_status (fst (serve_cep e r)) = Some 422"
    "reply_body (fst (serve_cep e r)) = Some (Bytes (''invalid zipcode'' @ newline))"
    by (simp_all add: http_Error_def)
next
  assume m: "rq_method r = ''POST''" and q: "request_of (rq_body r) = Some c"
    and v: "validateCEP c" and a: "answers e (ServicoB_tempo c) DoError"
  have d: "json_Decode CepRequest_fields CepRequest_zero (rq_body r) = Inr \<lparr>Cep = c\<rparr>"
    using q by (rule json_Decode_request(2))
  have "fst (serve_cep e r) = http_Error msg_conectar 500"
    using m d by (rule serve_cep_errors(4)) (simp_all add: v a)
  then show "reply_status (fst (serve_cep e r)) = Some 500"
    by (simp add: http_Error_def)
qed

theorem gateway_error_mapping_witness:
  "reply_status (fst (serve_cep (servico_a ids_a unreachable)
      ((post_cep (JObject [(''cep'', JString ''01001000'')]))\<lparr>rq_method := ''GET''\<rparr>))) = Some 405
   \<and> reply_status (fst (serve_cep (servico_a ids_a unreachable) (post_body Malformed))) = Some 400
   \<and> reply_status (fst (serve_cep (servico_a ids_a unreachable) (post_cep (JArray [])))) = Some 400
   \<and> reply_status (fst (serve_cep (servico_a ids_a unreachable)
      (post_cep (JObject [(''cep'', JNumber 1001000)])))) = Some 400
   \<and> reply_status (fst (serve_cep (servico_a ids_a unreachable)
      (post_cep (JObject [(''cep'', JString ''1234'')])))) = Some 422
   \<and> reply_status (fst (serve_cep (servico_a ids_a unreachable)
      (post_cep (JObject [(''cep'', JString ''01001000''), (''CEP'', JNull)])))) = Some 500
   \<and> reply_status (fst (serve_cep (servico_a ids_a unreachable)
      (post_body (DocExtra (JObject [(''cep'', JString ''01001000'')]))))) = Some 500"
proof -
  let ?e = "servico_a ids_a unreachable"
  have u: "answers ?e u DoError" for u
    by (simp add: answers_def servico_a_def unreachable_def)
  note g = gateway_error_mapping[where e = ?e]
  have 1: "reply_status (fst (serve_cep ?e
      ((post_cep (JObject [(''cep'', JString ''01001000'')]))\<lparr>rq_method := ''GET''\<rparr>))) = Some 405"
    using g[where r = "(post_cep (JObject [(''cep'', JString ''01001000'')]))\<lparr>rq_method := ''GET''\<rparr>"]
    by (simp add: post_cep_def)
  have 2: "reply_status (fst (serve_cep ?e (post_body Malformed))) = Some 400"
    using g[where r = "post_body Malformed"] request_of_examples(1)
    by (simp add: post_body_def)
  have 3: "reply_status (fst (serve_cep ?e (post_cep (JArray [])))) = Some 400"
    using g[where r = "post_cep (JArray [])"] request_of_examples(2)
    by (simp add: post_cep_def)
  have 4: "reply_status (fst (serve_cep ?e (post_cep (JObject [(''cep'', JNumber 1001000)])))) = Some 400"
    using g[where r = "post_cep (JObject [(''cep'', JNumber 1001000)])"] request_of_examples(3)
    by (simp add: post_cep_def)
  have 5: "reply_status (fst (serve_cep ?e (post_cep (JObject [(''cep'', JString ''1234'')])))) = Some 422"
    using g[where r = "post_cep (JObject [(''cep'', JString ''1234'')])" and c = "''1234''"]
      request_of_examples(4) validateCEP_examples(3)
    by (simp add: post_cep_def)
  have 6: "reply_status (fst (serve_cep ?e
      (post_cep (JObject [(''cep'', JString ''01001000''), (''CEP'', JNull)])))) = Some 500"
    using g[where r = "post_cep (JObject [(''cep'', JString ''01001000''), (''CEP'', JNull)])"
        and c = "''01001000''"]
      request_of_examples(6) validateCEP_examples(1) u
    by (simp add: post_cep_def)
  have 7: "reply_status (fst (serve_cep ?e
      (post_body (DocExtra (JObject [(''cep'', JString ''01001000'')]))))) = Some 500"
    using g[where r = "post_body (DocExtra (JObject [(''cep'', JString ''01001000'')]))"
        and c = "''01001000''"]
      request_of_examples(5) validateCEP_examples(1) u
    by (simp add: post_body_def)
  from 1 2 3 4 5 6 7 show ?thesis by simp
qed

theorem gateway_error_mapping_counterexample:
  "json_Unmarshal CepRequest_fields CepRequest_zero (DocExtra (JObject [(''cep'', JString ''01001000'')]))
     = Inl SyntaxError
   \<and> reply_status (fst (serve_cep (servico_a ids_a (servico_b_net (servico_b False ids_b external_ok)))
        (post_body (DocExtra (JObject [(''cep'', JString ''01001000'')]))))) = Some 200
   \<and> rq_body (post_cep (JObject [(''cep'', JNumber 1001000)]))
       = Doc (JObject [(''cep'', JNumber 1001000)])
   \<and> reply_status (fst (serve_cep (servico_a ids_a (servico_b_net (servico_b False ids_b external_ok)))
        (post_cep (JObject [(''cep'', JNumber 1001000)])))) = Some 400"
proof -
  let ?e = "servico_a ids_a (servico_b_net (servico_b False ids_b external_ok))"
  let ?r = "post_body (DocExtra (JObject [(''cep'', JString ''01001000'')]))"
  let ?n = "post_cep (JObject [(''cep'', JNumber 1001000)])"
  have s: "json_Unmarshal CepRequest_fields CepRequest_zero
             (DocExtra (JObject [(''cep'', JString ''01001000'')])) = Inl SyntaxError"
    by (simp add: json_Unmarshal_def)
  have m: "rq_method ?r = ''POST''" by (simp add: post_body_def)
  have d: "json_Decode CepRequest_fields CepRequest_zero (rq_body ?r) = Inr \<lparr>Cep = ''01001000''\<rparr>"
    using json_Decode_request(2)[OF request_of_examples(5)] by (simp add: post_body_def)
  have v: "validateCEP (Cep \<lparr>Cep = ''01001000''\<rparr>)" by (simp add: validateCEP_examples)
  have a: "answers ?e (ServicoB_tempo (Cep \<lparr>Cep = ''01001000''\<rparr>))
             (Response \<lparr>rs_status = 200,
                 rs_body = Encoded \<lparr>City = ''Sao Paulo'', TempC = Fin 25, TempF = Fin 77, TempK = Fin 298\<rparr>,
                 rs_cut = None\<rparr>)"
    using answers_servico_b_net_example by simp
  have 1: "reply_status (fst (serve_cep ?e ?r)) = Some 200"
    using serve_cep_relay[OF m d v a] by simp
  have mn: "rq_method ?n = ''POST''" by (simp add: post_cep_def)
  have dn: "json_Decode CepRequest_fields CepRequest_zero (rq_body ?n) = Inl UnmarshalTypeError"
    by (simp add: post_cep_def CepRequest_examples)
  have 2: "reply_status (fst (serve_cep ?e ?n)) = Some 400"
    using serve_cep_errors(2)[OF mn dn] by (simp add: http_Error_def)
  from s 1 2 show ?thesis by (simp add: post_cep_def)
qed

text \<open>
  Claim C10, as amended. A \<^verbatim>\<open>POST\<close> whose body is a JSON object in which no key is
  \<^verbatim>\<open>cep\<close> in any mix of upper and lower case, or in which every such key holds the
  empty string, is not rejected as malformed: it decodes to the empty code and the
  reply is 422 with the message \<^verbatim>\<open>invalid zipcode\<close>, not 400. The counterexample to the
  claim as it was stated is the body \<^verbatim>\<open>{"CEP": "01001000"}\<close>: it has no key
  \<^verbatim>\<open>cep\<close>, the decoder matches \<^verbatim>\<open>CEP\<close> to the field, and the request is forwarded.
\<close>

theorem missing_cep_is_invalid_zipcode:
  assumes "rq_method r = ''POST''" "rq_body r = Doc (JObject kvs)"
    and "\<forall>kv\<in>set kvs.
           fst kv \<in> set [''cep'', ''ceP'', ''cEp'', ''cEP'', ''Cep'', ''CeP'', ''CEp'', ''CEP'']
             \<longrightarrow> snd kv = JString []"
  shows "json_Decode CepRequest_fields CepRequest_zero (rq_body r) = Inr \<lparr>Cep = []\<rparr>
       \<and> reply_status (fst (serve_cep e r)) = Some 422
       \<and> reply_status (fst (serve_cep e r)) \<noteq> Some 400
       \<and> reply_body (fst (serve_cep e r)) = Some (Bytes (''invalid zipcode'' @ newline))"
proof -
  from assms(3) have "\<forall>kv\<in>set kvs. fold_eq_ascii ''cep'' (fst kv) \<longrightarrow> snd kv = JString []"
    unfolding fold_eq_cep .
  then have d: "json_Decode CepRequest_fields CepRequest_zero (rq_body r) = Inr \<lparr>Cep = []\<rparr>"
    using assms(2)
    by (simp add: json_Decode_def decode_struct_def CepRequest_zero_def decode_members_cep_empty)
  have "\<not> validateCEP (Cep \<lparr>Cep = []\<rparr>)" by simp
  with assms(1) d have "fst (serve_cep e r) = http_Error ''invalid zipcode'' 422"
    by (rule serve_cep_errors(3))
  with d show ?thesis by (simp add: http_Error_def)
qed

theorem missing_cep_is_invalid_zipcode_witness:
  "reply_status (fst (serve_cep (servico_a ids_a unreachable) (post_cep (JObject [])))) = Some 422
   \<and> reply_status (fst (serve_cep (servico_a ids_a unreachable)
        (post_cep (JObject [(''cep'', JString [])])))) = Some 422
   \<and> reply_status (fst (serve_cep (servico_a ids_a unreachable)
        (post_cep (JObject [(''zipcode'', JString ''01001000'')])))) = Some 422
   \<and> reply_body (fst (serve_cep (servico_a ids_a unreachable)
        (post_cep (JObject [(''zipcode'', JString ''01001000'')]))))
       = Some (Bytes (''invalid zipcode'' @ newline))"
  using missing_cep_is_invalid_zipcode[where r = "post_cep (JObject [])" and kvs = "[]"
      and e = "servico_a ids_a unreachable"]
    missing_cep_is_invalid_zipcode[where r = "post_cep (JObject [(''cep'', JString [])])"
      and kvs = "[(''cep'', JString [])]" and e = "servico_a ids_a unreachable"]
    missing_cep_is_invalid_zipcode[where r = "post_cep (JObject [(''zipcode'', JString ''01001000'')])"
      and kvs = "[(''zipcode'', JString ''01001000'')]" and e = "servico_a ids_a unreachable"]
  by (simp add: post_cep_def)

theorem missing_cep_counterexample:
  "''cep'' \<notin> fst ` set [(''CEP'', JString ''01001000'')]
   \<and> reply_status (fst (serve_cep (servico_a ids_a (servico_b_net (servico_b False ids_b external_ok)))
        (post_cep (JObject [(''CEP'', JString ''01001000'')])))) = Some 200"
proof -
  let ?r = "post_cep (JObject [(''CEP'', JString ''01001000'')])"
  have m: "rq_method ?r = ''POST''" by (simp add: post_cep_def)
  have d: "json_Decode CepRequest_fields CepRequest_zero (rq_body ?r) = Inr \<lparr>Cep = ''01001000''\<rparr>"
    by (simp add: post_cep_def CepRequest_examples)
  have v: "validateCEP (Cep \<lparr>Cep = ''01001000''\<rparr>)" by (simp add: validateCEP_examples)
  have a: "answers (servico_a ids_a (servico_b_net (servico_b False ids_b external_ok)))
             (ServicoB_tempo (Cep \<lparr>Cep = ''01001000''\<rparr>))
             (Response \<lparr>rs_status = 200,
                 rs_body = Encoded \<lparr>City = ''Sao Paulo'', TempC = Fin 25, TempF = Fin 77, TempK = Fin 298\<rparr>,
                 rs_cut = None\<rparr>)"
    using answers_servico_b_net_example by simp
  from serve_cep_relay[OF m d v a] show ?thesis by simp
qed

section \<open>Properties of the trace\<close>

lemma odd_word_not_zero: "(1 + 2 * w :: 'a::len word) \<noteq> 0"
proof
  assume "1 + 2 * w = 0"
  then have "even (1 + 2 * w)" by simp
  then show False by simp
qed

lemma valid_ids_examples: "valid_ids ids_a" "valid_ids ids_b"
proof -
  have a: "(11 + 2 * w :: 'a::len word) = 1 + 2 * (5 + w)" for w by simp
  have b: "(101 + 2 * w :: 'a::len word) = 1 + 2 * (50 + w)" for w by simp
  have c: "(21 + 2 * w :: 'a::len word) = 1 + 2 * (10 + w)" for w by simp
  have d: "(201 + 2 * w :: 'a::len word) = 1 + 2 * (100 + w)" for w by simp
  show "valid_ids ids_a"
    unfolding valid_ids_def ids_a_def by (simp only: id_source.simps a b odd_word_not_zero) simp
  show "valid_ids ids_b"
    unfolding valid_ids_def ids_b_def by (simp only: id_source.simps c d odd_word_not_zero) simp
qed

lemma grows_refl: "grows t h p p"
  by (simp add: grows_def)

lemma grows_trans:
  assumes "grows t h p p'" "grows t h p' p''"
  shows "grows t h p p''"
proof -
  from assms(1) obtain sps1 cs1 where 1: "p_spans p' = p_spans p @ sps1"
    "list_all (\<lambda>sp. sc_trace (sp_ctx sp) = t) sps1" "p_calls p' = p_calls p @ cs1"
    "list_all (\<lambda>rq. header_trace (out_headers rq) = h) cs1"
    unfolding grows_def by blast
  from assms(2) obtain sps2 cs2 where 2: "p_spans p'' = p_spans p' @ sps2"
    "list_all (\<lambda>sp. sc_trace (sp_ctx sp) = t) sps2" "p_calls p'' = p_calls p' @ cs2"
    "list_all (\<lambda>rq. header_trace (out_headers rq) = h) cs2"
    unfolding grows_def by blast
  show ?thesis
    unfolding grows_def
    by (rule exI[of _ "sps1 @ sps2"], rule exI[of _ "cs1 @ cs2"]) (simp add: 1 2)
qed

lemma tracer_Start_child:
  assumes "g_provider (e_otel e) = SdkProvider s" "valid_ids (e_ids e)" "in_trace t ctx"
    and "tracer_Start e p ctx name = (ctx', p')"
  shows "in_trace t ctx'" "grows t h p p'"
proof -
  from assms(3) obtain psc where psc: "ctx_span ctx = Some psc" "sc_valid psc" "sc_trace psc = t"
    by (auto simp: in_trace_def split: option.splits)
  have n: "new_span (e_ids e) (p_drawn p) \<noteq> 0" using assms(2) by (simp add: valid_ids_def)
  from psc(2,3) have "t \<noteq> 0" by (auto simp: sc_valid_def)
  with assms(1,4) psc n show "in_trace t ctx'"
    by (auto simp: tracer_Start_def Let_def in_trace_def sc_valid_def)
  from assms(1,4) psc show "grows t h p p'"
    by (auto simp: tracer_Start_def Let_def grows_def)
qed

lemma tracer_Start_root:
  assumes "g_provider (e_otel e) = SdkProvider s" "valid_ids (e_ids e)" "ctx_span ctx = None"
    and "tracer_Start e p ctx name = (ctx', p')"
  shows "in_trace (new_trace (e_ids e) (p_drawn p)) ctx'"
    "grows (new_trace (e_ids e) (p_drawn p)) h p p'"
proof -
  have n: "new_span (e_ids e) (p_drawn p) \<noteq> 0" "new_trace (e_ids e) (p_drawn p) \<noteq> 0"
    using assms(2) by (simp_all add: valid_ids_def)
  with assms(1,3,4) show "in_trace (new_trace (e_ids e) (p_drawn p)) ctx'"
    by (auto simp: tracer_Start_def Let_def in_trace_def sc_valid_def)
  from assms(1,3,4) show "grows (new_trace (e_ids e) (p_drawn p)) h p p'"
    by (auto simp: tracer_Start_def Let_def grows_def)
qed

lemma Inject_header_trace:
  assumes "in_trace t ctx"
  shows "header_trace (Inject ps ctx h) = (if TraceContext \<in> set ps then Some t else header_trace h)"
proof -
  from assms obtain sc where sc: "ctx_span ctx = Some sc" "sc_valid sc" "sc_trace sc = t"
    by (auto simp: in_trace_def split: option.splits)
  have one: "header_trace (inject1 q ctx h') = (if q = TraceContext then Some t else header_trace h')"
    for q h'
    using sc by (cases q) (auto simp: header_trace_def sc_valid_def)
  have "header_trace (fold (\<lambda>q. inject1 q ctx) ps h) =
           (if TraceContext \<in> set ps then Some t else header_trace h)"
    by (induction ps arbitrary: h) (simp_all add: one del: inject1.simps)
  then show ?thesis by (simp add: Inject_def)
qed

lemma Extract_in_trace:
  "header_trace h = Some t \<Longrightarrow> TraceContext \<in> set ps \<Longrightarrow> in_trace t (Extract ps h ctx)"
  "header_trace h = None \<or> TraceContext \<notin> set ps \<Longrightarrow> ctx_span (Extract ps h ctx) = ctx_span ctx"
proof -
  have keep: "ctx_span (extract1 q h c) = ctx_span c" if "header_trace h = None \<or> q \<noteq> TraceContext" for q c
    using that by (cases q) (auto simp: header_trace_def sc_valid_def Let_def split: option.splits if_splits)
  have made: "in_trace t (extract1 TraceContext h c)" if "header_trace h = Some t" for c
    using that by (auto simp: header_trace_def in_trace_def sc_valid_def Let_def split: option.splits if_splits)
  have stay: "in_trace t (extract1 q h c)" if "header_trace h = Some t" "in_trace t c" for q c
    using that
    by (cases q) (auto simp: header_trace_def in_trace_def sc_valid_def Let_def split: option.splits if_splits)
  have stays: "in_trace t (fold (\<lambda>q. extract1 q h) qs c)" if "header_trace h = Some t" "in_trace t c" for qs c
    using that(2) by (induction qs arbitrary: c) (simp_all add: stay[OF that(1)] del: extract1.simps)
  show "in_trace t (Extract ps h ctx)" if "header_trace h = Some t" "TraceContext \<in> set ps"
    using that(2) unfolding Extract_def
  proof (induction ps arbitrary: ctx)
    case Nil
    then show ?case by simp
  next
    case (Cons q qs)
    show ?case
    proof (cases "q = TraceContext")
      case True
      then show ?thesis using stays[OF that(1) made[OF that(1)]] by simp
    next
      case False
      with Cons show ?thesis by simp
    qed
  qed
  show "ctx_span (Extract ps h ctx) = ctx_span ctx" if "header_trace h = None \<or> TraceContext \<notin> set ps"
    using that unfolding Extract_def
    by (induction ps arbitrary: ctx) (auto simp: keep simp del: extract1.simps)
qed

lemma client_Do_grows:
  assumes "g_provider (e_otel e) = SdkProvider s" "valid_ids (e_ids e)" "in_trace t ctx"
    and "header_trace (out_headers rq) = None"
    and "client_Do e p ctx rq = (res, p')"
  shows "grows t (carried e t) p p'"
proof -
  obtain ctx1 p1 where ts: "tracer_Start e p ctx (''HTTP '' @ out_method rq) = (ctx1, p1)"
    by fastforce
  note c = tracer_Start_child[OF assms(1-3) ts]
  let ?sent = "rq\<lparr>out_headers := Inject (g_propagators (e_otel e)) ctx1 (out_headers rq)\<rparr>"
  have hdr: "header_trace (out_headers ?sent) = carried e t"
    using Inject_header_trace[OF c(1)] assms(4) by (simp add: carried_def)
  have "p' = p1\<lparr>p_calls := p_calls p1 @ [?sent]\<rparr>"
    using ts assms(5) by (simp add: client_Do_def Let_def)
  moreover have "grows t (carried e t) p1 (p1\<lparr>p_calls := p_calls p1 @ [?sent]\<rparr>)"
    using hdr by (simp add: grows_def del: One_nat_def)
  ultimately show ?thesis using grows_trans[OF c(2)] by simp
qed

lemma new_GET_no_traceparent: "header_trace (out_headers (new_GET u)) = None"
  by (simp add: new_GET_def no_headers_def header_trace_def)

lemma BuscaCEP_grows:
  assumes "g_provider (e_otel e) = SdkProvider s" "valid_ids (e_ids e)" "in_trace t ctx"
    and "BuscaCEP e p ctx cep = (res, p')"
  shows "grows t (carried e t) p p'"
proof -
  obtain ctx1 p1 where ts: "tracer_Start e p ctx ''ViaCEP API'' = (ctx1, p1)"
    by fastforce
  note c = tracer_Start_child[OF assms(1-3) ts]
  obtain r2 p2 where cd: "client_Do e p1 ctx1 (new_GET (ViaCEP_ws cep)) = (r2, p2)"
    by fastforce
  have "p' = p2"
    using ts cd assms(4) by (auto simp: BuscaCEP_def split: http_result.splits if_splits prod.splits)
  then show ?thesis
    using grows_trans[OF c(2) client_Do_grows[OF assms(1,2) c(1) new_GET_no_traceparent cd]]
    by simp
qed

lemma fetchWeather_grows:
  assumes "g_provider (e_otel e) = SdkProvider s" "valid_ids (e_ids e)" "in_trace t ctx"
    and "fetchWeather e p ctx cidade = (res, p')"
  shows "grows t (carried e t) p p'"
proof -
  obtain ctx1 p1 where ts: "tracer_Start e p ctx ''Buscar clima Open-Meteo'' = (ctx1, p1)"
    by fastforce
  note c = tracer_Start_child[OF assms(1-3) ts]
  obtain resG p2 where cdG: "client_Do e p1 ctx1 (new_GET (GeoSearch (QueryEscape cidade))) = (resG, p2)"
    by fastforce
  have g2: "grows t (carried e t) p p2"
    using grows_trans[OF c(2) client_Do_grows[OF assms(1,2) c(1) new_GET_no_traceparent cdG]] .
  have g3: "grows t (carried e t) p p3" if "client_Do e p2 ctx1 (new_GET u) = (resW, p3)" for u resW p3
    using grows_trans[OF g2 client_Do_grows[OF assms(1,2) c(1) new_GET_no_traceparent that]] .
  have "p' = p2 \<or> (\<exists>u resW. client_Do e p2 ctx1 (new_GET u) = (resW, p'))"
    using ts cdG assms(4)
    by (simp add: fetchWeather_def split: prod.splits http_result.splits sum.splits list.splits if_splits)
       blast+
  with g2 g3 show ?thesis by blast
qed

lemma WeatherHandler_grows:
  assumes "g_provider (e_otel e) = SdkProvider s" "valid_ids (e_ids e)" "in_trace t ctx"
    and "WeatherHandler e p ctx r = (rep, p')"
  shows "grows t (carried e t) p p'"
proof -
  obtain ctx1 p1 where ts: "tracer_Start e p ctx ''Processar tempo por CEP'' = (ctx1, p1)"
    by fastforce
  note c = tracer_Start_child[OF assms(1-3) ts]
  obtain resC pb where b: "BuscaCEP e p1 ctx1 (query_Get (rq_query r) ''cep'') = (resC, pb)"
    by fastforce
  have gb: "grows t (carried e t) p pb"
    using grows_trans[OF c(2) BuscaCEP_grows[OF assms(1,2) c(1) b]] .
  have gf: "grows t (carried e t) p pf" if "fetchWeather e pb ctx1 city = (resT, pf)" for city resT pf
    using grows_trans[OF gb fetchWeather_grows[OF assms(1,2) c(1) that]] .
  have "p' = p1 \<or> p' = pb \<or> (\<exists>city resT. fetchWeather e pb ctx1 city = (resT, p'))"
    using ts b assms(4)
    by (simp add: WeatherHandler_def Let_def split: prod.splits sum.splits if_splits) blast+
  with c(2) gb gf show ?thesis by blast
qed

lemma CepHandler_grows:
  assumes "g_provider (e_otel e) = SdkProvider s" "valid_ids (e_ids e)" "in_trace t ctx"
    and "CepHandler e p ctx r = (rep, p')"
  shows "grows t (carried e t) p p'"
proof -
  obtain ctx1 p1 where ts: "tracer_Start e p ctx ''Processar CEP'' = (ctx1, p1)"
    by fastforce
  note c = tracer_Start_child[OF assms(1-3) ts]
  have g: "grows t (carried e t) p p2" if "client_Do e p1 ctx1 (new_GET u) = (res, p2)" for u res p2
    using grows_trans[OF c(2) client_Do_grows[OF assms(1,2) c(1) new_GET_no_traceparent that]] .
  have "p' = p1 \<or> (\<exists>u res. client_Do e p1 ctx1 (new_GET u) = (res, p'))"
    using ts assms(4)
    by (simp add: CepHandler_def split: prod.splits http_result.splits sum.splits if_splits) blast+
  with c(2) g show ?thesis by blast
qed

lemma tracer_Start_spans:
  assumes "g_provider (e_otel e) = SdkProvider s" "tracer_Start e p ctx name = (ctx', p')"
  shows "p_spans p' \<noteq> []"
  using assms by (auto simp: tracer_Start_def Let_def)

lemma grows_spans: "grows t h p p' \<Longrightarrow> p_spans p \<noteq> [] \<Longrightarrow> p_spans p' \<noteq> []"
  by (auto simp: grows_def)

lemma grows_proc0:
  assumes "grows t h proc0 p'"
  shows "list_all (\<lambda>sp. sc_trace (sp_ctx sp) = t) (p_spans p')"
    "list_all (\<lambda>rq. header_trace (out_headers rq) = h) (p_calls p')"
  using assms by (auto simp: grows_def proc0_def)

lemma server_span:
  assumes "g_provider (e_otel e) = SdkProvider s" "valid_ids (e_ids e)"
  obtains ctx p where
    "tracer_Start e proc0 (Extract (g_propagators (e_otel e)) (rq_headers r) background) operation
       = (ctx, p)"
    "in_trace (request_trace e r) ctx" "grows (request_trace e r) h proc0 p" "p_spans p \<noteq> []"
proof -
  let ?ctx0 = "Extract (g_propagators (e_otel e)) (rq_headers r) background"
  obtain ctx p where ts: "tracer_Start e proc0 ?ctx0 operation = (ctx, p)"
    by fastforce
  have sp: "p_spans p \<noteq> []" using assms(1) ts by (rule tracer_Start_spans)
  show ?thesis
  proof (cases "\<exists>t. header_trace (rq_headers r) = Some t \<and> TraceContext \<in> set (g_propagators (e_otel e))")
    case True
    then obtain t where t: "header_trace (rq_headers r) = Some t"
      "TraceContext \<in> set (g_propagators (e_otel e))"
      by blast
    then have rt: "request_trace e r = t" by (simp add: request_trace_def)
    have "in_trace t ?ctx0" using t by (rule Extract_in_trace(1))
    from tracer_Start_child[OF assms this ts] show ?thesis using that[OF ts] sp rt by simp
  next
    case False
    then have rt: "request_trace e r = new_trace (e_ids e) (p_drawn proc0)"
      by (auto simp: request_trace_def proc0_def split: option.splits)
    from False have "header_trace (rq_headers r) = None \<or> TraceContext \<notin> set (g_propagators (e_otel e))"
      by (cases "header_trace (rq_headers r)") auto
    then have "ctx_span ?ctx0 = None"
      using Extract_in_trace(2)[of "rq_headers r" "g_propagators (e_otel e)" background]
      by (simp add: background_def)
    from tracer_Start_root[OF assms this ts] show ?thesis using that[OF ts] sp rt by simp
  qed
qed

lemma serve_tempo_trace:
  assumes "g_provider (e_otel e) = SdkProvider s" "valid_ids (e_ids e)"
  shows "list_all (\<lambda>sp. sc_trace (sp_ctx sp) = request_trace e r) (p_spans (snd (serve_tempo e r)))"
    "p_spans (snd (serve_tempo e r)) \<noteq> []"
    "list_all (\<lambda>rq. header_trace (out_headers rq) = carried e (request_trace e r))
       (p_calls (snd (serve_tempo e r)))"
proof -
  obtain ctx p where s:
    "tracer_Start e proc0 (Extract (g_propagators (e_otel e)) (rq_headers r) background) ''WeatherHandler''
       = (ctx, p)"
    "in_trace (request_trace e r) ctx"
    "grows (request_trace e r) (carried e (request_trace e r)) proc0 p" "p_spans p \<noteq> []"
    using assms by (rule server_span)
  obtain rep p' where h: "WeatherHandler e p ctx r = (rep, p')" by fastforce
  from s(1) h have sv: "snd (serve_tempo e r) = p'"
    by (simp add: serve_tempo_def otelhttp_Handler_def)
  note g = WeatherHandler_grows[OF assms s(2) h]
  from grows_proc0[OF grows_trans[OF s(3) g]] grows_spans[OF g s(4)] sv
  show "list_all (\<lambda>sp. sc_trace (sp_ctx sp) = request_trace e r) (p_spans (snd (serve_tempo e r)))"
    "p_spans (snd (serve_tempo e r)) \<noteq> []"
    "list_all (\<lambda>rq. header_trace (out_headers rq) = carried e (request_trace e r))
       (p_calls (snd (serve_tempo e r)))"
    by simp_all
qed

lemma serve_cep_trace:
  assumes "g_provider (e_otel e) = SdkProvider s" "valid_ids (e_ids e)"
  shows "list_all (\<lambda>sp. sc_trace (sp_ctx sp) = request_trace e r) (p_spans (snd (serve_cep e r)))"
    "p_spans (snd (serve_cep e r)) \<noteq> []"
    "list_all (\<lambda>rq. header_trace (out_headers rq) = carried e (request_trace e r))
       (p_calls (snd (serve_cep e r)))"
proof -
  obtain ctx p where s:
    "tracer_Start e proc0 (Extract (g_propagators (e_otel e)) (rq_headers r) background) ''CepHandler''
       = (ctx, p)"
    "in_trace (request_trace e r) ctx"
    "grows (request_trace e r) (carried e (request_trace e r)) proc0 p" "p_spans p \<noteq> []"
    using assms by (rule server_span)
  obtain rep p' where h: "CepHandler e p ctx r = (rep, p')" by fastforce
  from s(1) h have sv: "snd (serve_cep e r) = p'"
    by (simp add: serve_cep_def otelhttp_Handler_def)
  note g = CepHandler_grows[OF assms s(2) h]
  from grows_proc0[OF grows_trans[OF s(3) g]] grows_spans[OF g s(4)] sv
  show "list_all (\<lambda>sp. sc_trace (sp_ctx sp) = request_trace e r) (p_spans (snd (serve_cep e r)))"
    "p_spans (snd (serve_cep e r)) \<noteq> []"
    "list_all (\<lambda>rq. header_trace (out_headers rq) = carried e (request_trace e r))
       (p_calls (snd (serve_cep e r)))"
    by simp_all
qed

lemma servico_a_settings:
  "g_provider (e_otel (servico_a ids net)) = SdkProvider ''servico-a''"
  "g_propagators (e_otel (servico_a ids net)) = []"
  "e_ids (servico_a ids net) = ids"
  "carried (servico_a ids net) t = None"
  "request_trace (servico_a ids net) r = new_trace ids 0"
  by (simp_all add: servico_a_def initTracer_servico_a_def otel_default_def carried_def
      request_trace_def split: option.splits)

lemma servico_b_settings:
  "g_provider (e_otel (servico_b fused ids net)) = SdkProvider ''servico-b''"
  "g_propagators (e_otel (servico_b fused ids net)) = [TraceContext, Baggage]"
  "e_ids (servico_b fused ids net) = ids"
  "carried (servico_b fused ids net) t = Some t"
  "request_trace (servico_b fused ids net) r =
     (case header_trace (rq_headers r) of None \<Rightarrow> new_trace ids 0 | Some t \<Rightarrow> t)"
  by (simp_all add: servico_b_def initTracer_servico_b_def otel_default_def carried_def
      request_trace_def split: option.splits)

text \<open>
  What servico-a does for every request: its spans are in one new trace, and no
  request that it sends carries that trace.
\<close>

lemma gateway_traces:
  assumes "valid_ids ids"
  shows "list_all (\<lambda>sp. sc_trace (sp_ctx sp) = new_trace ids 0) (p_spans (snd (serve_cep (servico_a ids net) r)))"
    "p_spans (snd (serve_cep (servico_a ids net) r)) \<noteq> []"
    "list_all (\<lambda>rq. header_trace (out_headers rq) = None) (p_calls (snd (serve_cep (servico_a ids net) r)))"
  using serve_cep_trace[of "servico_a ids net" "''servico-a''" r] assms
  by (simp_all add: servico_a_settings)

text \<open>
  What servico-b does for every request: its spans are in the trace of the request's
  header, or in a new trace when the header has none, and every request that it sends
  carries that trace.
\<close>

lemma orchestrator_traces:
  assumes "valid_ids ids"
  shows "list_all (\<lambda>sp. sc_trace (sp_ctx sp) = request_trace (servico_b fused ids net) r)
           (p_spans (snd (serve_tempo (servico_b fused ids net) r)))"
    "p_spans (snd (serve_tempo (servico_b fused ids net) r)) \<noteq> []"
    "list_all (\<lambda>rq. header_trace (out_headers rq) = Some (request_trace (servico_b fused ids net) r))
       (p_calls (snd (serve_tempo (servico_b fused ids net) r)))"
  using serve_tempo_trace[of "servico_b fused ids net" "''servico-b''" r] assms
  by (simp_all add: servico_b_settings)

text \<open>
  The two services together, for every request to the gateway: servico-b serves each
  request of servico-a in a new trace of its own.
\<close>

lemma orchestrator_starts_new_trace:
  assumes "valid_ids ia" "valid_ids ib"
    and "rq \<in> set (p_calls (snd (serve_cep (servico_a ia net) r)))"
  shows "list_all (\<lambda>sp. sc_trace (sp_ctx sp) = new_trace ib 0) (servico_b_spans (servico_b fused ib ext) rq)"
    "list_all (\<lambda>c. header_trace (out_headers c) = Some (new_trace ib 0))
       (servico_b_calls (servico_b fused ib ext) rq)"
proof -
  have none: "header_trace (out_headers rq) = None"
    using gateway_traces(3)[OF assms(1), of net r] assms(3) by (simp add: list_all_iff)
  have rt: "request_trace (servico_b fused ib ext) (as_inbound rq cep) = new_trace ib 0" for cep
    using none by (simp add: servico_b_settings as_inbound_def)
  show "list_all (\<lambda>sp. sc_trace (sp_ctx sp) = new_trace ib 0) (servico_b_spans (servico_b fused ib ext) rq)"
    using orchestrator_traces(1)[OF assms(2), of fused ext "as_inbound rq cep" for cep]
    by (simp add: servico_b_spans_def rt split: url.splits)
  show "list_all (\<lambda>c. header_trace (out_headers c) = Some (new_trace ib 0))
       (servico_b_calls (servico_b fused ib ext) rq)"
    using orchestrator_traces(3)[OF assms(2), of fused ext "as_inbound rq cep" for cep]
    by (simp add: servico_b_calls_def rt split: url.splits)
qed

text \<open>
  The same with the propagator of servico-b installed in servico-a as well: then
  servico-b serves each request of servico-a in the trace of the gateway's spans.
\<close>

lemma trace_carried_with_propagator:
  assumes "valid_ids ia" "valid_ids ib"
    and "ea = (servico_a ia net)\<lparr>e_otel := (e_otel (servico_a ia net))\<lparr>g_propagators := [TraceContext, Baggage]\<rparr>\<rparr>"
    and "rq \<in> set (p_calls (snd (serve_cep ea r)))"
  shows "list_all (\<lambda>sp. sc_trace (sp_ctx sp) = request_trace ea r) (p_spans (snd (serve_cep ea r)))"
    "list_all (\<lambda>sp. sc_trace (sp_ctx sp) = request_trace ea r) (servico_b_spans (servico_b fused ib ext) rq)"
proof -
  have set: "g_provider (e_otel ea) = SdkProvider ''servico-a''" "valid_ids (e_ids ea)"
    "carried ea t = Some t" for t
    using assms(1) by (simp_all add: assms(3) servico_a_settings carried_def)
  show "list_all (\<lambda>sp. sc_trace (sp_ctx sp) = request_trace ea r) (p_spans (snd (serve_cep ea r)))"
    using set(1,2) by (rule serve_cep_trace(1))
  have "header_trace (out_headers rq) = Some (request_trace ea r)"
    using serve_cep_trace(3)[OF set(1,2), of r] assms(4) by (simp add: list_all_iff set(3))
  then have rt: "request_trace (servico_b fused ib ext) (as_inbound rq cep) = request_trace ea r" for cep
    by (simp add: servico_b_settings as_inbound_def)
  show "list_all (\<lambda>sp. sc_trace (sp_ctx sp) = request_trace ea r) (servico_b_spans (servico_b fused ib ext) rq)"
    using orchestrator_traces(1)[OF assms(2), of fused ext "as_inbound rq cep" for cep]
    by (simp add: servico_b_spans_def rt split: url.splits)
qed

lemma set_singleton_list: "xs \<noteq> [] \<Longrightarrow> list_all (\<lambda>x. f x = a) xs \<Longrightarrow> set (map f xs) = {a}"
  by (cases xs) (auto simp: list_all_iff)

text \<open>
  Claim C1 says that the trace identifier of the span started at the gateway is
  carried unchanged into the handler span of servico-b and into the spans of its
  three calls. The code, run on the request \<^verbatim>\<open>POST /cep {"cep": "01001000"}\<close> with
  every service answering: the reply is 200; the spans of the gateway are in the
  trace 11; the one request it sends carries no trace, because \<^verbatim>\<open>initTracer\<close> of
  servico-a installs no propagator; servico-b serves that request in the new
  trace 21, and its three calls carry 21. So the propagation holds inside servico-b
  (\<open>orchestrator_traces\<close>) and breaks between the two services, for every request
  (\<open>orchestrator_starts_new_trace\<close>); with the propagator of servico-b installed in
  servico-a it would hold (\<open>trace_carried_with_propagator\<close>).
\<close>

theorem gateway_trace_is_not_carried:
  "reply_status (fst (serve_cep (servico_a ids_a (servico_b_net (servico_b False ids_b external_ok)))
       (post_cep (JObject [(''cep'', JString ''01001000'')])))) = Some 200
   \<and> set (span_traces (p_spans (snd (serve_cep (servico_a ids_a (servico_b_net (servico_b False ids_b external_ok)))
       (post_cep (JObject [(''cep'', JString ''01001000'')])))))) = {11}
   \<and> header_traces (p_calls (snd (serve_cep (servico_a ids_a (servico_b_net (servico_b False ids_b external_ok)))
       (post_cep (JObject [(''cep'', JString ''01001000'')]))))) = [None]
   \<and> list_all (\<lambda>rq. set (span_traces (servico_b_spans (servico_b False ids_b external_ok) rq)) = {21}
                  \<and> header_traces (servico_b_calls (servico_b False ids_b external_ok) rq)
                      = [Some 21, Some 21, Some 21])
       (p_calls (snd (serve_cep (servico_a ids_a (servico_b_net (servico_b False ids_b external_ok)))
       (post_cep (JObject [(''cep'', JString ''01001000'')])))))"
proof -
  let ?eb = "servico_b False ids_b external_ok"
  let ?ea = "servico_a ids_a (servico_b_net ?eb)"
  let ?r = "post_cep (JObject [(''cep'', JString ''01001000'')])"
  have m: "rq_method ?r = ''POST''" by (simp add: post_cep_def)
  have d: "json_Decode CepRequest_fields CepRequest_zero (rq_body ?r) = Inr \<lparr>Cep = ''01001000''\<rparr>"
    by (simp add: post_cep_def CepRequest_examples)
  have v: "validateCEP (Cep \<lparr>Cep = ''01001000''\<rparr>)" by (simp add: validateCEP_examples)
  have a: "answers ?ea (ServicoB_tempo (Cep \<lparr>Cep = ''01001000''\<rparr>))
             (Response \<lparr>rs_status = 200,
                 rs_body = Encoded \<lparr>City = ''Sao Paulo'', TempC = Fin 25, TempF = Fin 77, TempK = Fin 298\<rparr>,
                 rs_cut = None\<rparr>)"
    using answers_servico_b_net_example by simp
  have ta: "new_trace ids_a 0 = 11" and tb: "new_trace ids_b 0 = 21"
    by (simp_all add: ids_a_def ids_b_def)
  have 1: "reply_status (fst (serve_cep ?ea ?r)) = Some 200"
    using serve_cep_relay[OF m d v a] by simp
  have 2: "set (span_traces (p_spans (snd (serve_cep ?ea ?r)))) = {11}"
    unfolding span_traces_def
    using gateway_traces(1,2)[OF valid_ids_examples(1), of "servico_b_net ?eb" ?r]
    by (intro set_singleton_list) (simp_all add: ta)
  obtain sent where sent: "p_calls (snd (serve_cep ?ea ?r)) = [sent]"
    "out_url sent = ServicoB_tempo ''01001000''"
    using serve_cep_forward_calls[OF m d v, of ?ea] by auto
  have 3: "header_traces (p_calls (snd (serve_cep ?ea ?r))) = [None]"
    using gateway_traces(3)[OF valid_ids_examples(1), of "servico_b_net ?eb" ?r] sent
    by (simp add: header_traces_def)
  have in_calls: "sent \<in> set (p_calls (snd (serve_cep ?ea ?r)))" using sent by simp
  note nb = orchestrator_starts_new_trace[OF valid_ids_examples in_calls, of False external_ok]
  have q: "query_Get (rq_query (as_inbound sent ''01001000'')) ''cep'' = ''01001000''"
    by (simp add: as_inbound_def)
  have spans_b: "servico_b_spans ?eb sent \<noteq> []"
    using orchestrator_traces(2)[OF valid_ids_examples(2), of False external_ok "as_inbound sent ''01001000''"]
    by (simp add: servico_b_spans_def sent)
  have 4: "set (span_traces (servico_b_spans ?eb sent)) = {21}"
    unfolding span_traces_def using spans_b nb(1) by (intro set_singleton_list) (simp_all add: tb)
  have len: "length (servico_b_calls ?eb sent) = 3"
    using serve_tempo_example_calls[OF q, of False ids_b] by (simp add: servico_b_calls_def sent)
  have 5: "header_traces (servico_b_calls ?eb sent) = [Some 21, Some 21, Some 21]"
  proof -
    from len obtain c1 c2 c3 where c: "servico_b_calls ?eb sent = [c1, c2, c3]"
      by (auto simp: length_Suc_conv numeral_3_eq_3)
    with nb(2) show ?thesis by (simp add: header_traces_def tb)
  qed
  from 1 2 3 4 5 sent show ?thesis by simp
qed

end
